theory Spec2Isabelle
  imports Complex_Main
begin

section \<open>Data model\<close>

text \<open>
  The library wraps three smart contracts (the AMM pool \<open>Pool.ts\<close>, the side-staking
  contract \<open>SideStaking.ts\<close> and the NFT factory). Every method is an \<open>async\<close> function
  that reads from a contract, estimates gas, sends a transaction and logs errors.

  An address-typed value is a JavaScript string that may be \<open>null\<close> at run time: the
  accessors return \<open>null\<close> after a failed read and the result flows into later calls.
  \<open>None\<close> is \<open>null\<close>. Human-readable amounts are decimal strings; they are modelled
  as the rational numbers they denote. Integer fixed-point units returned by a contract
  are naturals; units computed by the client are integers.
\<close>

type_synonym address = "string option"
type_synonym amount = rat

text \<open>
  The exceptions of the sources, one constructor per \<open>throw new Error(...)\<close> message.
  \<open>Rejected\<close> is a failure raised by the network layer (a contract read, an estimation
  or a send that was rejected) with its message; \<open>TypeError\<close> is a property access on
  \<open>null\<close>; \<open>InvalidNumber\<close> is a number conversion applied to \<open>null\<close> or to a malformed
  number.
\<close>

datatype error =
    Rejected string
  | TokenAmountInGreaterThan amount
  | TokenAmountOutGreaterThan amount
  | CallerIsNotMarketFeeCollector
  | CallerIsNotFactoryOwner
  | TemplateIndexDoesntExist
  | TemplateIndexCannotBeZero
  | TemplateIsNotActive
  | TemplateCannotBeZeroAddress
  | TemplateCannotBeAddressZero
  | TemplateIsAlreadyDisabled
  | TemplateIsAlreadyActive
  | TooManyOrders
  | TypeError
  | InvalidNumber
  | InvalidDecimals

text \<open>Arguments of a contract method. \<open>APromise\<close> is a promise passed without \<open>await\<close>.\<close>

datatype arg =
    ANull
  | AAddr string
  | AText string
  | ADec amount
  | AInt int
  | ABool bool
  | AList "arg list"
  | APromise "error + int"

definition addrArg :: "address \<Rightarrow> arg" where
  "addrArg a = (case a of None \<Rightarrow> ANull | Some x \<Rightarrow> AAddr x)"

text \<open>A transaction receipt: the emitted events by name, each with its return values.\<close>

type_synonym receipt = "(string \<times> string list) list"

text \<open>
  The result of a mutating method, \<open>G extends false ? TransactionReceipt : number\<close>:
  the gas estimate, or the receipt (\<open>null\<close> when the method swallowed a failure).
\<close>

datatype tx_result = Estimate nat | Receipt "receipt option"

text \<open>The structs returned by the pool's quote entry points, in integer units.\<close>

record quote_units =
  q_tokenAmount :: nat
  q_lpFeeAmount :: nat
  q_oceanFeeAmount :: nat
  q_publishMarketSwapFeeAmount :: nat
  q_consumeMarketSwapFeeAmount :: nat

text \<open>\<open>PoolPriceAndFees\<close>: the quote returned to the caller.\<close>

record PoolPriceAndFees =
  tokenAmount :: amount
  liquidityProviderSwapFeeAmount :: amount
  oceanFeeAmount :: amount
  publishMarketSwapFeeAmount :: amount
  consumeMarketSwapFeeAmount :: amount

text \<open>\<open>CurrentFees\<close>: the tokens and the amounts, as the contract returns them.\<close>

type_synonym CurrentFees = "string list \<times> nat list"

text \<open>\<open>TokenInOutMarket\<close>, \<open>AmountsInMaxFee\<close>, \<open>AmountsOutMaxFee\<close>; field names carry
  a prefix because record fields are global names. An optional field is \<open>None\<close> when the
  source finds it falsy (\<open>maxPrice\<close> absent or empty).\<close>

record TokenInOutMarket =
  mkt_tokenIn :: address
  mkt_tokenOut :: address
  mkt_marketFeeAddress :: address
  mkt_tokenInDecimals :: "int option"
  mkt_tokenOutDecimals :: "int option"

record AmountsInMaxFee =
  in_tokenAmountIn :: amount
  in_minAmountOut :: amount
  in_swapMarketFee :: amount
  in_maxPrice :: "amount option"

record AmountsOutMaxFee =
  out_maxAmountIn :: amount
  out_tokenAmountOut :: amount
  out_swapMarketFee :: amount
  out_maxPrice :: "amount option"

text \<open>\<open>Template\<close> and \<open>NftCreateData\<close> of the NFT factory; a missing template index
  is 0 and a missing name or symbol is the empty string, which the source treats alike.\<close>

record Template =
  templateAddress :: address
  isActive :: bool

record NftCreateData =
  nft_name :: string
  nft_symbol :: string
  nft_templateIndex :: nat
  nft_tokenURI :: string
  nft_transferable :: bool
  nft_owner :: address

section \<open>The environment\<close>

text \<open>
  Everything the classes consume and the sources do not contain is a field of the
  environment: the contract interface of web3 (reads by return type, gas estimation,
  send), web3's unit helpers, the outcome of the fair-gas-price query as a function of the
  time of the query,
  and the helpers imported from \<open>../../utils\<close> and inherited from \<open>SmartContract\<close>
  (\<open>calculateEstimatedGas\<close>, \<open>amountToUnits\<close>, \<open>unitsToAmount\<close>, \<open>calcMaxExactIn\<close>,
  \<open>calcMaxExactOut\<close>, \<open>MAX_UINT_256\<close>, \<open>generateDtName\<close> and the creation-parameter
  builders). The theorems hold for every environment.
\<close>

record env =
  call_uint :: "address \<Rightarrow> string \<Rightarrow> arg list \<Rightarrow> error + nat"
  call_address :: "address \<Rightarrow> string \<Rightarrow> arg list \<Rightarrow> error + address"
  call_addresses :: "address \<Rightarrow> string \<Rightarrow> arg list \<Rightarrow> error + string list"
  call_bool :: "address \<Rightarrow> string \<Rightarrow> arg list \<Rightarrow> error + bool"
  call_fees :: "address \<Rightarrow> string \<Rightarrow> arg list \<Rightarrow> error + CurrentFees"
  call_quote :: "address \<Rightarrow> string \<Rightarrow> arg list \<Rightarrow> error + quote_units"
  call_template :: "address \<Rightarrow> string \<Rightarrow> arg list \<Rightarrow> error + Template"
  web3_estimateGas :: "address \<Rightarrow> string \<Rightarrow> arg list \<Rightarrow> address \<Rightarrow> error + nat"
  web3_send :: "address \<Rightarrow> string \<Rightarrow> arg list \<Rightarrow> address \<Rightarrow> nat \<Rightarrow> nat \<Rightarrow> error + receipt"
  web3_toWei :: "amount \<Rightarrow> error + int"
  web3_fromWei :: "nat \<Rightarrow> amount"
  fairGasPrice :: "nat \<Rightarrow> error + nat"
  utils_calculateEstimatedGas :: "address \<Rightarrow> address \<Rightarrow> string \<Rightarrow> arg list \<Rightarrow> error + nat"
  utils_amountToUnits :: "address \<Rightarrow> amount \<Rightarrow> int option \<Rightarrow> error + int"
  utils_unitsToAmount :: "address \<Rightarrow> nat \<Rightarrow> int option \<Rightarrow> error + amount"
  utils_calcMaxExactIn :: "amount \<Rightarrow> amount"
  utils_calcMaxExactOut :: "amount \<Rightarrow> amount"
  utils_MAX_UINT_256 :: int
  utils_generateDtName :: "string \<times> string"
  utils_getErcCreationParams :: "arg \<Rightarrow> error + arg"
  utils_getPoolCreationParams :: "arg \<Rightarrow> error + arg"
  utils_getFreCreationParams :: "arg \<Rightarrow> error + arg"

section \<open>Effects\<close>

text \<open>
  The observable effects of a method, in the order they happen: a gas estimation, a
  query of the fair gas price (answered with a price, or failed with an error), a
  submitted transaction (contract, method, arguments, sender, gas limit, gas price) and a
  line written to the error log.
\<close>

datatype event =
    Estimated address string "arg list" address
  | PriceQueried nat
  | PriceQueryFailed error
  | Sent address string "arg list" address nat nat
  | Logged string error

type_synonym trace = "event list"

text \<open>An \<open>async\<close> computation: it extends the trace and returns a result or throws.\<close>

type_synonym 'a io = "trace \<Rightarrow> (error + 'a) \<times> trace"

definition returnE :: "'a \<Rightarrow> 'a io" where
  "returnE x = (\<lambda>s. (Inr x, s))"

definition throwE :: "error \<Rightarrow> 'a io" where
  "throwE e = (\<lambda>s. (Inl e, s))"

definition bindE :: "'a io \<Rightarrow> ('a \<Rightarrow> 'b io) \<Rightarrow> 'b io" where
  "bindE m f = (\<lambda>s. case m s of (Inl e, s') \<Rightarrow> (Inl e, s') | (Inr x, s') \<Rightarrow> f x s')"

text \<open>\<open>try { m } catch (e) { h e }\<close>\<close>

definition tryCatch :: "'a io \<Rightarrow> (error \<Rightarrow> 'a io) \<Rightarrow> 'a io" where
  "tryCatch m h = (\<lambda>s. case m s of (Inl e, s') \<Rightarrow> h e s' | (Inr x, s') \<Rightarrow> (Inr x, s'))"

text \<open>\<open>await\<close> of a step whose outcome the environment gives and which leaves no trace.\<close>

definition await :: "error + 'a \<Rightarrow> 'a io" where
  "await r = (\<lambda>s. (r, s))"

text \<open>\<open>LoggerInstance.error(msg + e.message)\<close>; a message the source continues on the
  next line keeps that line's indentation.\<close>

definition logError :: "string \<Rightarrow> error \<Rightarrow> unit io" where
  "logError msg e = (\<lambda>s. (Inr (), s @ [Logged msg e]))"

text \<open>\<open>calculateEstimatedGas(from, method, ...args)\<close>: the estimation is an effect, its
  outcome is the environment's.\<close>

definition calculateEstimatedGas ::
    "env \<Rightarrow> address \<Rightarrow> address \<Rightarrow> string \<Rightarrow> arg list \<Rightarrow> nat io" where
  "calculateEstimatedGas env account contract method args =
     (\<lambda>s. (utils_calculateEstimatedGas env account contract method args,
           s @ [Estimated contract method args account]))"

text \<open>\<open>contract.methods.method(...args).estimateGas({ from })\<close>\<close>

definition estimateGasCall ::
    "env \<Rightarrow> address \<Rightarrow> string \<Rightarrow> arg list \<Rightarrow> address \<Rightarrow> nat io" where
  "estimateGasCall env contract method args account =
     (\<lambda>s. (web3_estimateGas env contract method args account,
           s @ [Estimated contract method args account]))"

text \<open>\<open>getFairGasPrice()\<close>: the policy, a network helper, is asked at the time of the
  call; like every awaited step it answers or throws.\<close>

definition getFairGasPrice :: "env \<Rightarrow> nat io" where
  "getFairGasPrice env =
     (\<lambda>s. case fairGasPrice env (length s) of
            Inl e \<Rightarrow> (Inl e, s @ [PriceQueryFailed e])
          | Inr price \<Rightarrow> (Inr price, s @ [PriceQueried price]))"

text \<open>\<open>contract.methods.method(...args).send({ from, gas, gasPrice })\<close>\<close>

definition sendTx ::
    "env \<Rightarrow> address \<Rightarrow> string \<Rightarrow> arg list \<Rightarrow> address \<Rightarrow> nat \<Rightarrow> nat \<Rightarrow> receipt io" where
  "sendTx env contract method args account gas gasPrice =
     (\<lambda>s. (web3_send env contract method args account gas gasPrice,
           s @ [Sent contract method args account gas gasPrice]))"

text \<open>The submissions and the estimations of a trace.\<close>

fun isSent :: "event \<Rightarrow> bool" where
  "isSent (Sent c m a f g p) = True"
| "isSent ev = False"

fun isEstimated :: "event \<Rightarrow> bool" where
  "isEstimated (Estimated c m a f) = True"
| "isEstimated ev = False"

definition submissions :: "trace \<Rightarrow> event list" where
  "submissions s = filter isSent s"

definition estimations :: "trace \<Rightarrow> event list" where
  "estimations s = filter isEstimated s"

section \<open>Pool.ts: read-only accessors\<close>

text \<open>
  Most accessors follow one pattern: the result variable starts as \<open>null\<close>, the contract
  read runs inside \<open>try\<close>, the \<open>catch\<close> logs the error, and the variable is returned.
\<close>

definition sharesBalance :: "env \<Rightarrow> address \<Rightarrow> address \<Rightarrow> amount option io" where
  "sharesBalance env account poolAddress =
     tryCatch
       (bindE (await (call_uint env poolAddress ''balanceOf'' [addrArg account])) (\<lambda>balance.
        returnE (Some (web3_fromWei env balance))))
       (\<lambda>e. bindE (logError ''ERROR: Failed to get shares of pool : '' e) (\<lambda>_.
        returnE None))"

definition getNumTokens :: "env \<Rightarrow> address \<Rightarrow> nat option io" where
  "getNumTokens env poolAddress =
     tryCatch
       (bindE (await (call_uint env poolAddress ''getNumTokens'' [])) (\<lambda>tokens.
        returnE (Some tokens)))
       (\<lambda>e. bindE (logError ''ERROR: Failed to get number of tokens: '' e) (\<lambda>_.
        returnE None))"

definition getPoolSharesTotalSupply :: "env \<Rightarrow> address \<Rightarrow> amount option io" where
  "getPoolSharesTotalSupply env poolAddress =
     tryCatch
       (bindE (await (call_uint env poolAddress ''totalSupply'' [])) (\<lambda>supply.
        returnE (Some (web3_fromWei env supply))))
       (\<lambda>e. bindE (logError ''ERROR: Failed to get total supply of pool shares: '' e) (\<lambda>_.
        returnE None))"

definition getCurrentTokens :: "env \<Rightarrow> address \<Rightarrow> string list option io" where
  "getCurrentTokens env poolAddress =
     tryCatch
       (bindE (await (call_addresses env poolAddress ''getCurrentTokens'' [])) (\<lambda>tokens.
        returnE (Some tokens)))
       (\<lambda>e. bindE (logError ''ERROR: Failed to get tokens composing this pool: '' e) (\<lambda>_.
        returnE None))"

definition getFinalTokens :: "env \<Rightarrow> address \<Rightarrow> string list option io" where
  "getFinalTokens env poolAddress =
     tryCatch
       (bindE (await (call_addresses env poolAddress ''getFinalTokens'' [])) (\<lambda>tokens.
        returnE (Some tokens)))
       (\<lambda>e. bindE (logError ''ERROR: Failed to get the final tokens composing this pool '' e) (\<lambda>_.
        returnE None))"

definition getController :: "env \<Rightarrow> address \<Rightarrow> address io" where
  "getController env poolAddress =
     tryCatch
       (await (call_address env poolAddress ''getController'' []))
       (\<lambda>e. bindE (logError ''ERROR: Failed to get pool controller address: '' e) (\<lambda>_.
        returnE None))"

definition getBasetoken :: "env \<Rightarrow> address \<Rightarrow> address io" where
  "getBasetoken env poolAddress =
     tryCatch
       (await (call_address env poolAddress ''getBaseTokenAddress'' []))
       (\<lambda>e. bindE (logError ''ERROR: Failed to get baseToken address: '' e) (\<lambda>_.
        returnE None))"

definition getDatatoken :: "env \<Rightarrow> address \<Rightarrow> address io" where
  "getDatatoken env poolAddress =
     tryCatch
       (await (call_address env poolAddress ''getDatatokenAddress'' []))
       (\<lambda>e. bindE (logError ''ERROR: Failed to get datatoken address: '' e) (\<lambda>_.
        returnE None))"

text \<open>\<open>getMarketFee\<close> converts after the \<open>try\<close>: \<open>fromWei(null)\<close> throws.\<close>

definition getMarketFee :: "env \<Rightarrow> address \<Rightarrow> amount io" where
  "getMarketFee env poolAddress =
     bindE
       (tryCatch
          (bindE (await (call_uint env poolAddress ''getMarketFee'' [])) (\<lambda>fee.
           returnE (Some fee)))
          (\<lambda>e. bindE (logError ''ERROR: Failed to get getMarketFee: '' e) (\<lambda>_.
           returnE None)))
       (\<lambda>fee. case fee of
                None \<Rightarrow> throwE InvalidNumber
              | Some f \<Rightarrow> returnE (web3_fromWei env f))"

definition getMarketFeeCollector :: "env \<Rightarrow> address \<Rightarrow> address io" where
  "getMarketFeeCollector env poolAddress =
     tryCatch
       (await (call_address env poolAddress ''_publishMarketCollector'' []))
       (\<lambda>e. bindE (logError ''ERROR: Failed to get marketFeeCollector address: '' e) (\<lambda>_.
        returnE None))"

definition isBound :: "env \<Rightarrow> address \<Rightarrow> address \<Rightarrow> bool option io" where
  "isBound env poolAddress token =
     tryCatch
       (bindE (await (call_bool env poolAddress ''isBound'' [addrArg token])) (\<lambda>b.
        returnE (Some b)))
       (\<lambda>e. bindE (logError ''ERROR: Failed to check whether a token       bounded to a pool. '' e) (\<lambda>_.
        returnE None))"

text \<open>\<open>getReserve\<close> returns \<open>amount.toString()\<close> after the \<open>try\<close>: on \<open>null\<close> this is a
  \<open>TypeError\<close>.\<close>

definition getReserve :: "env \<Rightarrow> address \<Rightarrow> address \<Rightarrow> int option \<Rightarrow> amount io" where
  "getReserve env poolAddress token tokenDecimals =
     bindE
       (tryCatch
          (bindE (await (call_uint env poolAddress ''getBalance'' [addrArg token])) (\<lambda>balance.
           bindE (await (utils_unitsToAmount env token balance tokenDecimals)) (\<lambda>amount.
           returnE (Some amount))))
          (\<lambda>e. bindE (logError ''ERROR: Failed to get how many tokens       are in the pool: '' e) (\<lambda>_.
           returnE None)))
       (\<lambda>amount. case amount of
                   None \<Rightarrow> throwE TypeError
                 | Some a \<Rightarrow> returnE a)"

definition isFinalized :: "env \<Rightarrow> address \<Rightarrow> bool option io" where
  "isFinalized env poolAddress =
     tryCatch
       (bindE (await (call_bool env poolAddress ''isFinalized'' [])) (\<lambda>b.
        returnE (Some b)))
       (\<lambda>e. bindE (logError ''ERROR: Failed to check whether pool is finalized: '' e) (\<lambda>_.
        returnE None))"

definition getSwapFee :: "env \<Rightarrow> address \<Rightarrow> amount option io" where
  "getSwapFee env poolAddress =
     tryCatch
       (bindE (await (call_uint env poolAddress ''getSwapFee'' [])) (\<lambda>swapFee.
        returnE (Some (web3_fromWei env swapFee))))
       (\<lambda>e. bindE (logError ''ERROR: Failed to get pool fee: '' e) (\<lambda>_.
        returnE None))"

definition getNormalizedWeight :: "env \<Rightarrow> address \<Rightarrow> address \<Rightarrow> amount option io" where
  "getNormalizedWeight env poolAddress token =
     tryCatch
       (bindE (await (call_uint env poolAddress ''getNormalizedWeight'' [addrArg token]))
          (\<lambda>normalizedWeight. returnE (Some (web3_fromWei env normalizedWeight))))
       (\<lambda>e. bindE (logError ''ERROR: Failed to get normalized weight of a token: '' e) (\<lambda>_.
        returnE None))"

definition getDenormalizedWeight :: "env \<Rightarrow> address \<Rightarrow> address \<Rightarrow> amount option io" where
  "getDenormalizedWeight env poolAddress token =
     tryCatch
       (bindE (await (call_uint env poolAddress ''getDenormalizedWeight'' [addrArg token]))
          (\<lambda>denormalizedWeight. returnE (Some (web3_fromWei env denormalizedWeight))))
       (\<lambda>e. bindE (logError ''ERROR: Failed to get denormalized weight of a token in pool '' e)
          (\<lambda>_. returnE None))"

definition getTotalDenormalizedWeight :: "env \<Rightarrow> address \<Rightarrow> amount option io" where
  "getTotalDenormalizedWeight env poolAddress =
     tryCatch
       (bindE (await (call_uint env poolAddress ''getTotalDenormalizedWeight'' []))
          (\<lambda>denormalizedWeight. returnE (Some (web3_fromWei env denormalizedWeight))))
       (\<lambda>e. bindE (logError ''ERROR: Failed to get total denormalized weight in pool '' e) (\<lambda>_.
        returnE None))"

definition getMarketFees ::
    "env \<Rightarrow> address \<Rightarrow> address \<Rightarrow> int option \<Rightarrow> amount option io" where
  "getMarketFees env poolAddress token tokenDecimals =
     tryCatch
       (bindE (await (call_uint env poolAddress ''publishMarketFees'' [addrArg token])) (\<lambda>fee.
        bindE (await (utils_unitsToAmount env token fee tokenDecimals)) (\<lambda>weight.
        returnE (Some weight))))
       (\<lambda>e. bindE (logError ''ERROR: Failed to get market fees for a token: '' e) (\<lambda>_.
        returnE None))"

text \<open>The next two return inside the \<open>try\<close> and fall off the end after the \<open>catch\<close>
  (\<open>undefined\<close>, modelled as \<open>None\<close> too). Both read \<open>getCurrentOPCFees\<close>.\<close>

definition getCurrentMarketFees :: "env \<Rightarrow> address \<Rightarrow> CurrentFees option io" where
  "getCurrentMarketFees env poolAddress =
     tryCatch
       (bindE (await (call_fees env poolAddress ''getCurrentOPCFees'' [])) (\<lambda>currentMarketFees.
        returnE (Some currentMarketFees)))
       (\<lambda>e. bindE (logError ''ERROR: Failed to get community fees for a token: '' e) (\<lambda>_.
        returnE None))"

definition getCurrentOPCFees :: "env \<Rightarrow> address \<Rightarrow> CurrentFees option io" where
  "getCurrentOPCFees env poolAddress =
     tryCatch
       (bindE (await (call_fees env poolAddress ''getCurrentOPCFees'' [])) (\<lambda>currentMarketFees.
        returnE (Some currentMarketFees)))
       (\<lambda>e. bindE (logError ''ERROR: Failed to get community fees for a token: '' e) (\<lambda>_.
        returnE None))"

definition getCommunityFees ::
    "env \<Rightarrow> address \<Rightarrow> address \<Rightarrow> int option \<Rightarrow> amount option io" where
  "getCommunityFees env poolAddress token tokenDecimals =
     tryCatch
       (bindE (await (call_uint env poolAddress ''communityFees'' [addrArg token])) (\<lambda>fee.
        bindE (await (utils_unitsToAmount env token fee tokenDecimals)) (\<lambda>weight.
        returnE (Some weight))))
       (\<lambda>e. bindE (logError ''ERROR: Failed to get community fees for a token: '' e) (\<lambda>_.
        returnE None))"

section \<open>Pool.ts: trade bounds\<close>

definition getMaxSwapExactOut :: "env \<Rightarrow> address \<Rightarrow> address \<Rightarrow> amount io" where
  "getMaxSwapExactOut env poolAddress tokenAddress =
     bindE (getReserve env poolAddress tokenAddress None) (\<lambda>reserve.
     returnE (utils_calcMaxExactOut env reserve))"

definition getMaxSwapExactIn :: "env \<Rightarrow> address \<Rightarrow> address \<Rightarrow> amount io" where
  "getMaxSwapExactIn env poolAddress tokenAddress =
     bindE (getReserve env poolAddress tokenAddress None) (\<lambda>reserve.
     returnE (utils_calcMaxExactIn env reserve))"

definition getMaxAddLiquidity :: "env \<Rightarrow> address \<Rightarrow> address \<Rightarrow> amount io" where
  "getMaxAddLiquidity env poolAddress tokenAddress =
     bindE (getReserve env poolAddress tokenAddress None) (\<lambda>reserve.
     returnE (utils_calcMaxExactIn env reserve))"

definition getMaxRemoveLiquidity :: "env \<Rightarrow> address \<Rightarrow> address \<Rightarrow> amount io" where
  "getMaxRemoveLiquidity env poolAddress tokenAddress =
     bindE (getReserve env poolAddress tokenAddress None) (\<lambda>reserve.
     returnE (utils_calcMaxExactIn env reserve))"

section \<open>Pool.ts: mutating methods\<close>

text \<open>
  Each method estimates gas, returns the estimate when \<open>estimateGas\<close> is set, and
  otherwise sends inside \<open>try\<close>; the \<open>catch\<close> logs and the method returns
  \<open>trxReceipt\<close>, still \<open>null\<close> after a failure.
\<close>

definition setSwapFee :: "env \<Rightarrow> address \<Rightarrow> address \<Rightarrow> amount \<Rightarrow> bool \<Rightarrow> tx_result io" where
  "setSwapFee env account poolAddress fee estimateGas =
     bindE (calculateEstimatedGas env account poolAddress ''setSwapFee'' [ADec fee]) (\<lambda>estGas.
     if estimateGas then returnE (Estimate estGas)
     else
       tryCatch
         (bindE (await (web3_toWei env fee)) (\<lambda>feeWei.
          bindE (getFairGasPrice env) (\<lambda>gasPrice.
          bindE (sendTx env poolAddress ''setSwapFee'' [AInt feeWei] account estGas gasPrice)
            (\<lambda>trxReceipt. returnE (Receipt (Some trxReceipt))))))
         (\<lambda>e. bindE (logError ''ERROR: Failed to set pool swap fee: '' e) (\<lambda>_.
          returnE (Receipt None))))"

definition collectOPC :: "env \<Rightarrow> address \<Rightarrow> address \<Rightarrow> bool \<Rightarrow> tx_result io" where
  "collectOPC env account poolAddress estimateGas =
     bindE (calculateEstimatedGas env account poolAddress ''collectOPC'' []) (\<lambda>estGas.
     if estimateGas then returnE (Estimate estGas)
     else
       tryCatch
         (bindE (getFairGasPrice env) (\<lambda>gasPrice.
          bindE (sendTx env poolAddress ''collectOPC'' [] account (estGas + 1) gasPrice)
            (\<lambda>trxReceipt. returnE (Receipt (Some trxReceipt)))))
         (\<lambda>e. bindE (logError ''ERROR: Failed to swap exact amount in : '' e) (\<lambda>_.
          returnE (Receipt None))))"

definition collectMarketFee :: "env \<Rightarrow> address \<Rightarrow> address \<Rightarrow> bool \<Rightarrow> tx_result io" where
  "collectMarketFee env account poolAddress estimateGas =
     bindE (getMarketFeeCollector env poolAddress) (\<lambda>collector.
     if collector \<noteq> account then throwE CallerIsNotMarketFeeCollector
     else
       bindE (calculateEstimatedGas env account poolAddress ''collectMarketFee'' []) (\<lambda>estGas.
       if estimateGas then returnE (Estimate estGas)
       else
         tryCatch
           (bindE (getFairGasPrice env) (\<lambda>gasPrice.
            bindE (sendTx env poolAddress ''collectMarketFee'' [] account (estGas + 1) gasPrice)
              (\<lambda>trxReceipt. returnE (Receipt (Some trxReceipt)))))
           (\<lambda>e. bindE (logError ''ERROR: Failed to swap exact amount in : '' e) (\<lambda>_.
            returnE (Receipt None)))))"

definition updatePublishMarketFee ::
    "env \<Rightarrow> address \<Rightarrow> address \<Rightarrow> address \<Rightarrow> amount \<Rightarrow> bool \<Rightarrow> tx_result io" where
  "updatePublishMarketFee env account poolAddress newPublishMarketAddress
       newPublishMarketSwapFee estimateGas =
     bindE (getMarketFeeCollector env poolAddress) (\<lambda>collector.
     if collector \<noteq> account then throwE CallerIsNotMarketFeeCollector
     else
       bindE (await (web3_toWei env newPublishMarketSwapFee)) (\<lambda>feeWei.
       bindE (calculateEstimatedGas env account poolAddress ''updatePublishMarketFee''
                [addrArg newPublishMarketAddress, AInt feeWei]) (\<lambda>estGas.
       if estimateGas then returnE (Estimate estGas)
       else
         tryCatch
           (bindE (await (web3_toWei env newPublishMarketSwapFee)) (\<lambda>feeWei'.
            bindE (getFairGasPrice env) (\<lambda>gasPrice.
            bindE (sendTx env poolAddress ''updatePublishMarketFee''
                     [addrArg newPublishMarketAddress, AInt feeWei'] account (estGas + 1) gasPrice)
              (\<lambda>trxReceipt. returnE (Receipt (Some trxReceipt))))))
           (\<lambda>e. bindE (logError ''ERROR: Failed to updatePublishMarketFee : '' e) (\<lambda>_.
            returnE (Receipt None))))))"

definition swapExactAmountIn ::
    "env \<Rightarrow> address \<Rightarrow> address \<Rightarrow> TokenInOutMarket \<Rightarrow> AmountsInMaxFee \<Rightarrow> bool \<Rightarrow> tx_result io" where
  "swapExactAmountIn env account poolAddress tokenInOutMarket amountsInOutMaxFee estimateGas =
     bindE (getMaxSwapExactIn env poolAddress (mkt_tokenIn tokenInOutMarket)) (\<lambda>maxSwap.
     if in_tokenAmountIn amountsInOutMaxFee > maxSwap
     then throwE (TokenAmountInGreaterThan maxSwap)
     else
       bindE (await (utils_amountToUnits env (mkt_tokenIn tokenInOutMarket)
                (in_tokenAmountIn amountsInOutMaxFee) (mkt_tokenInDecimals tokenInOutMarket)))
         (\<lambda>tokenAmountIn.
       bindE (await (utils_amountToUnits env (mkt_tokenOut tokenInOutMarket)
                (in_minAmountOut amountsInOutMaxFee) (mkt_tokenOutDecimals tokenInOutMarket)))
         (\<lambda>minAmountOut.
       bindE (case in_maxPrice amountsInOutMaxFee of
                Some price \<Rightarrow>
                  bindE (getBasetoken env poolAddress) (\<lambda>baseToken.
                  await (utils_amountToUnits env baseToken price None))
              | None \<Rightarrow> returnE (utils_MAX_UINT_256 env))
         (\<lambda>maxPrice.
       bindE (await (web3_toWei env (in_swapMarketFee amountsInOutMaxFee))) (\<lambda>feeWei.
       bindE (calculateEstimatedGas env account poolAddress ''swapExactAmountIn''
                [AList [addrArg (mkt_tokenIn tokenInOutMarket),
                        addrArg (mkt_tokenOut tokenInOutMarket),
                        addrArg (mkt_marketFeeAddress tokenInOutMarket)],
                 AList [AInt tokenAmountIn, AInt minAmountOut, AInt maxPrice, AInt feeWei]])
         (\<lambda>estGas.
       if estimateGas then returnE (Estimate estGas)
       else
         tryCatch
           (bindE (await (web3_toWei env (in_swapMarketFee amountsInOutMaxFee))) (\<lambda>feeWei'.
            bindE (getFairGasPrice env) (\<lambda>gasPrice.
            bindE (sendTx env poolAddress ''swapExactAmountIn''
                     [AList [addrArg (mkt_tokenIn tokenInOutMarket),
                             addrArg (mkt_tokenOut tokenInOutMarket),
                             addrArg (mkt_marketFeeAddress tokenInOutMarket)],
                      AList [AInt tokenAmountIn, AInt minAmountOut, AInt maxPrice, AInt feeWei']]
                     account (estGas + 1) gasPrice)
              (\<lambda>trxReceipt. returnE (Receipt (Some trxReceipt))))))
           (\<lambda>e. bindE (logError ''ERROR: Failed to swap exact amount in : '' e) (\<lambda>_.
            returnE (Receipt None)))))))))"

text \<open>In \<open>swapExactAmountOut\<close> the conversion of \<open>maxPrice\<close> is not awaited: the
  promise itself is passed on.\<close>

definition swapExactAmountOut ::
    "env \<Rightarrow> address \<Rightarrow> address \<Rightarrow> TokenInOutMarket \<Rightarrow> AmountsOutMaxFee \<Rightarrow> bool \<Rightarrow> tx_result io" where
  "swapExactAmountOut env account poolAddress tokenInOutMarket amountsInOutMaxFee estimateGas =
     bindE (getMaxSwapExactOut env poolAddress (mkt_tokenOut tokenInOutMarket)) (\<lambda>maxSwap.
     if out_tokenAmountOut amountsInOutMaxFee > maxSwap
     then throwE (TokenAmountOutGreaterThan maxSwap)
     else
       bindE (await (utils_amountToUnits env (mkt_tokenIn tokenInOutMarket)
                (out_maxAmountIn amountsInOutMaxFee) (mkt_tokenInDecimals tokenInOutMarket)))
         (\<lambda>maxAmountIn.
       bindE (await (utils_amountToUnits env (mkt_tokenOut tokenInOutMarket)
                (out_tokenAmountOut amountsInOutMaxFee) (mkt_tokenOutDecimals tokenInOutMarket)))
         (\<lambda>tokenAmountOut.
       bindE (case out_maxPrice amountsInOutMaxFee of
                Some price \<Rightarrow>
                  bindE (getBasetoken env poolAddress) (\<lambda>baseToken.
                  returnE (APromise (utils_amountToUnits env baseToken price None)))
              | None \<Rightarrow> returnE (AInt (utils_MAX_UINT_256 env)))
         (\<lambda>maxPrice.
       bindE (await (web3_toWei env (out_swapMarketFee amountsInOutMaxFee))) (\<lambda>feeWei.
       bindE (calculateEstimatedGas env account poolAddress ''swapExactAmountOut''
                [AList [addrArg (mkt_tokenIn tokenInOutMarket),
                        addrArg (mkt_tokenOut tokenInOutMarket),
                        addrArg (mkt_marketFeeAddress tokenInOutMarket)],
                 AList [AInt maxAmountIn, AInt tokenAmountOut, maxPrice, AInt feeWei]])
         (\<lambda>estGas.
       if estimateGas then returnE (Estimate estGas)
       else
         tryCatch
           (bindE (await (web3_toWei env (out_swapMarketFee amountsInOutMaxFee))) (\<lambda>feeWei'.
            bindE (getFairGasPrice env) (\<lambda>gasPrice.
            bindE (sendTx env poolAddress ''swapExactAmountOut''
                     [AList [addrArg (mkt_tokenIn tokenInOutMarket),
                             addrArg (mkt_tokenOut tokenInOutMarket),
                             addrArg (mkt_marketFeeAddress tokenInOutMarket)],
                      AList [AInt maxAmountIn, AInt tokenAmountOut, maxPrice, AInt feeWei']]
                     account (estGas + 1) gasPrice)
              (\<lambda>trxReceipt. returnE (Receipt (Some trxReceipt))))))
           (\<lambda>e. bindE (logError ''ERROR: Failed to swap exact amount out: '' e) (\<lambda>_.
            returnE (Receipt None)))))))))"

definition joinswapExternAmountIn ::
    "env \<Rightarrow> address \<Rightarrow> address \<Rightarrow> amount \<Rightarrow> amount \<Rightarrow> int option \<Rightarrow> bool \<Rightarrow> tx_result io" where
  "joinswapExternAmountIn env account poolAddress tokenAmountIn minPoolAmountOut
       tokenInDecimals estimateGas =
     bindE (getBasetoken env poolAddress) (\<lambda>tokenIn.
     bindE (getMaxAddLiquidity env poolAddress tokenIn) (\<lambda>maxSwap.
     if tokenAmountIn > maxSwap then throwE (TokenAmountOutGreaterThan maxSwap)
     else
       bindE (await (utils_amountToUnits env tokenIn tokenAmountIn tokenInDecimals))
         (\<lambda>amountInFormatted.
       bindE (await (web3_toWei env minPoolAmountOut)) (\<lambda>minWei.
       bindE (calculateEstimatedGas env account poolAddress ''joinswapExternAmountIn''
                [AInt amountInFormatted, AInt minWei]) (\<lambda>estGas.
       if estimateGas then returnE (Estimate estGas)
       else
         tryCatch
           (bindE (await (web3_toWei env minPoolAmountOut)) (\<lambda>minWei'.
            bindE (getFairGasPrice env) (\<lambda>gasPrice.
            bindE (sendTx env poolAddress ''joinswapExternAmountIn''
                     [AInt amountInFormatted, AInt minWei'] account (estGas + 1) gasPrice)
              (\<lambda>trxReceipt. returnE (Receipt (Some trxReceipt))))))
           (\<lambda>e. bindE (logError ''ERROR: Failed to pay tokens in order to       join the pool: '' e)
              (\<lambda>_. returnE (Receipt None))))))))"

definition calcSingleOutGivenPoolIn ::
    "env \<Rightarrow> address \<Rightarrow> address \<Rightarrow> amount \<Rightarrow> int option \<Rightarrow> int option \<Rightarrow> amount option io" where
  "calcSingleOutGivenPoolIn env poolAddress tokenOut poolAmountIn poolDecimals tokenOutDecimals =
     tryCatch
       (bindE (await (utils_amountToUnits env poolAddress poolAmountIn poolDecimals)) (\<lambda>units.
        bindE (await (call_uint env poolAddress ''calcSingleOutPoolIn''
                        [addrArg tokenOut, AInt units])) (\<lambda>singleOut.
        bindE (await (utils_unitsToAmount env tokenOut singleOut tokenOutDecimals)) (\<lambda>amount.
        returnE (Some amount)))))
       (\<lambda>e. bindE (logError ''ERROR: Failed to calculate SingleOutGivenPoolIn : '' e) (\<lambda>_.
        returnE None))"

text \<open>\<open>new Decimal(tokenAmountOut)\<close> throws when the quote above came back \<open>null\<close>.\<close>

definition exitSwapPoolAmountIn ::
    "env \<Rightarrow> address \<Rightarrow> address \<Rightarrow> amount \<Rightarrow> amount \<Rightarrow> int option \<Rightarrow> bool \<Rightarrow> tx_result io" where
  "exitSwapPoolAmountIn env account poolAddress poolAmountIn minTokenAmountOut
       poolDecimals estimateGas =
     bindE (getBasetoken env poolAddress) (\<lambda>tokenOut.
     bindE (calcSingleOutGivenPoolIn env poolAddress tokenOut poolAmountIn None None)
       (\<lambda>tokenAmountOut.
     bindE (getMaxRemoveLiquidity env poolAddress tokenOut) (\<lambda>maxSwap.
     case tokenAmountOut of
       None \<Rightarrow> throwE InvalidNumber
     | Some amountOut \<Rightarrow>
       if amountOut > maxSwap then throwE (TokenAmountOutGreaterThan maxSwap)
       else
         bindE (getBasetoken env poolAddress) (\<lambda>baseToken.
         bindE (await (utils_amountToUnits env baseToken minTokenAmountOut poolDecimals))
           (\<lambda>minTokenOutFormatted.
         bindE (await (web3_toWei env poolAmountIn)) (\<lambda>poolWei.
         bindE (calculateEstimatedGas env account poolAddress ''exitswapPoolAmountIn''
                  [AInt poolWei, AInt minTokenOutFormatted]) (\<lambda>estGas.
         if estimateGas then returnE (Estimate estGas)
         else
           tryCatch
             (bindE (await (web3_toWei env poolAmountIn)) (\<lambda>poolWei'.
              bindE (getFairGasPrice env) (\<lambda>gasPrice.
              bindE (sendTx env poolAddress ''exitswapPoolAmountIn''
                       [AInt poolWei', AInt minTokenOutFormatted] account (estGas + 1) gasPrice)
                (\<lambda>trxReceipt. returnE (Receipt (Some trxReceipt))))))
             (\<lambda>e. bindE (logError ''ERROR: Failed to pay pool shares into the pool: '' e)
                (\<lambda>_. returnE (Receipt None))))))))))"

section \<open>Pool.ts: swap quotes\<close>

definition getAmountInExactOut ::
    "env \<Rightarrow> address \<Rightarrow> address \<Rightarrow> address \<Rightarrow> amount \<Rightarrow> amount \<Rightarrow> int option \<Rightarrow> int option
       \<Rightarrow> PoolPriceAndFees option io" where
  "getAmountInExactOut env poolAddress tokenIn tokenOut tokenAmountOut swapMarketFee
       tokenInDecimals tokenOutDecimals =
     bindE (getMaxSwapExactOut env poolAddress tokenOut) (\<lambda>maxSwap.
     if tokenAmountOut > maxSwap then throwE (TokenAmountOutGreaterThan maxSwap)
     else
       bindE (await (utils_amountToUnits env tokenOut tokenAmountOut tokenOutDecimals))
         (\<lambda>amountOutFormatted.
       tryCatch
         (bindE (await (web3_toWei env swapMarketFee)) (\<lambda>feeWei.
          bindE (await (call_quote env poolAddress ''getAmountInExactOut''
                   [addrArg tokenIn, addrArg tokenOut, AInt amountOutFormatted, AInt feeWei]))
            (\<lambda>amountIn.
          bindE (await (utils_unitsToAmount env tokenOut (q_tokenAmount amountIn)
                   tokenOutDecimals)) (\<lambda>a.
          bindE (await (utils_unitsToAmount env tokenIn (q_lpFeeAmount amountIn)
                   tokenInDecimals)) (\<lambda>lp.
          bindE (await (utils_unitsToAmount env tokenIn (q_oceanFeeAmount amountIn)
                   tokenInDecimals)) (\<lambda>ocean.
          bindE (await (utils_unitsToAmount env tokenIn (q_publishMarketSwapFeeAmount amountIn)
                   tokenInDecimals)) (\<lambda>publish.
          bindE (await (utils_unitsToAmount env tokenIn (q_consumeMarketSwapFeeAmount amountIn)
                   tokenInDecimals)) (\<lambda>consume.
          returnE (Some \<lparr> tokenAmount = a,
                          liquidityProviderSwapFeeAmount = lp,
                          oceanFeeAmount = ocean,
                          publishMarketSwapFeeAmount = publish,
                          consumeMarketSwapFeeAmount = consume \<rparr>)))))))))
         (\<lambda>e. bindE (logError ''ERROR: Failed to calcInGivenOut '' e) (\<lambda>_.
          returnE None))))"

definition getAmountOutExactIn ::
    "env \<Rightarrow> address \<Rightarrow> address \<Rightarrow> address \<Rightarrow> amount \<Rightarrow> amount \<Rightarrow> int option \<Rightarrow> int option
       \<Rightarrow> PoolPriceAndFees option io" where
  "getAmountOutExactIn env poolAddress tokenIn tokenOut tokenAmountIn swapMarketFee
       tokenInDecimals tokenOutDecimals =
     bindE (getMaxSwapExactIn env poolAddress tokenIn) (\<lambda>maxSwap.
     if tokenAmountIn > maxSwap then throwE (TokenAmountInGreaterThan maxSwap)
     else
       bindE (await (utils_amountToUnits env tokenIn tokenAmountIn tokenInDecimals))
         (\<lambda>amountInFormatted.
       tryCatch
         (bindE (await (web3_toWei env swapMarketFee)) (\<lambda>feeWei.
          bindE (await (call_quote env poolAddress ''getAmountOutExactIn''
                   [addrArg tokenIn, addrArg tokenOut, AInt amountInFormatted, AInt feeWei]))
            (\<lambda>amountOut.
          bindE (await (utils_unitsToAmount env tokenOut (q_tokenAmount amountOut)
                   tokenOutDecimals)) (\<lambda>a.
          bindE (await (utils_unitsToAmount env tokenIn (q_lpFeeAmount amountOut)
                   tokenInDecimals)) (\<lambda>lp.
          bindE (await (utils_unitsToAmount env tokenIn (q_oceanFeeAmount amountOut)
                   tokenInDecimals)) (\<lambda>ocean.
          bindE (await (utils_unitsToAmount env tokenIn (q_publishMarketSwapFeeAmount amountOut)
                   tokenInDecimals)) (\<lambda>publish.
          bindE (await (utils_unitsToAmount env tokenIn (q_consumeMarketSwapFeeAmount amountOut)
                   tokenInDecimals)) (\<lambda>consume.
          returnE (Some \<lparr> tokenAmount = a,
                          liquidityProviderSwapFeeAmount = lp,
                          oceanFeeAmount = ocean,
                          publishMarketSwapFeeAmount = publish,
                          consumeMarketSwapFeeAmount = consume \<rparr>)))))))))
         (\<lambda>e. bindE (logError ''ERROR: Failed to calcOutGivenIn '' e) (\<lambda>_.
          returnE None))))"

section \<open>SideStaking.ts\<close>

text \<open>The accessors of the side-staking contract have no \<open>try\<close>: a failed read
  propagates. Names shared with the pool carry the class name.\<close>

definition getDatatokenCirculatingSupply :: "env \<Rightarrow> address \<Rightarrow> address \<Rightarrow> nat io" where
  "getDatatokenCirculatingSupply env ssAddress datatokenAddress =
     await (call_uint env ssAddress ''getDatatokenCirculatingSupply'' [addrArg datatokenAddress])"

definition getDatatokenCurrentCirculatingSupply :: "env \<Rightarrow> address \<Rightarrow> address \<Rightarrow> nat io" where
  "getDatatokenCurrentCirculatingSupply env ssAddress datatokenAddress =
     await (call_uint env ssAddress ''getDatatokenCurrentCirculatingSupply''
              [addrArg datatokenAddress])"

definition getPublisherAddress :: "env \<Rightarrow> address \<Rightarrow> address \<Rightarrow> address io" where
  "getPublisherAddress env ssAddress datatokenAddress =
     await (call_address env ssAddress ''getPublisherAddress'' [addrArg datatokenAddress])"

definition SideStaking_getBasetoken :: "env \<Rightarrow> address \<Rightarrow> address \<Rightarrow> address io" where
  "SideStaking_getBasetoken env ssAddress datatokenAddress =
     await (call_address env ssAddress ''getBaseTokenAddress'' [addrArg datatokenAddress])"

definition getPoolAddress :: "env \<Rightarrow> address \<Rightarrow> address \<Rightarrow> address io" where
  "getPoolAddress env ssAddress datatokenAddress =
     await (call_address env ssAddress ''getPoolAddress'' [addrArg datatokenAddress])"

definition getBasetokenBalance :: "env \<Rightarrow> address \<Rightarrow> address \<Rightarrow> nat io" where
  "getBasetokenBalance env ssAddress datatokenAddress =
     bindE (await (call_uint env ssAddress ''getBaseTokenBalance'' [addrArg datatokenAddress]))
       (\<lambda>balance. returnE balance)"

definition getDatatokenBalance ::
    "env \<Rightarrow> address \<Rightarrow> address \<Rightarrow> int option \<Rightarrow> amount io" where
  "getDatatokenBalance env ssAddress datatokenAddress tokenDecimals =
     bindE (await (call_uint env ssAddress ''getDatatokenBalance'' [addrArg datatokenAddress]))
       (\<lambda>balance.
     bindE (await (utils_unitsToAmount env datatokenAddress balance tokenDecimals))
       (\<lambda>balance'. returnE balance'))"

definition getVestingEndBlock :: "env \<Rightarrow> address \<Rightarrow> address \<Rightarrow> nat io" where
  "getVestingEndBlock env ssAddress datatokenAddress =
     await (call_uint env ssAddress ''getvestingEndBlock'' [addrArg datatokenAddress])"

definition getVestingAmount ::
    "env \<Rightarrow> address \<Rightarrow> address \<Rightarrow> int option \<Rightarrow> amount io" where
  "getVestingAmount env ssAddress datatokenAddress tokenDecimals =
     bindE (await (call_uint env ssAddress ''getvestingAmount'' [addrArg datatokenAddress]))
       (\<lambda>amount.
     bindE (await (utils_unitsToAmount env datatokenAddress amount tokenDecimals))
       (\<lambda>amount'. returnE amount'))"

definition getVestingLastBlock :: "env \<Rightarrow> address \<Rightarrow> address \<Rightarrow> nat io" where
  "getVestingLastBlock env ssAddress datatokenAddress =
     await (call_uint env ssAddress ''getvestingLastBlock'' [addrArg datatokenAddress])"

definition getVestingAmountSoFar ::
    "env \<Rightarrow> address \<Rightarrow> address \<Rightarrow> int option \<Rightarrow> amount io" where
  "getVestingAmountSoFar env ssAddress datatokenAddress tokenDecimals =
     bindE (await (call_uint env ssAddress ''getvestingAmountSoFar'' [addrArg datatokenAddress]))
       (\<lambda>amount.
     bindE (await (utils_unitsToAmount env datatokenAddress amount tokenDecimals))
       (\<lambda>amount'. returnE amount'))"

text \<open>The two mutating methods send outside any \<open>try\<close>.\<close>

definition getVesting :: "env \<Rightarrow> address \<Rightarrow> address \<Rightarrow> address \<Rightarrow> bool \<Rightarrow> tx_result io" where
  "getVesting env account ssAddress datatokenAddress estimateGas =
     bindE (calculateEstimatedGas env account ssAddress ''getVesting''
              [addrArg datatokenAddress]) (\<lambda>estGas.
     if estimateGas then returnE (Estimate estGas)
     else
       bindE (getFairGasPrice env) (\<lambda>gasPrice.
       bindE (sendTx env ssAddress ''getVesting'' [addrArg datatokenAddress]
                account (estGas + 1) gasPrice)
         (\<lambda>vesting. returnE (Receipt (Some vesting)))))"

definition setPoolSwapFee ::
    "env \<Rightarrow> address \<Rightarrow> address \<Rightarrow> address \<Rightarrow> address \<Rightarrow> int \<Rightarrow> bool \<Rightarrow> tx_result io" where
  "setPoolSwapFee env account ssAddress datatokenAddress poolAddress swapFee estimateGas =
     bindE (calculateEstimatedGas env account ssAddress ''setPoolSwapFee''
              [addrArg datatokenAddress, addrArg poolAddress, AInt swapFee]) (\<lambda>estGas.
     if estimateGas then returnE (Estimate estGas)
     else
       bindE (getFairGasPrice env) (\<lambda>gasPrice.
       bindE (sendTx env ssAddress ''setPoolSwapFee''
                [addrArg datatokenAddress, addrArg poolAddress, AInt swapFee]
                account (estGas + 1) gasPrice)
         (\<lambda>fee. returnE (Receipt (Some fee)))))"

definition getRouter :: "env \<Rightarrow> address \<Rightarrow> address io" where
  "getRouter env ssAddress = await (call_address env ssAddress ''router'' [])"

section \<open>The NFT factory\<close>

text \<open>\<open>NftFactory\<close> holds the factory's address (\<open>factory721Address\<close>) and estimates gas
  itself: any failure of the estimation is replaced by \<open>GASLIMIT_DEFAULT\<close>.\<close>

definition GASLIMIT_DEFAULT :: nat where
  "GASLIMIT_DEFAULT = 1000000"

definition ZERO_ADDRESS :: address where
  "ZERO_ADDRESS = Some ''0x0000000000000000000000000000000000000000''"

definition nftArgs :: "NftCreateData \<Rightarrow> arg list" where
  "nftArgs nftData =
     [AText (nft_name nftData), AText (nft_symbol nftData), AInt (int (nft_templateIndex nftData)),
      addrArg ZERO_ADDRESS, addrArg ZERO_ADDRESS, AText (nft_tokenURI nftData),
      ABool (nft_transferable nftData), addrArg (nft_owner nftData)]"

text \<open>The \<open>NftCreateData\<close> object passed as one struct argument.\<close>

definition nftStruct :: "NftCreateData \<Rightarrow> arg" where
  "nftStruct nftData =
     AList [AText (nft_name nftData), AText (nft_symbol nftData),
            AInt (int (nft_templateIndex nftData)), AText (nft_tokenURI nftData),
            ABool (nft_transferable nftData), addrArg (nft_owner nftData)]"

definition estGasCreateNFT :: "env \<Rightarrow> address \<Rightarrow> address \<Rightarrow> NftCreateData \<Rightarrow> nat io" where
  "estGasCreateNFT env factory721Address account nftData =
     tryCatch
       (estimateGasCall env factory721Address ''deployERC721Contract'' (nftArgs nftData) account)
       (\<lambda>e. returnE GASLIMIT_DEFAULT)"

definition getCurrentNFTCount :: "env \<Rightarrow> address \<Rightarrow> nat io" where
  "getCurrentNFTCount env factory721Address =
     await (call_uint env factory721Address ''getCurrentNFTCount'' [])"

definition getCurrentTokenCount :: "env \<Rightarrow> address \<Rightarrow> nat io" where
  "getCurrentTokenCount env factory721Address =
     await (call_uint env factory721Address ''getCurrentTokenCount'' [])"

definition getOwner :: "env \<Rightarrow> address \<Rightarrow> address io" where
  "getOwner env factory721Address = await (call_address env factory721Address ''owner'' [])"

definition getCurrentNFTTemplateCount :: "env \<Rightarrow> address \<Rightarrow> nat io" where
  "getCurrentNFTTemplateCount env factory721Address =
     await (call_uint env factory721Address ''getCurrentNFTTemplateCount'' [])"

definition getCurrentTokenTemplateCount :: "env \<Rightarrow> address \<Rightarrow> nat io" where
  "getCurrentTokenTemplateCount env factory721Address =
     await (call_uint env factory721Address ''getCurrentTemplateCount'' [])"

definition getNFTTemplate :: "env \<Rightarrow> address \<Rightarrow> nat \<Rightarrow> Template io" where
  "getNFTTemplate env factory721Address index =
     bindE (getCurrentNFTTemplateCount env factory721Address) (\<lambda>count.
     if index > count then throwE TemplateIndexDoesntExist
     else if index = 0 then throwE TemplateIndexCannotBeZero
     else await (call_template env factory721Address ''getNFTTemplate'' [AInt (int index)]))"

definition getTokenTemplate :: "env \<Rightarrow> address \<Rightarrow> nat \<Rightarrow> Template io" where
  "getTokenTemplate env factory721Address index =
     await (call_template env factory721Address ''getTokenTemplate'' [AInt (int index)])"

text \<open>\<open>createNFT\<close> completes the data (template index 1 when it is missing or zero,
  generated name and symbol when one is empty), checks the template, estimates, sends,
  and reads the new address from the \<open>NFTCreated\<close> event.\<close>

definition completeNftData :: "env \<Rightarrow> NftCreateData \<Rightarrow> NftCreateData" where
  "completeNftData env nftData =
     (let d1 = (if nft_templateIndex nftData = 0 then nftData\<lparr> nft_templateIndex := 1 \<rparr>
                else nftData)
      in if nft_name d1 = [] \<or> nft_symbol d1 = []
         then d1\<lparr> nft_name := fst (utils_generateDtName env),
                  nft_symbol := snd (utils_generateDtName env) \<rparr>
         else d1)"

definition createNFT :: "env \<Rightarrow> address \<Rightarrow> address \<Rightarrow> NftCreateData \<Rightarrow> string option io" where
  "createNFT env factory721Address account nftData0 =
     (let nftData = completeNftData env nftData0 in
      bindE (getCurrentNFTTemplateCount env factory721Address) (\<lambda>count.
      if nft_templateIndex nftData > count then throwE TemplateIndexDoesntExist
      else if nft_templateIndex nftData = 0 then throwE TemplateIndexCannotBeZero
      else
        bindE (getNFTTemplate env factory721Address (nft_templateIndex nftData)) (\<lambda>template.
        if isActive template = False then throwE TemplateIsNotActive
        else
          bindE (estGasCreateNFT env factory721Address account nftData) (\<lambda>estGas.
          bindE (getFairGasPrice env) (\<lambda>gasPrice.
          bindE (sendTx env factory721Address ''deployERC721Contract'' (nftArgs nftData)
                   account (estGas + 1) gasPrice) (\<lambda>trxReceipt.
          tryCatch
            (case map_of trxReceipt ''NFTCreated'' of
               None \<Rightarrow> throwE TypeError
             | Some returnValues \<Rightarrow>
                 returnE (case returnValues of [] \<Rightarrow> None | v # _ \<Rightarrow> Some v))
            (\<lambda>e. bindE (logError ''ERROR: Failed to create datatoken : '' e) (\<lambda>_.
             returnE None))))))))"

subsection \<open>Template management\<close>

definition estGasAddNFTTemplate :: "env \<Rightarrow> address \<Rightarrow> address \<Rightarrow> address \<Rightarrow> nat io" where
  "estGasAddNFTTemplate env factory721Address account templateAddress' =
     tryCatch
       (estimateGasCall env factory721Address ''add721TokenTemplate''
          [addrArg templateAddress'] account)
       (\<lambda>e. returnE GASLIMIT_DEFAULT)"

definition addNFTTemplate :: "env \<Rightarrow> address \<Rightarrow> address \<Rightarrow> address \<Rightarrow> receipt io" where
  "addNFTTemplate env factory721Address account templateAddress' =
     bindE (getOwner env factory721Address) (\<lambda>owner.
     if owner \<noteq> account then throwE CallerIsNotFactoryOwner
     else if templateAddress' = ZERO_ADDRESS then throwE TemplateCannotBeZeroAddress
     else
       bindE (estGasAddNFTTemplate env factory721Address account templateAddress') (\<lambda>estGas.
       bindE (getFairGasPrice env) (\<lambda>gasPrice.
       sendTx env factory721Address ''add721TokenTemplate'' [addrArg templateAddress']
         account (estGas + 1) gasPrice)))"

definition estGasDisableNFTTemplate :: "env \<Rightarrow> address \<Rightarrow> address \<Rightarrow> nat \<Rightarrow> nat io" where
  "estGasDisableNFTTemplate env factory721Address account templateIndex =
     tryCatch
       (estimateGasCall env factory721Address ''disable721TokenTemplate''
          [AInt (int templateIndex)] account)
       (\<lambda>e. returnE GASLIMIT_DEFAULT)"

definition disableNFTTemplate :: "env \<Rightarrow> address \<Rightarrow> address \<Rightarrow> nat \<Rightarrow> receipt io" where
  "disableNFTTemplate env factory721Address account templateIndex =
     bindE (getOwner env factory721Address) (\<lambda>owner.
     if owner \<noteq> account then throwE CallerIsNotFactoryOwner
     else
       bindE (getCurrentNFTTemplateCount env factory721Address) (\<lambda>count.
       if templateIndex > count then throwE TemplateIndexDoesntExist
       else if templateIndex = 0 then throwE TemplateIndexCannotBeZero
       else
         bindE (estGasDisableNFTTemplate env factory721Address account templateIndex) (\<lambda>estGas.
         bindE (getFairGasPrice env) (\<lambda>gasPrice.
         sendTx env factory721Address ''disable721TokenTemplate'' [AInt (int templateIndex)]
           account (estGas + 1) gasPrice))))"

definition estGasReactivateNFTTemplate :: "env \<Rightarrow> address \<Rightarrow> address \<Rightarrow> nat \<Rightarrow> nat io" where
  "estGasReactivateNFTTemplate env factory721Address account templateIndex =
     tryCatch
       (estimateGasCall env factory721Address ''reactivate721TokenTemplate''
          [AInt (int templateIndex)] account)
       (\<lambda>e. returnE GASLIMIT_DEFAULT)"

definition reactivateNFTTemplate :: "env \<Rightarrow> address \<Rightarrow> address \<Rightarrow> nat \<Rightarrow> receipt io" where
  "reactivateNFTTemplate env factory721Address account templateIndex =
     bindE (getOwner env factory721Address) (\<lambda>owner.
     if owner \<noteq> account then throwE CallerIsNotFactoryOwner
     else
       bindE (getCurrentNFTTemplateCount env factory721Address) (\<lambda>count.
       if templateIndex > count then throwE TemplateIndexDoesntExist
       else if templateIndex = 0 then throwE TemplateIndexCannotBeZero
       else
         bindE (estGasReactivateNFTTemplate env factory721Address account templateIndex)
           (\<lambda>estGas.
         bindE (getFairGasPrice env) (\<lambda>gasPrice.
         sendTx env factory721Address ''reactivate721TokenTemplate'' [AInt (int templateIndex)]
           account (estGas + 1) gasPrice))))"

definition estGasAddTokenTemplate :: "env \<Rightarrow> address \<Rightarrow> address \<Rightarrow> address \<Rightarrow> nat io" where
  "estGasAddTokenTemplate env factory721Address account templateAddress' =
     tryCatch
       (estimateGasCall env factory721Address ''addTokenTemplate''
          [addrArg templateAddress'] account)
       (\<lambda>e. returnE GASLIMIT_DEFAULT)"

definition addTokenTemplate :: "env \<Rightarrow> address \<Rightarrow> address \<Rightarrow> address \<Rightarrow> receipt io" where
  "addTokenTemplate env factory721Address account templateAddress' =
     bindE (getOwner env factory721Address) (\<lambda>owner.
     if owner \<noteq> account then throwE CallerIsNotFactoryOwner
     else if templateAddress' = ZERO_ADDRESS then throwE TemplateCannotBeAddressZero
     else
       bindE (estGasAddTokenTemplate env factory721Address account templateAddress') (\<lambda>estGas.
       bindE (getFairGasPrice env) (\<lambda>gasPrice.
       sendTx env factory721Address ''addTokenTemplate'' [addrArg templateAddress']
         account (estGas + 1) gasPrice)))"

definition estGasDisableTokenTemplate :: "env \<Rightarrow> address \<Rightarrow> address \<Rightarrow> nat \<Rightarrow> nat io" where
  "estGasDisableTokenTemplate env factory721Address account templateIndex =
     tryCatch
       (estimateGasCall env factory721Address ''disableTokenTemplate''
          [AInt (int templateIndex)] account)
       (\<lambda>e. returnE GASLIMIT_DEFAULT)"

definition disableTokenTemplate :: "env \<Rightarrow> address \<Rightarrow> address \<Rightarrow> nat \<Rightarrow> receipt io" where
  "disableTokenTemplate env factory721Address account templateIndex =
     bindE (getOwner env factory721Address) (\<lambda>owner.
     if owner \<noteq> account then throwE CallerIsNotFactoryOwner
     else
       bindE (getCurrentTokenTemplateCount env factory721Address) (\<lambda>count.
       if templateIndex > count then throwE TemplateIndexDoesntExist
       else if templateIndex = 0 then throwE TemplateIndexCannotBeZero
       else
         bindE (getTokenTemplate env factory721Address templateIndex) (\<lambda>template.
         if isActive template = False then throwE TemplateIsAlreadyDisabled
         else
           bindE (estGasDisableTokenTemplate env factory721Address account templateIndex)
             (\<lambda>estGas.
           bindE (getFairGasPrice env) (\<lambda>gasPrice.
           sendTx env factory721Address ''disableTokenTemplate'' [AInt (int templateIndex)]
             account (estGas + 1) gasPrice)))))"

definition estGasReactivateTokenTemplate :: "env \<Rightarrow> address \<Rightarrow> address \<Rightarrow> nat \<Rightarrow> nat io" where
  "estGasReactivateTokenTemplate env factory721Address account templateIndex =
     tryCatch
       (estimateGasCall env factory721Address ''reactivateTokenTemplate''
          [AInt (int templateIndex)] account)
       (\<lambda>e. returnE GASLIMIT_DEFAULT)"

definition reactivateTokenTemplate :: "env \<Rightarrow> address \<Rightarrow> address \<Rightarrow> nat \<Rightarrow> receipt io" where
  "reactivateTokenTemplate env factory721Address account templateIndex =
     bindE (getOwner env factory721Address) (\<lambda>owner.
     if owner \<noteq> account then throwE CallerIsNotFactoryOwner
     else
       bindE (getCurrentTokenTemplateCount env factory721Address) (\<lambda>count.
       if templateIndex > count then throwE TemplateIndexDoesntExist
       else if templateIndex = 0 then throwE TemplateIndexCannotBeZero
       else
         bindE (getTokenTemplate env factory721Address templateIndex) (\<lambda>template.
         if isActive template = True then throwE TemplateIsAlreadyActive
         else
           bindE (estGasReactivateTokenTemplate env factory721Address account templateIndex)
             (\<lambda>estGas.
           bindE (getFairGasPrice env) (\<lambda>gasPrice.
           sendTx env factory721Address ''reactivateTokenTemplate'' [AInt (int templateIndex)]
             account (estGas + 1) gasPrice)))))"

subsection \<open>Orders and combined creation\<close>

text \<open>The orders and the creation parameters are passed through to the contract; they
  are arguments whose content the client does not inspect (but for the number of orders
  and the two amounts of the dispenser).\<close>

definition estGasStartMultipleTokenOrder ::
    "env \<Rightarrow> address \<Rightarrow> address \<Rightarrow> arg list \<Rightarrow> nat io" where
  "estGasStartMultipleTokenOrder env factory721Address account orders =
     tryCatch
       (estimateGasCall env factory721Address ''startMultipleTokenOrder'' [AList orders] account)
       (\<lambda>e. returnE GASLIMIT_DEFAULT)"

definition startMultipleTokenOrder ::
    "env \<Rightarrow> address \<Rightarrow> address \<Rightarrow> arg list \<Rightarrow> receipt io" where
  "startMultipleTokenOrder env factory721Address account orders =
     (if length orders > 50 then throwE TooManyOrders
      else
        bindE (estGasStartMultipleTokenOrder env factory721Address account orders) (\<lambda>estGas.
        bindE (getFairGasPrice env) (\<lambda>gasPrice.
        sendTx env factory721Address ''startMultipleTokenOrder'' [AList orders]
          account (estGas + 1) gasPrice)))"

definition estGasCreateNftWithErc20 ::
    "env \<Rightarrow> address \<Rightarrow> address \<Rightarrow> NftCreateData \<Rightarrow> arg \<Rightarrow> nat io" where
  "estGasCreateNftWithErc20 env factory721Address account nftCreateData ercParams =
     tryCatch
       (bindE (await (utils_getErcCreationParams env ercParams)) (\<lambda>ercCreateData.
        estimateGasCall env factory721Address ''createNftWithErc20''
          [nftStruct nftCreateData, ercCreateData] account))
       (\<lambda>e. returnE GASLIMIT_DEFAULT)"

definition createNftWithErc20 ::
    "env \<Rightarrow> address \<Rightarrow> address \<Rightarrow> NftCreateData \<Rightarrow> arg \<Rightarrow> receipt io" where
  "createNftWithErc20 env factory721Address account nftCreateData ercParams =
     bindE (await (utils_getErcCreationParams env ercParams)) (\<lambda>ercCreateData.
     bindE (estGasCreateNftWithErc20 env factory721Address account nftCreateData ercParams)
       (\<lambda>estGas.
     bindE (getFairGasPrice env) (\<lambda>gasPrice.
     sendTx env factory721Address ''createNftWithErc20''
       [nftStruct nftCreateData, ercCreateData] account (estGas + 1) gasPrice)))"

definition estGasCreateNftErc20WithPool ::
    "env \<Rightarrow> address \<Rightarrow> address \<Rightarrow> NftCreateData \<Rightarrow> arg \<Rightarrow> arg \<Rightarrow> nat io" where
  "estGasCreateNftErc20WithPool env factory721Address account nftCreateData ercParams
       poolParams =
     tryCatch
       (bindE (await (utils_getErcCreationParams env ercParams)) (\<lambda>ercCreateData.
        bindE (await (utils_getPoolCreationParams env poolParams)) (\<lambda>poolData.
        estimateGasCall env factory721Address ''createNftWithErc20WithPool''
          [nftStruct nftCreateData, ercCreateData, poolData] account)))
       (\<lambda>e. returnE GASLIMIT_DEFAULT)"

definition createNftErc20WithPool ::
    "env \<Rightarrow> address \<Rightarrow> address \<Rightarrow> NftCreateData \<Rightarrow> arg \<Rightarrow> arg \<Rightarrow> receipt io" where
  "createNftErc20WithPool env factory721Address account nftCreateData ercParams poolParams =
     bindE (estGasCreateNftErc20WithPool env factory721Address account nftCreateData
              ercParams poolParams) (\<lambda>estGas.
     bindE (await (utils_getErcCreationParams env ercParams)) (\<lambda>ercCreateData.
     bindE (await (utils_getPoolCreationParams env poolParams)) (\<lambda>poolData.
     bindE (getFairGasPrice env) (\<lambda>gasPrice.
     sendTx env factory721Address ''createNftWithErc20WithPool''
       [nftStruct nftCreateData, ercCreateData, poolData]
       account (estGas + 1) gasPrice))))"

definition estGasCreateNftErc20WithFixedRate ::
    "env \<Rightarrow> address \<Rightarrow> address \<Rightarrow> NftCreateData \<Rightarrow> arg \<Rightarrow> arg \<Rightarrow> nat io" where
  "estGasCreateNftErc20WithFixedRate env factory721Address account nftCreateData ercParams
       freParams =
     bindE (await (utils_getErcCreationParams env ercParams)) (\<lambda>ercCreateData.
     bindE (await (utils_getFreCreationParams env freParams)) (\<lambda>fixedData.
     tryCatch
       (estimateGasCall env factory721Address ''createNftWithErc20WithFixedRate''
          [nftStruct nftCreateData, ercCreateData, fixedData] account)
       (\<lambda>e. returnE GASLIMIT_DEFAULT)))"

definition createNftErc20WithFixedRate ::
    "env \<Rightarrow> address \<Rightarrow> address \<Rightarrow> NftCreateData \<Rightarrow> arg \<Rightarrow> arg \<Rightarrow> receipt io" where
  "createNftErc20WithFixedRate env factory721Address account nftCreateData ercParams
       freParams =
     bindE (await (utils_getErcCreationParams env ercParams)) (\<lambda>ercCreateData.
     bindE (await (utils_getFreCreationParams env freParams)) (\<lambda>fixedData.
     bindE (estGasCreateNftErc20WithFixedRate env factory721Address account nftCreateData
              ercParams freParams) (\<lambda>estGas.
     bindE (getFairGasPrice env) (\<lambda>gasPrice.
     sendTx env factory721Address ''createNftWithErc20WithFixedRate''
       [nftStruct nftCreateData, ercCreateData, fixedData]
       account (estGas + 1) gasPrice))))"

text \<open>\<open>DispenserCreationParams\<close>: the two amounts the client converts with \<open>toWei\<close>, and
  the remaining fields.\<close>

record DispenserCreationParams =
  disp_maxBalance :: amount
  disp_maxTokens :: amount
  disp_others :: arg

definition estGasCreateNftErc20WithDispenser ::
    "env \<Rightarrow> address \<Rightarrow> address \<Rightarrow> NftCreateData \<Rightarrow> arg \<Rightarrow> arg \<Rightarrow> nat io" where
  "estGasCreateNftErc20WithDispenser env factory721Address account nftCreateData ercParams
       dispenserParams =
     bindE (await (utils_getErcCreationParams env ercParams)) (\<lambda>ercCreateData.
     tryCatch
       (estimateGasCall env factory721Address ''createNftWithErc20WithDispenser''
          [nftStruct nftCreateData, ercCreateData, dispenserParams] account)
       (\<lambda>e. bindE (logError ''Failed to estimate gas for createNftErc20WithDispenser'' e) (\<lambda>_.
        returnE GASLIMIT_DEFAULT)))"

definition createNftErc20WithDispenser ::
    "env \<Rightarrow> address \<Rightarrow> address \<Rightarrow> NftCreateData \<Rightarrow> arg \<Rightarrow> DispenserCreationParams \<Rightarrow> receipt io"
  where
  "createNftErc20WithDispenser env factory721Address account nftCreateData ercParams
       dispenserParams =
     bindE (await (utils_getErcCreationParams env ercParams)) (\<lambda>ercCreateData.
     bindE (await (web3_toWei env (disp_maxBalance dispenserParams))) (\<lambda>maxBalance.
     bindE (await (web3_toWei env (disp_maxTokens dispenserParams))) (\<lambda>maxTokens.
     bindE (estGasCreateNftErc20WithDispenser env factory721Address account nftCreateData
              ercParams (AList [AInt maxBalance, AInt maxTokens, disp_others dispenserParams]))
       (\<lambda>estGas.
     bindE (getFairGasPrice env) (\<lambda>gasPrice.
     sendTx env factory721Address ''createNftWithErc20WithDispenser''
       [nftStruct nftCreateData, ercCreateData,
        AList [AInt maxBalance, AInt maxTokens, disp_others dispenserParams]]
       account (estGas + 1) gasPrice)))))"

section \<open>A reference environment\<close>

text \<open>
  The helpers that are fields of the environment are given concrete definitions here, to
  run the methods on concrete inputs.

  Modelled from the spec: the unit converter (\<open>amountToUnits\<close> and \<open>unitsToAmount\<close> of
  \<open>SmartContract\<close>, absent from the sources). The precision is the override when one is
  given, else the answer of the token's \<open>decimals\<close> query, else (no token to ask) 18; a
  negative override or a failed query is \<open>InvalidDecimals\<close>. \<open>toUnits\<close> truncates toward zero
  and \<open>toAmount\<close> is exact.
\<close>

definition spec_decimals ::
    "(address \<Rightarrow> string \<Rightarrow> arg list \<Rightarrow> error + nat) \<Rightarrow> address \<Rightarrow> int option \<Rightarrow> error + nat" where
  "spec_decimals callUint token decimalsOverride =
     (case decimalsOverride of
        Some d \<Rightarrow> if d < 0 then Inl InvalidDecimals else Inr (nat d)
      | None \<Rightarrow>
          (case token of
             None \<Rightarrow> Inr 18
           | Some t \<Rightarrow>
               (case callUint token ''decimals'' [] of
                  Inl e \<Rightarrow> Inl InvalidDecimals
                | Inr d \<Rightarrow> Inr d)))"

definition spec_amountToUnits ::
    "(address \<Rightarrow> string \<Rightarrow> arg list \<Rightarrow> error + nat) \<Rightarrow> address \<Rightarrow> amount \<Rightarrow> int option
       \<Rightarrow> error + int" where
  "spec_amountToUnits callUint token humanAmount decimalsOverride =
     (case spec_decimals callUint token decimalsOverride of
        Inl e \<Rightarrow> Inl e
      | Inr d \<Rightarrow>
          Inr (if humanAmount \<ge> 0 then \<lfloor>humanAmount * 10 ^ d\<rfloor>
               else \<lceil>humanAmount * 10 ^ d\<rceil>))"

definition spec_unitsToAmount ::
    "(address \<Rightarrow> string \<Rightarrow> arg list \<Rightarrow> error + nat) \<Rightarrow> address \<Rightarrow> nat \<Rightarrow> int option
       \<Rightarrow> error + amount" where
  "spec_unitsToAmount callUint token integerAmount decimalsOverride =
     (case spec_decimals callUint token decimalsOverride of
        Inl e \<Rightarrow> Inl e
      | Inr d \<Rightarrow> Inr (of_nat integerAmount / 10 ^ d))"

text \<open>
  Modelled from the spec: \<open>calculateEstimatedGas\<close> of \<open>../../utils\<close>, absent from the
  sources. On estimation failure it falls back to a configured default estimate.
\<close>

definition spec_calculateEstimatedGas ::
    "(address \<Rightarrow> string \<Rightarrow> arg list \<Rightarrow> address \<Rightarrow> error + nat) \<Rightarrow> nat
       \<Rightarrow> address \<Rightarrow> address \<Rightarrow> string \<Rightarrow> arg list \<Rightarrow> error + nat" where
  "spec_calculateEstimatedGas estimate defaultEstimate account contract method args =
     (case estimate contract method args account of
        Inl e \<Rightarrow> Inr defaultEstimate
      | Inr gas \<Rightarrow> Inr gas)"

text \<open>
  Modelled from the spec: \<open>calcMaxExactIn\<close> and \<open>calcMaxExactOut\<close> of \<open>../../utils\<close>,
  absent from the sources. All four bounds derive from the same primitive: fetch the
  reserve, then apply a fixed conservative ratio, a configuration constant (reserve times
  ratio). The spec names no value and does not say that the ratios of the operations
  differ; the reference environment configures the one ratio one half for both helpers.
\<close>

definition spec_calcMax :: "amount \<Rightarrow> amount \<Rightarrow> amount" where
  "spec_calcMax ratio reserve = reserve * ratio"

text \<open>web3's \<open>toWei\<close> and \<open>fromWei\<close> with the default unit (ether, 18 decimals); \<open>toWei\<close>
  refuses a number with more than 18 decimal places.\<close>

definition ether_toWei :: "amount \<Rightarrow> error + int" where
  "ether_toWei a =
     (if of_int \<lfloor>a * 10 ^ 18\<rfloor> = a * 10 ^ 18 then Inr \<lfloor>a * 10 ^ 18\<rfloor> else Inl InvalidNumber)"

definition ether_fromWei :: "nat \<Rightarrow> amount" where
  "ether_fromWei n = of_nat n / 10 ^ 18"

text \<open>
  A chain with one pool \<open>pool\<close> of the base token \<open>usdc\<close> (6 decimals, reserve 1000) and
  the datatoken \<open>dt\<close> (18 decimals, reserve 500), a side-staking contract \<open>ss\<close> and a
  factory \<open>factory\<close> owned by \<open>alice\<close>; \<open>bob\<close> collects the publish-market fees. Every
  other numeric or address read is rejected.
\<close>

definition chain_uint :: "address \<Rightarrow> string \<Rightarrow> arg list \<Rightarrow> error + nat" where
  "chain_uint contract method args =
     (if contract = Some ''usdc'' \<and> method = ''decimals'' then Inr 6
      else if contract = Some ''dt'' \<and> method = ''decimals'' then Inr 18
      else if contract = Some ''pool'' \<and> method = ''getBalance'' \<and> args = [AAddr ''usdc'']
        then Inr 1000000000
      else if contract = Some ''pool'' \<and> method = ''getBalance'' \<and> args = [AAddr ''dt'']
        then Inr 500000000000000000000
      else if contract = Some ''pool'' \<and> method = ''getNumTokens'' then Inr 2
      else if contract = Some ''pool'' \<and> method = ''decimals'' then Inr 18
      else if contract = Some ''pool'' \<and> method = ''calcSingleOutPoolIn'' then Inr 3000000
      else if contract = Some ''ss'' \<and> method = ''getBaseTokenBalance'' then Inr 2500000
      else if contract = Some ''ss'' \<and> method = ''getDatatokenBalance''
        then Inr 2500000000000000000
      else if contract = Some ''factory'' \<and> method = ''getCurrentNFTTemplateCount'' then Inr 1
      else if contract = Some ''factory'' \<and> method = ''getCurrentTemplateCount'' then Inr 2
      else Inl (Rejected ''execution reverted''))"

definition chain_address :: "address \<Rightarrow> string \<Rightarrow> arg list \<Rightarrow> error + address" where
  "chain_address contract method args =
     (if contract = Some ''pool'' \<and> method = ''getBaseTokenAddress'' then Inr (Some ''usdc'')
      else if contract = Some ''pool'' \<and> method = ''_publishMarketCollector''
        then Inr (Some ''bob'')
      else if contract = Some ''factory'' \<and> method = ''owner'' then Inr (Some ''alice'')
      else Inl (Rejected ''execution reverted''))"

text \<open>The pool quotes 2 \<open>usdc\<close> in and 1 \<open>dt\<close> out, with fees of 2000, 200, 20 and 2
  units of \<open>usdc\<close>.\<close>

definition chain_quote :: "address \<Rightarrow> string \<Rightarrow> arg list \<Rightarrow> error + quote_units" where
  "chain_quote contract method args =
     (if contract = Some ''pool'' \<and> method = ''getAmountInExactOut''
        then Inr \<lparr> q_tokenAmount = 2000000, q_lpFeeAmount = 2000, q_oceanFeeAmount = 200,
                   q_publishMarketSwapFeeAmount = 20, q_consumeMarketSwapFeeAmount = 2 \<rparr>
      else if contract = Some ''pool'' \<and> method = ''getAmountOutExactIn''
        then Inr \<lparr> q_tokenAmount = 1000000000000000000, q_lpFeeAmount = 2000,
                   q_oceanFeeAmount = 200, q_publishMarketSwapFeeAmount = 20,
                   q_consumeMarketSwapFeeAmount = 2 \<rparr>
      else Inl (Rejected ''execution reverted''))"

text \<open>The factory has one NFT template, active, and two datatoken templates, the second
  of them disabled.\<close>

definition chain_template :: "address \<Rightarrow> string \<Rightarrow> arg list \<Rightarrow> error + Template" where
  "chain_template contract method args =
     (if contract = Some ''factory'' \<and> method = ''getTokenTemplate'' \<and> args = [AInt 2]
      then Inr \<lparr> templateAddress = Some ''template2'', isActive = False \<rparr>
      else if contract = Some ''factory''
      then Inr \<lparr> templateAddress = Some ''template'', isActive = True \<rparr>
      else Inl (Rejected ''execution reverted''))"

text \<open>Every send is confirmed; the deployment of an NFT emits \<open>NFTCreated\<close>.\<close>

definition chain_send ::
    "address \<Rightarrow> string \<Rightarrow> arg list \<Rightarrow> address \<Rightarrow> nat \<Rightarrow> nat \<Rightarrow> error + receipt" where
  "chain_send contract method args account gas gasPrice =
     (if method = ''deployERC721Contract'' then Inr [(''NFTCreated'', [''nft1''])] else Inr [])"

text \<open>Estimation answers 21000 and the fair gas price at time \<open>t\<close> is \<open>100 + t\<close>.\<close>

definition testEnv :: env where
  "testEnv =
     \<lparr> call_uint = chain_uint,
       call_address = chain_address,
       call_addresses = (\<lambda>c m a. Inr [''usdc'', ''dt'']),
       call_bool = (\<lambda>c m a. Inr True),
       call_fees = (\<lambda>c m a. Inr ([''usdc'', ''dt''], [7, 9])),
       call_quote = chain_quote,
       call_template = chain_template,
       web3_estimateGas = (\<lambda>c m a f. Inr 21000),
       web3_send = chain_send,
       web3_toWei = ether_toWei,
       web3_fromWei = ether_fromWei,
       fairGasPrice = (\<lambda>t. Inr (100 + t)),
       utils_calculateEstimatedGas =
         spec_calculateEstimatedGas (\<lambda>c m a f. Inr 21000) 1000000,
       utils_amountToUnits = spec_amountToUnits chain_uint,
       utils_unitsToAmount = spec_unitsToAmount chain_uint,
       utils_calcMaxExactIn = spec_calcMax (1 / 2),
       utils_calcMaxExactOut = spec_calcMax (1 / 2),
       utils_MAX_UINT_256 = 2 ^ 256 - 1,
       utils_generateDtName = (''Ocean Token'', ''OCEAN-1''),
       utils_getErcCreationParams = (\<lambda>p. Inr p),
       utils_getPoolCreationParams = (\<lambda>p. Inr p),
       utils_getFreCreationParams = (\<lambda>p. Inr p) \<rparr>"

text \<open>The same chain when every submission is rejected, when every estimation fails,
  when moreover the fair-gas-price query fails, and when every numeric read fails.\<close>

definition rejectingEnv :: env where
  "rejectingEnv = testEnv\<lparr> web3_send := (\<lambda>c m a f g p. Inl (Rejected ''execution reverted'')) \<rparr>"

definition noEstimateEnv :: env where
  "noEstimateEnv = testEnv\<lparr> web3_estimateGas := (\<lambda>c m a f. Inl (Rejected ''out of gas'')) \<rparr>"

definition unpricedEnv :: env where
  "unpricedEnv = noEstimateEnv\<lparr> fairGasPrice := (\<lambda>t. Inl (Rejected ''no gas price'')) \<rparr>"

definition unreadableEnv :: env where
  "unreadableEnv = testEnv\<lparr> call_uint := (\<lambda>c m a. Inl (Rejected ''connection lost'')) \<rparr>"

text \<open>Inputs used with the reference environment: a swap of \<open>usdc\<close> for \<open>dt\<close>, a small
  trade in either direction, a trade of the whole reserve, and the data of an NFT.\<close>

definition swapMarket :: TokenInOutMarket where
  "swapMarket =
     \<lparr> mkt_tokenIn = Some ''usdc'', mkt_tokenOut = Some ''dt'',
       mkt_marketFeeAddress = Some ''bob'',
       mkt_tokenInDecimals = None, mkt_tokenOutDecimals = None \<rparr>"

definition smallSwap :: AmountsInMaxFee where
  "smallSwap =
     \<lparr> in_tokenAmountIn = 2, in_minAmountOut = 1 / 2, in_swapMarketFee = 1 / 1000,
       in_maxPrice = None \<rparr>"

definition fullReserveSwap :: AmountsInMaxFee where
  "fullReserveSwap =
     \<lparr> in_tokenAmountIn = 1000, in_minAmountOut = 1 / 2, in_swapMarketFee = 1 / 1000,
       in_maxPrice = None \<rparr>"

definition smallSwapOut :: AmountsOutMaxFee where
  "smallSwapOut =
     \<lparr> out_maxAmountIn = 3, out_tokenAmountOut = 1, out_swapMarketFee = 1 / 1000,
       out_maxPrice = None \<rparr>"

definition someNft :: NftCreateData where
  "someNft =
     \<lparr> nft_name = ''Data NFT'', nft_symbol = ''DNFT'', nft_templateIndex = 1,
       nft_tokenURI = ''https://example.org/nft.json'', nft_transferable = True,
       nft_owner = Some ''alice'' \<rparr>"

definition someDispenser :: DispenserCreationParams where
  "someDispenser =
     \<lparr> disp_maxBalance = 1, disp_maxTokens = 1, disp_others = AAddr ''dispenser'' \<rparr>"

section \<open>Properties of traces and outcomes\<close>

text \<open>The submissions and the estimations a method added to the trace it started from.\<close>

definition newSubmissions :: "trace \<Rightarrow> trace \<Rightarrow> event list" where
  "newSubmissions s s' = drop (length (submissions s)) (submissions s')"

definition newEstimations :: "trace \<Rightarrow> trace \<Rightarrow> event list" where
  "newEstimations s s' = drop (length (estimations s)) (estimations s')"

text \<open>The outcome of \<open>calculateEstimatedGas\<close> for the last effect of a trace, when that
  effect is an estimation.\<close>

fun lastEstimate :: "env \<Rightarrow> trace \<Rightarrow> (error + nat) option" where
  "lastEstimate env [] = None"
| "lastEstimate env [Estimated c m a f] = Some (utils_calculateEstimatedGas env f c m a)"
| "lastEstimate env [ev] = None"
| "lastEstimate env (ev # ev' # s) = lastEstimate env (ev' # s)"

text \<open>An estimate-only outcome: nothing was submitted, and a call that returns returns
  the gas estimate that its last effect, an estimation, computed.\<close>

definition estimateOnly :: "env \<Rightarrow> trace \<Rightarrow> (error + tx_result) \<times> trace \<Rightarrow> bool" where
  "estimateOnly env s out =
     (submissions (snd out) = submissions s \<and>
      (case fst out of
         Inl e \<Rightarrow> True
       | Inr r \<Rightarrow>
           (case r of
              Estimate gas \<Rightarrow> lastEstimate env (snd out) = Some (Inr gas)
            | Receipt x \<Rightarrow> False)))"

text \<open>The outcome of a method whose \<open>catch\<close> swallows a rejected submission: at most one
  transaction was sent; when the network rejected it the method returned \<open>null\<close> and the
  trace ends with the submission and the log line \<open>msg\<close> carrying the cause; when the
  network confirmed it the method returned the receipt.\<close>

definition swallowsRejection ::
    "env \<Rightarrow> string \<Rightarrow> trace \<Rightarrow> (error + tx_result) \<times> trace \<Rightarrow> bool" where
  "swallowsRejection env msg s out =
     (case newSubmissions s (snd out) of
        [] \<Rightarrow> True
      | ev # others \<Rightarrow>
          others = [] \<and>
          (case ev of
             Sent c m a f g p \<Rightarrow>
               (case web3_send env c m a f g p of
                  Inl e \<Rightarrow> fst out = Inr (Receipt None)
                           \<and> take 2 (rev (snd out)) = [Logged msg e, ev]
                | Inr r \<Rightarrow> fst out = Inr (Receipt (Some r)) \<and> take 1 (rev (snd out)) = [ev])
           | _ \<Rightarrow> False))"

text \<open>The errors of the fair-gas-price queries that failed since the trace \<open>s\<close>.\<close>

fun priceFailures :: "trace \<Rightarrow> error list" where
  "priceFailures [] = []"
| "priceFailures (PriceQueryFailed e # s) = e # priceFailures s"
| "priceFailures (ev # s) = priceFailures s"

definition newPriceFailures :: "trace \<Rightarrow> trace \<Rightarrow> error list" where
  "newPriceFailures s s' = drop (length (priceFailures s)) (priceFailures s')"

text \<open>The outcome of a factory method whose estimation failed. Either it threw before
  estimating (and sent nothing); or it estimated once and then asked the fair gas price:
  when that query failed the method threw the query's error and sent nothing, and when it
  answered the method sent exactly one transaction, the estimated call, with the gas
  limit \<open>GASLIMIT_DEFAULT + 1\<close>.\<close>

definition submitsWithDefault ::
    "address \<Rightarrow> string \<Rightarrow> arg list \<Rightarrow> address \<Rightarrow> trace \<Rightarrow> (error + 'a) \<times> trace \<Rightarrow> bool" where
  "submitsWithDefault contract method args account s out =
     (if newEstimations s (snd out) = []
      then isl (fst out) \<and> newSubmissions s (snd out) = []
      else newEstimations s (snd out) = [Estimated contract method args account] \<and>
           (case newPriceFailures s (snd out) of
              e # others \<Rightarrow> fst out = Inl e \<and> newSubmissions s (snd out) = []
            | [] \<Rightarrow>
                (case newSubmissions s (snd out) of
                   [] \<Rightarrow> False
                 | ev # others \<Rightarrow>
                     others = [] \<and>
                     (case ev of
                        Sent c m a f gas price \<Rightarrow>
                          c = contract \<and> m = method \<and> a = args \<and> f = account \<and>
                          gas = GASLIMIT_DEFAULT + 1
                      | _ \<Rightarrow> False))))"

section \<open>Evaluation rules\<close>

lemmas io_defs = returnE_def throwE_def bindE_def tryCatch_def await_def logError_def
  calculateEstimatedGas_def estimateGasCall_def getFairGasPrice_def sendTx_def

lemmas env_defs = testEnv_def rejectingEnv_def noEstimateEnv_def unpricedEnv_def
  unreadableEnv_def
  chain_uint_def chain_address_def chain_quote_def chain_template_def chain_send_def
  spec_decimals_def spec_amountToUnits_def spec_unitsToAmount_def spec_calculateEstimatedGas_def
  spec_calcMax_def ether_toWei_def ether_fromWei_def addrArg_def
  swapMarket_def smallSwap_def fullReserveSwap_def smallSwapOut_def someNft_def
  someDispenser_def

lemmas factory_reads = getOwner_def getCurrentNFTTemplateCount_def
  getCurrentTokenTemplateCount_def getNFTTemplate_def getTokenTemplate_def

lemma submissions_simps [simp]:
  "submissions (s @ t) = submissions s @ submissions t"
  "submissions [] = []"
  "submissions (Estimated c m a f # s) = submissions s"
  "submissions (Logged msg e # s) = submissions s"
  "submissions (PriceQueried p # s) = submissions s"
  "submissions (PriceQueryFailed e # s) = submissions s"
  "submissions (Sent c m a f g p # s) = Sent c m a f g p # submissions s"
  by (simp_all add: submissions_def)

lemma estimations_simps [simp]:
  "estimations (s @ t) = estimations s @ estimations t"
  "estimations [] = []"
  "estimations (Estimated c m a f # s) = Estimated c m a f # estimations s"
  "estimations (Logged msg e # s) = estimations s"
  "estimations (PriceQueried p # s) = estimations s"
  "estimations (PriceQueryFailed e # s) = estimations s"
  "estimations (Sent c m a f g p # s) = estimations s"
  by (simp_all add: estimations_def)

lemma newSubmissions_append [simp]: "newSubmissions s (s @ t) = submissions t"
  by (simp add: newSubmissions_def)

lemma newSubmissions_same [simp]: "newSubmissions s s = []"
  by (simp add: newSubmissions_def)

lemma newEstimations_append [simp]: "newEstimations s (s @ t) = estimations t"
  by (simp add: newEstimations_def)

lemma newEstimations_same [simp]: "newEstimations s s = []"
  by (simp add: newEstimations_def)

lemma priceFailures_append [simp]: "priceFailures (s @ t) = priceFailures s @ priceFailures t"
  by (induction s rule: priceFailures.induct) simp_all

lemma newPriceFailures_append [simp]: "newPriceFailures s (s @ t) = priceFailures t"
  by (simp add: newPriceFailures_def)

lemma newPriceFailures_same [simp]: "newPriceFailures s s = []"
  by (simp add: newPriceFailures_def)

lemma lastEstimate_append [simp]:
  "lastEstimate env (s @ ev # t) = lastEstimate env (ev # t)"
  by (induction env s rule: lastEstimate.induct) simp_all

section \<open>Trade bounds\<close>




section \<open>Bound check before a swap\<close>

text \<open>
  C1: when the bound \<open>getMaxSwapExactIn\<close> of the pool and the input token is derived
  and \<open>tokenAmountIn\<close> is strictly greater, \<open>swapExactAmountIn\<close> and the quote
  \<open>getAmountOutExactIn\<close> both throw the error \<open>tokenAmountIn is greater than\<close> carrying
  the computed bound, and neither a gas estimation nor a submission has happened.
\<close>

theorem swap_above_bound_is_rejected:
  "getMaxSwapExactIn env poolAddress (mkt_tokenIn market) s = (Inr maxSwap, s')
   \<Longrightarrow> in_tokenAmountIn amounts > maxSwap
   \<Longrightarrow> swapExactAmountIn env account poolAddress market amounts estimateGas s
         = (Inl (TokenAmountInGreaterThan maxSwap), s')
       \<and> getAmountOutExactIn env poolAddress (mkt_tokenIn market) tokenOut
           (in_tokenAmountIn amounts) swapMarketFee tokenInDecimals tokenOutDecimals s
         = (Inl (TokenAmountInGreaterThan maxSwap), s')
       \<and> estimations s' = estimations s \<and> submissions s' = submissions s"
  by (auto simp add: swapExactAmountIn_def getAmountOutExactIn_def getMaxSwapExactIn_def
      getReserve_def io_defs split: sum.splits)

text \<open>The scenario of the spec: the reserve is 1000 and the request is 1000.\<close>

theorem swap_above_bound_is_rejected_witness:
  "getMaxSwapExactIn testEnv (Some ''pool'') (mkt_tokenIn swapMarket) [] = (Inr 500, [])
   \<and> in_tokenAmountIn fullReserveSwap > 500
   \<and> swapExactAmountIn testEnv (Some ''alice'') (Some ''pool'') swapMarket fullReserveSwap False []
       = (Inl (TokenAmountInGreaterThan 500), [])
   \<and> getAmountOutExactIn testEnv (Some ''pool'') (mkt_tokenIn swapMarket) (Some ''dt'')
         (in_tokenAmountIn fullReserveSwap) (1 / 1000) None None []
       = (Inl (TokenAmountInGreaterThan 500), [])"
proof -
  have bound: "getMaxSwapExactIn testEnv (Some ''pool'') (mkt_tokenIn swapMarket) [] = (Inr 500, [])"
    by (simp add: getMaxSwapExactIn_def getReserve_def io_defs env_defs)
  have above: "in_tokenAmountIn fullReserveSwap > 500"
    by (simp add: env_defs)
  show ?thesis
    using bound above
      swap_above_bound_is_rejected [OF bound above, of "Some ''alice''" False "Some ''dt''"
        "1 / 1000" None None]
    by simp
qed

section \<open>Estimate-only calls\<close>

lemma eo_setSwapFee: "estimateOnly env s (setSwapFee env account poolAddress fee True s)"
  by (simp add: estimateOnly_def setSwapFee_def io_defs split: sum.splits)

lemma eo_collectOPC: "estimateOnly env s (collectOPC env account poolAddress True s)"
  by (simp add: estimateOnly_def collectOPC_def io_defs split: sum.splits)

lemma eo_collectMarketFee:
  "estimateOnly env s (collectMarketFee env account poolAddress True s)"
  by (auto simp add: estimateOnly_def collectMarketFee_def getMarketFeeCollector_def io_defs
      split: sum.splits)

lemma eo_updatePublishMarketFee:
  "estimateOnly env s
     (updatePublishMarketFee env account poolAddress newAddress newFee True s)"
  by (auto simp add: estimateOnly_def updatePublishMarketFee_def getMarketFeeCollector_def
      io_defs split: sum.splits)

lemma eo_swapExactAmountIn:
  "estimateOnly env s (swapExactAmountIn env account poolAddress market amounts True s)"
  by (auto simp add: estimateOnly_def swapExactAmountIn_def getMaxSwapExactIn_def
      getReserve_def getBasetoken_def io_defs split: sum.splits option.splits)

lemma eo_swapExactAmountOut:
  "estimateOnly env s (swapExactAmountOut env account poolAddress market amountsOut True s)"
  by (auto simp add: estimateOnly_def swapExactAmountOut_def getMaxSwapExactOut_def
      getReserve_def getBasetoken_def io_defs split: sum.splits option.splits)

lemma eo_joinswapExternAmountIn:
  "estimateOnly env s
     (joinswapExternAmountIn env account poolAddress amountIn minOut decimals True s)"
  by (auto simp add: estimateOnly_def joinswapExternAmountIn_def getMaxAddLiquidity_def
      getReserve_def getBasetoken_def io_defs split: sum.splits option.splits)

lemma eo_exitSwapPoolAmountIn:
  "estimateOnly env s
     (exitSwapPoolAmountIn env account poolAddress sharesIn minOut decimals True s)"
  by (auto simp add: estimateOnly_def exitSwapPoolAmountIn_def calcSingleOutGivenPoolIn_def
      getMaxRemoveLiquidity_def getReserve_def getBasetoken_def io_defs
      split: sum.splits option.splits)

lemma eo_getVesting: "estimateOnly env s (getVesting env account ssAddress datatoken True s)"
  by (simp add: estimateOnly_def getVesting_def io_defs split: sum.splits)

lemma eo_setPoolSwapFee:
  "estimateOnly env s
     (setPoolSwapFee env account ssAddress datatoken poolAddress swapFee True s)"
  by (simp add: estimateOnly_def setPoolSwapFee_def io_defs split: sum.splits)

lemma ret_setSwapFee:
  assumes "utils_calculateEstimatedGas env account poolAddress ''setSwapFee''
            [ADec fee] = Inr gasSet"
  shows "setSwapFee env account poolAddress fee True s
       = (Inr (Estimate gasSet),
          s @ [Estimated poolAddress ''setSwapFee''
                 [ADec fee] account])"
  using assms
  by (auto simp add: setSwapFee_def io_defs)

lemma ret_collectOPC:
  assumes "utils_calculateEstimatedGas env account poolAddress ''collectOPC''
            [] = Inr gasOPC"
  shows "collectOPC env account poolAddress True s
       = (Inr (Estimate gasOPC),
          s @ [Estimated poolAddress ''collectOPC''
                 [] account])"
  using assms
  by (auto simp add: collectOPC_def io_defs)

lemma ret_collectMarketFee:
  assumes "call_address env poolAddress ''_publishMarketCollector'' [] = Inr collector"
      and "utils_calculateEstimatedGas env collector poolAddress ''collectMarketFee''
            [] = Inr gasCollect"
  shows "collectMarketFee env collector poolAddress True s
       = (Inr (Estimate gasCollect),
          s @ [Estimated poolAddress ''collectMarketFee''
                 [] collector])"
  using assms
  by (auto simp add: collectMarketFee_def getMarketFeeCollector_def io_defs)

lemma ret_updatePublishMarketFee:
  assumes "call_address env poolAddress ''_publishMarketCollector'' [] = Inr collector"
      and "web3_toWei env newFee = Inr newFeeWei"
      and "utils_calculateEstimatedGas env collector poolAddress ''updatePublishMarketFee''
            [addrArg newAddress, AInt newFeeWei] = Inr gasUpdate"
  shows "updatePublishMarketFee env collector poolAddress newAddress newFee True s
       = (Inr (Estimate gasUpdate),
          s @ [Estimated poolAddress ''updatePublishMarketFee''
                 [addrArg newAddress, AInt newFeeWei] collector])"
  using assms
  by (auto simp add: updatePublishMarketFee_def getMarketFeeCollector_def io_defs)

lemma ret_swapExactAmountIn:
  assumes "getMaxSwapExactIn env poolAddress (mkt_tokenIn market) s = (Inr maxSwapIn, sIn)"
      and "\<not> in_tokenAmountIn amounts > maxSwapIn"
      and "utils_amountToUnits env (mkt_tokenIn market) (in_tokenAmountIn amounts)
            (mkt_tokenInDecimals market) = Inr tokenAmountIn"
      and "utils_amountToUnits env (mkt_tokenOut market) (in_minAmountOut amounts)
            (mkt_tokenOutDecimals market) = Inr minAmountOut"
      and "(in_maxPrice amounts = None \<and> maxPrice = utils_MAX_UINT_256 env
        \<or> in_maxPrice amounts = Some price
            \<and> call_address env poolAddress ''getBaseTokenAddress'' [] = Inr baseToken
            \<and> utils_amountToUnits env baseToken price None = Inr maxPrice)"
      and "web3_toWei env (in_swapMarketFee amounts) = Inr feeWei"
      and "utils_calculateEstimatedGas env account poolAddress ''swapExactAmountIn''
            [AList [addrArg (mkt_tokenIn market), addrArg (mkt_tokenOut market),
                   addrArg (mkt_marketFeeAddress market)],
            AList [AInt tokenAmountIn, AInt minAmountOut, AInt maxPrice, AInt feeWei]] = Inr gasIn"
  shows "swapExactAmountIn env account poolAddress market amounts True s
       = (Inr (Estimate gasIn),
          sIn @ [Estimated poolAddress ''swapExactAmountIn''
                 [AList [addrArg (mkt_tokenIn market), addrArg (mkt_tokenOut market),
                 addrArg (mkt_marketFeeAddress market)],
          AList [AInt tokenAmountIn, AInt minAmountOut, AInt maxPrice, AInt feeWei]] account])"
  using assms
  by (auto simp add: swapExactAmountIn_def getBasetoken_def io_defs)

lemma ret_swapExactAmountOut:
  assumes "getMaxSwapExactOut env poolAddress (mkt_tokenOut market) s = (Inr maxSwapOut, sOut)"
      and "\<not> out_tokenAmountOut amountsOut > maxSwapOut"
      and "utils_amountToUnits env (mkt_tokenIn market) (out_maxAmountIn amountsOut)
            (mkt_tokenInDecimals market) = Inr maxAmountIn"
      and "utils_amountToUnits env (mkt_tokenOut market) (out_tokenAmountOut amountsOut)
            (mkt_tokenOutDecimals market) = Inr tokenAmountOut"
      and "(out_maxPrice amountsOut = None \<and> maxPriceArg = AInt (utils_MAX_UINT_256 env)
        \<or> out_maxPrice amountsOut = Some priceOut
            \<and> call_address env poolAddress ''getBaseTokenAddress'' [] = Inr baseTokenOut
            \<and> maxPriceArg = APromise (utils_amountToUnits env baseTokenOut priceOut None))"
      and "web3_toWei env (out_swapMarketFee amountsOut) = Inr feeWeiOut"
      and "utils_calculateEstimatedGas env account poolAddress ''swapExactAmountOut''
            [AList [addrArg (mkt_tokenIn market), addrArg (mkt_tokenOut market),
                   addrArg (mkt_marketFeeAddress market)],
            AList [AInt maxAmountIn, AInt tokenAmountOut, maxPriceArg, AInt feeWeiOut]] = Inr gasOut"
  shows "swapExactAmountOut env account poolAddress market amountsOut True s
       = (Inr (Estimate gasOut),
          sOut @ [Estimated poolAddress ''swapExactAmountOut''
                 [AList [addrArg (mkt_tokenIn market), addrArg (mkt_tokenOut market),
                 addrArg (mkt_marketFeeAddress market)],
          AList [AInt maxAmountIn, AInt tokenAmountOut, maxPriceArg, AInt feeWeiOut]] account])"
  using assms
  by (auto simp add: swapExactAmountOut_def getBasetoken_def io_defs)

lemma ret_joinswapExternAmountIn:
  assumes "call_address env poolAddress ''getBaseTokenAddress'' [] = Inr joinToken"
      and "getMaxAddLiquidity env poolAddress joinToken s = (Inr maxJoin, sJoin)"
      and "\<not> amountIn > maxJoin"
      and "utils_amountToUnits env joinToken amountIn decimals = Inr amountInFormatted"
      and "web3_toWei env minPoolOut = Inr minPoolOutWei"
      and "utils_calculateEstimatedGas env account poolAddress ''joinswapExternAmountIn''
            [AInt amountInFormatted, AInt minPoolOutWei] = Inr gasJoin"
  shows "joinswapExternAmountIn env account poolAddress amountIn minPoolOut decimals True s
       = (Inr (Estimate gasJoin),
          sJoin @ [Estimated poolAddress ''joinswapExternAmountIn''
                 [AInt amountInFormatted, AInt minPoolOutWei] account])"
  using assms
  by (auto simp add: joinswapExternAmountIn_def getBasetoken_def io_defs)

lemma ret_exitSwapPoolAmountIn:
  assumes "call_address env poolAddress ''getBaseTokenAddress'' [] = Inr exitToken"
      and "calcSingleOutGivenPoolIn env poolAddress exitToken sharesIn None None s
            = (Inr (Some exitAmount), sCalc)"
      and "getMaxRemoveLiquidity env poolAddress exitToken sCalc = (Inr maxExit, sExit)"
      and "\<not> exitAmount > maxExit"
      and "utils_amountToUnits env exitToken minTokenOut poolDecimals = Inr minTokenOutFormatted"
      and "web3_toWei env sharesIn = Inr sharesWei"
      and "utils_calculateEstimatedGas env account poolAddress ''exitswapPoolAmountIn''
            [AInt sharesWei, AInt minTokenOutFormatted] = Inr gasExit"
  shows "exitSwapPoolAmountIn env account poolAddress sharesIn minTokenOut poolDecimals True s
       = (Inr (Estimate gasExit),
          sExit @ [Estimated poolAddress ''exitswapPoolAmountIn''
                 [AInt sharesWei, AInt minTokenOutFormatted] account])"
  using assms
  by (auto simp add: exitSwapPoolAmountIn_def getBasetoken_def io_defs)

lemma ret_getVesting:
  assumes "utils_calculateEstimatedGas env account ssAddress ''getVesting''
            [addrArg datatoken] = Inr gasVesting"
  shows "getVesting env account ssAddress datatoken True s
       = (Inr (Estimate gasVesting),
          s @ [Estimated ssAddress ''getVesting''
                 [addrArg datatoken] account])"
  using assms
  by (auto simp add: getVesting_def io_defs)

lemma ret_setPoolSwapFee:
  assumes "utils_calculateEstimatedGas env account ssAddress ''setPoolSwapFee''
            [addrArg datatoken, addrArg poolAddress, AInt swapFee] = Inr gasPool"
  shows "setPoolSwapFee env account ssAddress datatoken poolAddress swapFee True s
       = (Inr (Estimate gasPool),
          s @ [Estimated ssAddress ''setPoolSwapFee''
                 [addrArg datatoken, addrArg poolAddress, AInt swapFee] account])"
  using assms
  by (auto simp add: setPoolSwapFee_def io_defs)

text \<open>
  C4: with \<open>estimateGas = true\<close> every mutating method of the pool and of the
  side-staking contract stops after the estimation. In every case nothing is submitted
  (so there is no on-chain effect, no event and no receipt), and a call that returns
  returns the gas estimate computed by its last effect. And each method does return the
  estimate: when its own checks pass (the caller is the fee collector; the bound is
  derived and not exceeded; the amounts convert) and the estimation gives \<open>gas\<close>, the
  method returns \<open>gas\<close> with the estimation as its last effect. \<open>setSwapFee\<close>,
  \<open>collectOPC\<close>, \<open>getVesting\<close> and \<open>setPoolSwapFee\<close> check nothing first.
\<close>

theorem estimate_only_returns_estimate_and_sends_nothing:
  "estimateOnly env s (setSwapFee env account poolAddress fee True s)
   \<and> estimateOnly env s (collectOPC env account poolAddress True s)
   \<and> estimateOnly env s (collectMarketFee env account poolAddress True s)
   \<and> estimateOnly env s
        (updatePublishMarketFee env account poolAddress newAddress newFee True s)
   \<and> estimateOnly env s (swapExactAmountIn env account poolAddress market amounts True s)
   \<and> estimateOnly env s (swapExactAmountOut env account poolAddress market amountsOut True s)
   \<and> estimateOnly env s
        (joinswapExternAmountIn env account poolAddress amountIn minPoolOut decimals True s)
   \<and> estimateOnly env s
        (exitSwapPoolAmountIn env account poolAddress sharesIn minTokenOut poolDecimals True s)
   \<and> estimateOnly env s (getVesting env account ssAddress datatoken True s)
   \<and> estimateOnly env s
        (setPoolSwapFee env account ssAddress datatoken poolAddress swapFee True s)
   \<and> (utils_calculateEstimatedGas env account poolAddress ''setSwapFee''
          [ADec fee] = Inr gasSet
      \<longrightarrow> setSwapFee env account poolAddress fee True s
          = (Inr (Estimate gasSet),
             s @ [Estimated poolAddress ''setSwapFee''
                    [ADec fee] account]))
   \<and> (utils_calculateEstimatedGas env account poolAddress ''collectOPC''
          [] = Inr gasOPC
      \<longrightarrow> collectOPC env account poolAddress True s
          = (Inr (Estimate gasOPC),
             s @ [Estimated poolAddress ''collectOPC''
                    [] account]))
   \<and> (call_address env poolAddress ''_publishMarketCollector'' [] = Inr collector
      \<and> utils_calculateEstimatedGas env collector poolAddress ''collectMarketFee''
          [] = Inr gasCollect
      \<longrightarrow> collectMarketFee env collector poolAddress True s
          = (Inr (Estimate gasCollect),
             s @ [Estimated poolAddress ''collectMarketFee''
                    [] collector]))
   \<and> (call_address env poolAddress ''_publishMarketCollector'' [] = Inr collector
      \<and> web3_toWei env newFee = Inr newFeeWei
      \<and> utils_calculateEstimatedGas env collector poolAddress ''updatePublishMarketFee''
          [addrArg newAddress, AInt newFeeWei] = Inr gasUpdate
      \<longrightarrow> updatePublishMarketFee env collector poolAddress newAddress newFee True s
          = (Inr (Estimate gasUpdate),
             s @ [Estimated poolAddress ''updatePublishMarketFee''
                    [addrArg newAddress, AInt newFeeWei] collector]))
   \<and> (getMaxSwapExactIn env poolAddress (mkt_tokenIn market) s = (Inr maxSwapIn, sIn)
      \<and> \<not> in_tokenAmountIn amounts > maxSwapIn
      \<and> utils_amountToUnits env (mkt_tokenIn market) (in_tokenAmountIn amounts)
          (mkt_tokenInDecimals market) = Inr tokenAmountIn
      \<and> utils_amountToUnits env (mkt_tokenOut market) (in_minAmountOut amounts)
          (mkt_tokenOutDecimals market) = Inr minAmountOut
      \<and> (in_maxPrice amounts = None \<and> maxPrice = utils_MAX_UINT_256 env
        \<or> in_maxPrice amounts = Some price
          \<and> call_address env poolAddress ''getBaseTokenAddress'' [] = Inr baseToken
          \<and> utils_amountToUnits env baseToken price None = Inr maxPrice)
      \<and> web3_toWei env (in_swapMarketFee amounts) = Inr feeWei
      \<and> utils_calculateEstimatedGas env account poolAddress ''swapExactAmountIn''
          [AList [addrArg (mkt_tokenIn market), addrArg (mkt_tokenOut market),
                 addrArg (mkt_marketFeeAddress market)],
          AList [AInt tokenAmountIn, AInt minAmountOut, AInt maxPrice, AInt feeWei]] = Inr gasIn
      \<longrightarrow> swapExactAmountIn env account poolAddress market amounts True s
          = (Inr (Estimate gasIn),
             sIn @ [Estimated poolAddress ''swapExactAmountIn''
                    [AList [addrArg (mkt_tokenIn market), addrArg (mkt_tokenOut market),
                    addrArg (mkt_marketFeeAddress market)],
             AList [AInt tokenAmountIn, AInt minAmountOut, AInt maxPrice, AInt feeWei]] account]))
   \<and> (getMaxSwapExactOut env poolAddress (mkt_tokenOut market) s = (Inr maxSwapOut, sOut)
      \<and> \<not> out_tokenAmountOut amountsOut > maxSwapOut
      \<and> utils_amountToUnits env (mkt_tokenIn market) (out_maxAmountIn amountsOut)
          (mkt_tokenInDecimals market) = Inr maxAmountIn
      \<and> utils_amountToUnits env (mkt_tokenOut market) (out_tokenAmountOut amountsOut)
          (mkt_tokenOutDecimals market) = Inr tokenAmountOut
      \<and> (out_maxPrice amountsOut = None \<and> maxPriceArg = AInt (utils_MAX_UINT_256 env)
        \<or> out_maxPrice amountsOut = Some priceOut
          \<and> call_address env poolAddress ''getBaseTokenAddress'' [] = Inr baseTokenOut
          \<and> maxPriceArg = APromise (utils_amountToUnits env baseTokenOut priceOut None))
      \<and> web3_toWei env (out_swapMarketFee amountsOut) = Inr feeWeiOut
      \<and> utils_calculateEstimatedGas env account poolAddress ''swapExactAmountOut''
          [AList [addrArg (mkt_tokenIn market), addrArg (mkt_tokenOut market),
                 addrArg (mkt_marketFeeAddress market)],
          AList [AInt maxAmountIn, AInt tokenAmountOut, maxPriceArg, AInt feeWeiOut]] = Inr gasOut
      \<longrightarrow> swapExactAmountOut env account poolAddress market amountsOut True s
          = (Inr (Estimate gasOut),
             sOut @ [Estimated poolAddress ''swapExactAmountOut''
                    [AList [addrArg (mkt_tokenIn market), addrArg (mkt_tokenOut market),
                    addrArg (mkt_marketFeeAddress market)],
             AList [AInt maxAmountIn, AInt tokenAmountOut, maxPriceArg, AInt feeWeiOut]] account]))
   \<and> (call_address env poolAddress ''getBaseTokenAddress'' [] = Inr joinToken
      \<and> getMaxAddLiquidity env poolAddress joinToken s = (Inr maxJoin, sJoin)
      \<and> \<not> amountIn > maxJoin
      \<and> utils_amountToUnits env joinToken amountIn decimals = Inr amountInFormatted
      \<and> web3_toWei env minPoolOut = Inr minPoolOutWei
      \<and> utils_calculateEstimatedGas env account poolAddress ''joinswapExternAmountIn''
          [AInt amountInFormatted, AInt minPoolOutWei] = Inr gasJoin
      \<longrightarrow> joinswapExternAmountIn env account poolAddress amountIn minPoolOut decimals True s
          = (Inr (Estimate gasJoin),
             sJoin @ [Estimated poolAddress ''joinswapExternAmountIn''
                    [AInt amountInFormatted, AInt minPoolOutWei] account]))
   \<and> (call_address env poolAddress ''getBaseTokenAddress'' [] = Inr exitToken
      \<and> calcSingleOutGivenPoolIn env poolAddress exitToken sharesIn None None s
          = (Inr (Some exitAmount), sCalc)
      \<and> getMaxRemoveLiquidity env poolAddress exitToken sCalc = (Inr maxExit, sExit)
      \<and> \<not> exitAmount > maxExit
      \<and> utils_amountToUnits env exitToken minTokenOut poolDecimals = Inr minTokenOutFormatted
      \<and> web3_toWei env sharesIn = Inr sharesWei
      \<and> utils_calculateEstimatedGas env account poolAddress ''exitswapPoolAmountIn''
          [AInt sharesWei, AInt minTokenOutFormatted] = Inr gasExit
      \<longrightarrow> exitSwapPoolAmountIn env account poolAddress sharesIn minTokenOut poolDecimals True s
          = (Inr (Estimate gasExit),
             sExit @ [Estimated poolAddress ''exitswapPoolAmountIn''
                    [AInt sharesWei, AInt minTokenOutFormatted] account]))
   \<and> (utils_calculateEstimatedGas env account ssAddress ''getVesting''
          [addrArg datatoken] = Inr gasVesting
      \<longrightarrow> getVesting env account ssAddress datatoken True s
          = (Inr (Estimate gasVesting),
             s @ [Estimated ssAddress ''getVesting''
                    [addrArg datatoken] account]))
   \<and> (utils_calculateEstimatedGas env account ssAddress ''setPoolSwapFee''
          [addrArg datatoken, addrArg poolAddress, AInt swapFee] = Inr gasPool
      \<longrightarrow> setPoolSwapFee env account ssAddress datatoken poolAddress swapFee True s
          = (Inr (Estimate gasPool),
             s @ [Estimated ssAddress ''setPoolSwapFee''
                    [addrArg datatoken, addrArg poolAddress, AInt swapFee] account]))"
  by (intro conjI impI; (elim conjE)?;
      (rule eo_setSwapFee eo_collectOPC eo_collectMarketFee eo_updatePublishMarketFee
         eo_swapExactAmountIn eo_swapExactAmountOut eo_joinswapExternAmountIn
         eo_exitSwapPoolAmountIn eo_getVesting eo_setPoolSwapFee
       | (rule ret_setSwapFee ret_collectOPC ret_collectMarketFee ret_updatePublishMarketFee
            ret_swapExactAmountIn ret_swapExactAmountOut ret_joinswapExternAmountIn
            ret_exitSwapPoolAmountIn ret_getVesting ret_setPoolSwapFee; assumption)))

text \<open>On the reference chain every estimation answers 21000: each of the ten methods,
  called by a caller who passes its checks, returns 21000.\<close>

theorem estimate_only_returns_estimate_and_sends_nothing_witness:
  "utils_calculateEstimatedGas testEnv (Some ''alice'') (Some ''pool'') ''setSwapFee''
          [ADec 1] = Inr 21000
   \<and> setSwapFee testEnv (Some ''alice'') (Some ''pool'') 1 True []
          = (Inr (Estimate 21000),
             [] @ [Estimated (Some ''pool'') ''setSwapFee''
                    [ADec 1] (Some ''alice'')])
   \<and> utils_calculateEstimatedGas testEnv (Some ''alice'') (Some ''pool'') ''collectOPC''
          [] = Inr 21000
   \<and> collectOPC testEnv (Some ''alice'') (Some ''pool'') True []
          = (Inr (Estimate 21000),
             [] @ [Estimated (Some ''pool'') ''collectOPC''
                    [] (Some ''alice'')])
   \<and> call_address testEnv (Some ''pool'') ''_publishMarketCollector'' [] = Inr (Some ''bob'')
      \<and> utils_calculateEstimatedGas testEnv (Some ''bob'') (Some ''pool'') ''collectMarketFee''
          [] = Inr 21000
   \<and> collectMarketFee testEnv (Some ''bob'') (Some ''pool'') True []
          = (Inr (Estimate 21000),
             [] @ [Estimated (Some ''pool'') ''collectMarketFee''
                    [] (Some ''bob'')])
   \<and> call_address testEnv (Some ''pool'') ''_publishMarketCollector'' [] = Inr (Some ''bob'')
      \<and> web3_toWei testEnv (1 / 100) = Inr 10000000000000000
      \<and> utils_calculateEstimatedGas testEnv (Some ''bob'') (Some ''pool'') ''updatePublishMarketFee''
          [addrArg (Some ''carol''), AInt 10000000000000000] = Inr 21000
   \<and> updatePublishMarketFee testEnv (Some ''bob'') (Some ''pool'') (Some ''carol'') (1 / 100) True []
          = (Inr (Estimate 21000),
             [] @ [Estimated (Some ''pool'') ''updatePublishMarketFee''
                    [addrArg (Some ''carol''), AInt 10000000000000000] (Some ''bob'')])
   \<and> getMaxSwapExactIn testEnv (Some ''pool'') (mkt_tokenIn swapMarket) [] = (Inr 500, [])
      \<and> \<not> in_tokenAmountIn smallSwap > 500
      \<and> utils_amountToUnits testEnv (mkt_tokenIn swapMarket) (in_tokenAmountIn smallSwap)
          (mkt_tokenInDecimals swapMarket) = Inr 2000000
      \<and> utils_amountToUnits testEnv (mkt_tokenOut swapMarket) (in_minAmountOut smallSwap)
          (mkt_tokenOutDecimals swapMarket) = Inr 500000000000000000
      \<and> (in_maxPrice smallSwap = None \<and> (2 ^ 256 - 1) = utils_MAX_UINT_256 testEnv
        \<or> in_maxPrice smallSwap = Some 0
          \<and> call_address testEnv (Some ''pool'') ''getBaseTokenAddress'' [] = Inr None
          \<and> utils_amountToUnits testEnv None 0 None = Inr (2 ^ 256 - 1))
      \<and> web3_toWei testEnv (in_swapMarketFee smallSwap) = Inr 1000000000000000
      \<and> utils_calculateEstimatedGas testEnv (Some ''alice'') (Some ''pool'') ''swapExactAmountIn''
          [AList [addrArg (mkt_tokenIn swapMarket), addrArg (mkt_tokenOut swapMarket),
                 addrArg (mkt_marketFeeAddress swapMarket)],
          AList [AInt 2000000, AInt 500000000000000000, AInt (2 ^ 256 - 1), AInt 1000000000000000]] = Inr 21000
   \<and> swapExactAmountIn testEnv (Some ''alice'') (Some ''pool'') swapMarket smallSwap True []
          = (Inr (Estimate 21000),
             [] @ [Estimated (Some ''pool'') ''swapExactAmountIn''
                    [AList [addrArg (mkt_tokenIn swapMarket), addrArg (mkt_tokenOut swapMarket),
                    addrArg (mkt_marketFeeAddress swapMarket)],
             AList [AInt 2000000, AInt 500000000000000000, AInt (2 ^ 256 - 1), AInt 1000000000000000]] (Some ''alice'')])
   \<and> getMaxSwapExactOut testEnv (Some ''pool'') (mkt_tokenOut swapMarket) [] = (Inr 250, [])
      \<and> \<not> out_tokenAmountOut smallSwapOut > 250
      \<and> utils_amountToUnits testEnv (mkt_tokenIn swapMarket) (out_maxAmountIn smallSwapOut)
          (mkt_tokenInDecimals swapMarket) = Inr 3000000
      \<and> utils_amountToUnits testEnv (mkt_tokenOut swapMarket) (out_tokenAmountOut smallSwapOut)
          (mkt_tokenOutDecimals swapMarket) = Inr 1000000000000000000
      \<and> (out_maxPrice smallSwapOut = None \<and> (AInt (2 ^ 256 - 1)) = AInt (utils_MAX_UINT_256 testEnv)
        \<or> out_maxPrice smallSwapOut = Some 0
          \<and> call_address testEnv (Some ''pool'') ''getBaseTokenAddress'' [] = Inr None
          \<and> (AInt (2 ^ 256 - 1)) = APromise (utils_amountToUnits testEnv None 0 None))
      \<and> web3_toWei testEnv (out_swapMarketFee smallSwapOut) = Inr 1000000000000000
      \<and> utils_calculateEstimatedGas testEnv (Some ''alice'') (Some ''pool'') ''swapExactAmountOut''
          [AList [addrArg (mkt_tokenIn swapMarket), addrArg (mkt_tokenOut swapMarket),
                 addrArg (mkt_marketFeeAddress swapMarket)],
          AList [AInt 3000000, AInt 1000000000000000000, (AInt (2 ^ 256 - 1)), AInt 1000000000000000]] = Inr 21000
   \<and> swapExactAmountOut testEnv (Some ''alice'') (Some ''pool'') swapMarket smallSwapOut True []
          = (Inr (Estimate 21000),
             [] @ [Estimated (Some ''pool'') ''swapExactAmountOut''
                    [AList [addrArg (mkt_tokenIn swapMarket), addrArg (mkt_tokenOut swapMarket),
                    addrArg (mkt_marketFeeAddress swapMarket)],
             AList [AInt 3000000, AInt 1000000000000000000, (AInt (2 ^ 256 - 1)), AInt 1000000000000000]] (Some ''alice'')])
   \<and> call_address testEnv (Some ''pool'') ''getBaseTokenAddress'' [] = Inr (Some ''usdc'')
      \<and> getMaxAddLiquidity testEnv (Some ''pool'') (Some ''usdc'') [] = (Inr 500, [])
      \<and> \<not> (2::amount) > 500
      \<and> utils_amountToUnits testEnv (Some ''usdc'') 2 None = Inr 2000000
      \<and> web3_toWei testEnv 1 = Inr 1000000000000000000
      \<and> utils_calculateEstimatedGas testEnv (Some ''alice'') (Some ''pool'') ''joinswapExternAmountIn''
          [AInt 2000000, AInt 1000000000000000000] = Inr 21000
   \<and> joinswapExternAmountIn testEnv (Some ''alice'') (Some ''pool'') 2 1 None True []
          = (Inr (Estimate 21000),
             [] @ [Estimated (Some ''pool'') ''joinswapExternAmountIn''
                    [AInt 2000000, AInt 1000000000000000000] (Some ''alice'')])
   \<and> call_address testEnv (Some ''pool'') ''getBaseTokenAddress'' [] = Inr (Some ''usdc'')
      \<and> calcSingleOutGivenPoolIn testEnv (Some ''pool'') (Some ''usdc'') 1 None None []
          = (Inr (Some 3), [])
      \<and> getMaxRemoveLiquidity testEnv (Some ''pool'') (Some ''usdc'') [] = (Inr 500, [])
      \<and> \<not> (3::amount) > 500
      \<and> utils_amountToUnits testEnv (Some ''usdc'') 1 None = Inr 1000000
      \<and> web3_toWei testEnv 1 = Inr 1000000000000000000
      \<and> utils_calculateEstimatedGas testEnv (Some ''alice'') (Some ''pool'') ''exitswapPoolAmountIn''
          [AInt 1000000000000000000, AInt 1000000] = Inr 21000
   \<and> exitSwapPoolAmountIn testEnv (Some ''alice'') (Some ''pool'') 1 1 None True []
          = (Inr (Estimate 21000),
             [] @ [Estimated (Some ''pool'') ''exitswapPoolAmountIn''
                    [AInt 1000000000000000000, AInt 1000000] (Some ''alice'')])
   \<and> utils_calculateEstimatedGas testEnv (Some ''alice'') (Some ''ss'') ''getVesting''
          [addrArg (Some ''dt'')] = Inr 21000
   \<and> getVesting testEnv (Some ''alice'') (Some ''ss'') (Some ''dt'') True []
          = (Inr (Estimate 21000),
             [] @ [Estimated (Some ''ss'') ''getVesting''
                    [addrArg (Some ''dt'')] (Some ''alice'')])
   \<and> utils_calculateEstimatedGas testEnv (Some ''alice'') (Some ''ss'') ''setPoolSwapFee''
          [addrArg (Some ''dt''), addrArg (Some ''pool''), AInt 1000000000000000] = Inr 21000
   \<and> setPoolSwapFee testEnv (Some ''alice'') (Some ''ss'') (Some ''dt'') (Some ''pool'') 1000000000000000 True []
          = (Inr (Estimate 21000),
             [] @ [Estimated (Some ''ss'') ''setPoolSwapFee''
                    [addrArg (Some ''dt''), addrArg (Some ''pool''), AInt 1000000000000000] (Some ''alice'')])"
  using estimate_only_returns_estimate_and_sends_nothing
      [where env = "testEnv" and
        s = "[]" and
        account = "Some ''alice''" and
        poolAddress = "Some ''pool''" and
        fee = "1" and
        collector = "Some ''bob''" and
        newAddress = "Some ''carol''" and
        newFee = "1 / 100" and
        newFeeWei = "10000000000000000" and
        market = "swapMarket" and
        amounts = "smallSwap" and
        maxSwapIn = "500" and
        sIn = "[]" and
        tokenAmountIn = "2000000" and
        minAmountOut = "500000000000000000" and
        maxPrice = "2 ^ 256 - 1" and
        price = "0" and
        baseToken = "None" and
        feeWei = "1000000000000000" and
        amountsOut = "smallSwapOut" and
        maxSwapOut = "250" and
        sOut = "[]" and
        maxAmountIn = "3000000" and
        tokenAmountOut = "1000000000000000000" and
        maxPriceArg = "AInt (2 ^ 256 - 1)" and
        priceOut = "0" and
        baseTokenOut = "None" and
        feeWeiOut = "1000000000000000" and
        joinToken = "Some ''usdc''" and
        maxJoin = "500" and
        sJoin = "[]" and
        amountIn = "2" and
        decimals = "None" and
        amountInFormatted = "2000000" and
        minPoolOut = "1" and
        minPoolOutWei = "1000000000000000000" and
        exitToken = "Some ''usdc''" and
        sharesIn = "1" and
        exitAmount = "3" and
        sCalc = "[]" and
        maxExit = "500" and
        sExit = "[]" and
        minTokenOut = "1" and
        poolDecimals = "None" and
        minTokenOutFormatted = "1000000" and
        sharesWei = "1000000000000000000" and
        ssAddress = "Some ''ss''" and
        datatoken = "Some ''dt''" and
        swapFee = "1000000000000000" and
        gasSet = "21000" and
        gasOPC = "21000" and
        gasCollect = "21000" and
        gasUpdate = "21000" and
        gasIn = "21000" and
        gasOut = "21000" and
        gasJoin = "21000" and
        gasExit = "21000" and
        gasVesting = "21000" and
        gasPool = "21000"]
  by (simp add: setSwapFee_def collectOPC_def collectMarketFee_def updatePublishMarketFee_def
      swapExactAmountIn_def swapExactAmountOut_def joinswapExternAmountIn_def
      exitSwapPoolAmountIn_def calcSingleOutGivenPoolIn_def getVesting_def setPoolSwapFee_def
      getMarketFeeCollector_def getBasetoken_def getMaxSwapExactIn_def getMaxSwapExactOut_def
      getMaxAddLiquidity_def getMaxRemoveLiquidity_def getReserve_def io_defs env_defs
      estimateOnly_def)

section \<open>Rejected submissions\<close>

lemma sr_setSwapFee:
  "swallowsRejection env ''ERROR: Failed to set pool swap fee: '' s
     (setSwapFee env account poolAddress fee False s)"
  by (auto simp add: swallowsRejection_def setSwapFee_def io_defs split: sum.splits)

lemma sr_collectOPC:
  "swallowsRejection env ''ERROR: Failed to swap exact amount in : '' s
     (collectOPC env account poolAddress False s)"
  by (auto simp add: swallowsRejection_def collectOPC_def io_defs split: sum.splits)

lemma sr_collectMarketFee:
  "swallowsRejection env ''ERROR: Failed to swap exact amount in : '' s
     (collectMarketFee env account poolAddress False s)"
  by (auto simp add: swallowsRejection_def collectMarketFee_def getMarketFeeCollector_def
      io_defs split: sum.splits)

lemma sr_updatePublishMarketFee:
  "swallowsRejection env ''ERROR: Failed to updatePublishMarketFee : '' s
     (updatePublishMarketFee env account poolAddress newAddress newFee False s)"
  by (auto simp add: swallowsRejection_def updatePublishMarketFee_def
      getMarketFeeCollector_def io_defs split: sum.splits)

lemma sr_swapExactAmountIn:
  "swallowsRejection env ''ERROR: Failed to swap exact amount in : '' s
     (swapExactAmountIn env account poolAddress market amounts False s)"
  by (auto simp add: swallowsRejection_def swapExactAmountIn_def getMaxSwapExactIn_def
      getReserve_def getBasetoken_def io_defs split: sum.splits option.splits)

lemma sr_swapExactAmountOut:
  "swallowsRejection env ''ERROR: Failed to swap exact amount out: '' s
     (swapExactAmountOut env account poolAddress market amountsOut False s)"
  by (auto simp add: swallowsRejection_def swapExactAmountOut_def getMaxSwapExactOut_def
      getReserve_def getBasetoken_def io_defs split: sum.splits option.splits)

lemma sr_joinswapExternAmountIn:
  "swallowsRejection env ''ERROR: Failed to pay tokens in order to       join the pool: '' s
     (joinswapExternAmountIn env account poolAddress amountIn minOut decimals False s)"
  by (auto simp add: swallowsRejection_def joinswapExternAmountIn_def getMaxAddLiquidity_def
      getReserve_def getBasetoken_def io_defs split: sum.splits option.splits)

lemma sr_exitSwapPoolAmountIn:
  "swallowsRejection env ''ERROR: Failed to pay pool shares into the pool: '' s
     (exitSwapPoolAmountIn env account poolAddress sharesIn minOut decimals False s)"
  by (auto simp add: swallowsRejection_def exitSwapPoolAmountIn_def
      calcSingleOutGivenPoolIn_def getMaxRemoveLiquidity_def getReserve_def getBasetoken_def
      io_defs split: sum.splits option.splits)

text \<open>
  C6 as stated fails: when the network rejects the submission of \<open>swapExactAmountIn\<close>,
  the method does not throw. It logs the error and returns \<open>null\<close>.
\<close>

theorem rejected_submission_returns_null_counterexample:
  "swapExactAmountIn rejectingEnv (Some ''alice'') (Some ''pool'') swapMarket smallSwap False []
     = (Inr (Receipt None),
        [Estimated (Some ''pool'') ''swapExactAmountIn''
           [AList [AAddr ''usdc'', AAddr ''dt'', AAddr ''bob''],
            AList [AInt 2000000, AInt 500000000000000000, AInt (2 ^ 256 - 1),
                   AInt 1000000000000000]]
           (Some ''alice''),
         PriceQueried 101,
         Sent (Some ''pool'') ''swapExactAmountIn''
           [AList [AAddr ''usdc'', AAddr ''dt'', AAddr ''bob''],
            AList [AInt 2000000, AInt 500000000000000000, AInt (2 ^ 256 - 1),
                   AInt 1000000000000000]]
           (Some ''alice'') 21001 101,
         Logged ''ERROR: Failed to swap exact amount in : '' (Rejected ''execution reverted'')])"
  by (simp add: swapExactAmountIn_def getMaxSwapExactIn_def getReserve_def io_defs env_defs)

text \<open>
  C6, amended: every mutating method of the pool sends at most one transaction (it never
  retries); when the network rejects that submission, the method catches the error,
  writes it with its cause to the error log and returns \<open>null\<close> in place of the receipt;
  when the network confirms it, the method returns the receipt.
\<close>

theorem rejected_submission_is_logged_and_null_is_returned:
  "swallowsRejection env ''ERROR: Failed to set pool swap fee: '' s
     (setSwapFee env account poolAddress fee False s)
   \<and> swallowsRejection env ''ERROR: Failed to swap exact amount in : '' s
     (collectOPC env account poolAddress False s)
   \<and> swallowsRejection env ''ERROR: Failed to swap exact amount in : '' s
     (collectMarketFee env account poolAddress False s)
   \<and> swallowsRejection env ''ERROR: Failed to updatePublishMarketFee : '' s
     (updatePublishMarketFee env account poolAddress newAddress newFee False s)
   \<and> swallowsRejection env ''ERROR: Failed to swap exact amount in : '' s
     (swapExactAmountIn env account poolAddress market amounts False s)
   \<and> swallowsRejection env ''ERROR: Failed to swap exact amount out: '' s
     (swapExactAmountOut env account poolAddress market amountsOut False s)
   \<and> swallowsRejection env ''ERROR: Failed to pay tokens in order to       join the pool: '' s
     (joinswapExternAmountIn env account poolAddress amountIn minOut decimals False s)
   \<and> swallowsRejection env ''ERROR: Failed to pay pool shares into the pool: '' s
     (exitSwapPoolAmountIn env account poolAddress sharesIn minOut decimals False s)"
  by (intro conjI sr_setSwapFee sr_collectOPC sr_collectMarketFee sr_updatePublishMarketFee
      sr_swapExactAmountIn sr_swapExactAmountOut sr_joinswapExternAmountIn
      sr_exitSwapPoolAmountIn)

text \<open>On the rejecting chain \<open>setSwapFee\<close> sends once, is rejected, and returns \<open>null\<close>.\<close>

theorem rejected_submission_is_logged_and_null_is_returned_witness:
  "newSubmissions []
     (snd (setSwapFee rejectingEnv (Some ''alice'') (Some ''pool'') 1 False []))
     = [Sent (Some ''pool'') ''setSwapFee'' [AInt 1000000000000000000] (Some ''alice'') 21000 101]
   \<and> web3_send rejectingEnv (Some ''pool'') ''setSwapFee'' [AInt 1000000000000000000]
        (Some ''alice'') 21000 101 = Inl (Rejected ''execution reverted'')
   \<and> swallowsRejection rejectingEnv ''ERROR: Failed to set pool swap fee: '' []
        (setSwapFee rejectingEnv (Some ''alice'') (Some ''pool'') 1 False [])
   \<and> fst (setSwapFee rejectingEnv (Some ''alice'') (Some ''pool'') 1 False [])
       = Inr (Receipt None)
   \<and> swallowsRejection rejectingEnv ''ERROR: Failed to swap exact amount in : '' []
        (swapExactAmountIn rejectingEnv (Some ''alice'') (Some ''pool'') swapMarket smallSwap
           False [])"
proof -
  have a: "newSubmissions []
     (snd (setSwapFee rejectingEnv (Some ''alice'') (Some ''pool'') 1 False []))
     = [Sent (Some ''pool'') ''setSwapFee'' [AInt 1000000000000000000] (Some ''alice'') 21000 101]"
    by (simp add: setSwapFee_def io_defs env_defs newSubmissions_def)
  have b: "web3_send rejectingEnv (Some ''pool'') ''setSwapFee'' [AInt 1000000000000000000]
        (Some ''alice'') 21000 101 = Inl (Rejected ''execution reverted'')"
    by (simp add: env_defs)
  have c: "fst (setSwapFee rejectingEnv (Some ''alice'') (Some ''pool'') 1 False [])
       = Inr (Receipt None)"
    by (simp add: setSwapFee_def io_defs env_defs)
  show ?thesis
    using a b c
      rejected_submission_is_logged_and_null_is_returned [of rejectingEnv "[]" "Some ''alice''"
        "Some ''pool''" 1 _ _ swapMarket smallSwap]
    by simp
qed

section \<open>Estimation failure in the factory\<close>

lemma fb_createNFT:
  "isl (web3_estimateGas env factory ''deployERC721Contract''
          (nftArgs (completeNftData env nftData)) account)
   \<Longrightarrow> submitsWithDefault factory ''deployERC721Contract''
         (nftArgs (completeNftData env nftData)) account s
         (createNFT env factory account nftData s)"
  by (auto simp add: submitsWithDefault_def createNFT_def estGasCreateNFT_def factory_reads
      io_defs Let_def split: sum.splits option.splits list.splits)

lemma fb_addNFTTemplate:
  "isl (web3_estimateGas env factory ''add721TokenTemplate'' [addrArg template] account)
   \<Longrightarrow> submitsWithDefault factory ''add721TokenTemplate'' [addrArg template] account s
         (addNFTTemplate env factory account template s)"
  by (auto simp add: submitsWithDefault_def addNFTTemplate_def estGasAddNFTTemplate_def
      factory_reads io_defs split: sum.splits list.splits)

lemma fb_disableNFTTemplate:
  "isl (web3_estimateGas env factory ''disable721TokenTemplate'' [AInt (int i)] account)
   \<Longrightarrow> submitsWithDefault factory ''disable721TokenTemplate'' [AInt (int i)] account s
         (disableNFTTemplate env factory account i s)"
  by (auto simp add: submitsWithDefault_def disableNFTTemplate_def
      estGasDisableNFTTemplate_def factory_reads io_defs split: sum.splits list.splits)

lemma fb_reactivateNFTTemplate:
  "isl (web3_estimateGas env factory ''reactivate721TokenTemplate'' [AInt (int i)] account)
   \<Longrightarrow> submitsWithDefault factory ''reactivate721TokenTemplate'' [AInt (int i)] account s
         (reactivateNFTTemplate env factory account i s)"
  by (auto simp add: submitsWithDefault_def reactivateNFTTemplate_def
      estGasReactivateNFTTemplate_def factory_reads io_defs split: sum.splits list.splits)

lemma fb_addTokenTemplate:
  "isl (web3_estimateGas env factory ''addTokenTemplate'' [addrArg template] account)
   \<Longrightarrow> submitsWithDefault factory ''addTokenTemplate'' [addrArg template] account s
         (addTokenTemplate env factory account template s)"
  by (auto simp add: submitsWithDefault_def addTokenTemplate_def estGasAddTokenTemplate_def
      factory_reads io_defs split: sum.splits list.splits)

lemma fb_disableTokenTemplate:
  "isl (web3_estimateGas env factory ''disableTokenTemplate'' [AInt (int i)] account)
   \<Longrightarrow> submitsWithDefault factory ''disableTokenTemplate'' [AInt (int i)] account s
         (disableTokenTemplate env factory account i s)"
  by (auto simp add: submitsWithDefault_def disableTokenTemplate_def
      estGasDisableTokenTemplate_def factory_reads io_defs split: sum.splits list.splits)

lemma fb_reactivateTokenTemplate:
  "isl (web3_estimateGas env factory ''reactivateTokenTemplate'' [AInt (int i)] account)
   \<Longrightarrow> submitsWithDefault factory ''reactivateTokenTemplate'' [AInt (int i)] account s
         (reactivateTokenTemplate env factory account i s)"
  by (auto simp add: submitsWithDefault_def reactivateTokenTemplate_def
      estGasReactivateTokenTemplate_def factory_reads io_defs split: sum.splits list.splits)

lemma fb_startMultipleTokenOrder:
  "isl (web3_estimateGas env factory ''startMultipleTokenOrder'' [AList orders] account)
   \<Longrightarrow> submitsWithDefault factory ''startMultipleTokenOrder'' [AList orders] account s
         (startMultipleTokenOrder env factory account orders s)"
  by (auto simp add: submitsWithDefault_def startMultipleTokenOrder_def
      estGasStartMultipleTokenOrder_def io_defs split: sum.splits list.splits)

lemma fb_createNftWithErc20:
  "utils_getErcCreationParams env ercParams = Inr ercData \<Longrightarrow>
   isl (web3_estimateGas env factory ''createNftWithErc20'' [nftStruct nftData, ercData] account)
   \<Longrightarrow> submitsWithDefault factory ''createNftWithErc20'' [nftStruct nftData, ercData] account s
         (createNftWithErc20 env factory account nftData ercParams s)"
  by (auto simp add: submitsWithDefault_def createNftWithErc20_def
      estGasCreateNftWithErc20_def io_defs split: sum.splits list.splits)

lemma fb_createNftErc20WithPool:
  "utils_getErcCreationParams env ercParams = Inr ercData \<Longrightarrow>
   utils_getPoolCreationParams env poolParams = Inr poolData \<Longrightarrow>
   isl (web3_estimateGas env factory ''createNftWithErc20WithPool''
          [nftStruct nftData, ercData, poolData] account)
   \<Longrightarrow> submitsWithDefault factory ''createNftWithErc20WithPool''
          [nftStruct nftData, ercData, poolData] account s
         (createNftErc20WithPool env factory account nftData ercParams poolParams s)"
  by (auto simp add: submitsWithDefault_def createNftErc20WithPool_def
      estGasCreateNftErc20WithPool_def io_defs split: sum.splits list.splits)

lemma fb_createNftErc20WithFixedRate:
  "utils_getErcCreationParams env ercParams = Inr ercData \<Longrightarrow>
   utils_getFreCreationParams env freParams = Inr fixedData \<Longrightarrow>
   isl (web3_estimateGas env factory ''createNftWithErc20WithFixedRate''
          [nftStruct nftData, ercData, fixedData] account)
   \<Longrightarrow> submitsWithDefault factory ''createNftWithErc20WithFixedRate''
          [nftStruct nftData, ercData, fixedData] account s
         (createNftErc20WithFixedRate env factory account nftData ercParams freParams s)"
  by (auto simp add: submitsWithDefault_def createNftErc20WithFixedRate_def
      estGasCreateNftErc20WithFixedRate_def io_defs split: sum.splits list.splits)

lemma fb_createNftErc20WithDispenser:
  "utils_getErcCreationParams env ercParams = Inr ercData \<Longrightarrow>
   web3_toWei env (disp_maxBalance dispenser) = Inr maxBalance \<Longrightarrow>
   web3_toWei env (disp_maxTokens dispenser) = Inr maxTokens \<Longrightarrow>
   isl (web3_estimateGas env factory ''createNftWithErc20WithDispenser''
          [nftStruct nftData, ercData,
           AList [AInt maxBalance, AInt maxTokens, disp_others dispenser]] account)
   \<Longrightarrow> submitsWithDefault factory ''createNftWithErc20WithDispenser''
          [nftStruct nftData, ercData,
           AList [AInt maxBalance, AInt maxTokens, disp_others dispenser]] account s
         (createNftErc20WithDispenser env factory account nftData ercParams dispenser s)"
  by (auto simp add: submitsWithDefault_def createNftErc20WithDispenser_def
      estGasCreateNftErc20WithDispenser_def io_defs split: sum.splits list.splits)

lemma fb_estGasCreateNFT:
  "isl (web3_estimateGas env factory ''deployERC721Contract'' (nftArgs nftData) account)
   \<Longrightarrow> estGasCreateNFT env factory account nftData s
       = (Inr GASLIMIT_DEFAULT,
          s @ [Estimated factory ''deployERC721Contract'' (nftArgs nftData) account])"
  by (auto simp add: estGasCreateNFT_def io_defs split: sum.splits list.splits)

lemma completeNftData_index: "nft_templateIndex (completeNftData env nftData) \<noteq> 0"
  by (simp add: completeNftData_def Let_def)

lemma sub_createNFT:
  assumes "call_uint env factory ''getCurrentNFTTemplateCount'' [] = Inr nftCount"
      and "nft_templateIndex (completeNftData env nftData) \<le> nftCount"
      and "call_template env factory ''getNFTTemplate''
          [AInt (int (nft_templateIndex (completeNftData env nftData)))] = Inr nftTemplate"
      and "isActive nftTemplate"
      and "isl (web3_estimateGas env factory ''deployERC721Contract''
          (nftArgs (completeNftData env nftData)) account)"
      and "fairGasPrice env (Suc (length s)) = Inr price"
  shows "newSubmissions s (snd (createNFT env factory account nftData s))
          = [Sent factory ''deployERC721Contract''
               (nftArgs (completeNftData env nftData))
               account (GASLIMIT_DEFAULT + 1) price]"
  using assms
  by (auto simp add: createNFT_def estGasCreateNFT_def factory_reads io_defs Let_def completeNftData_index
      split: sum.splits option.splits list.splits)

lemma sub_addNFTTemplate:
  assumes "call_address env factory ''owner'' [] = Inr account"
      and "template \<noteq> ZERO_ADDRESS"
      and "isl (web3_estimateGas env factory ''add721TokenTemplate''
          [addrArg template] account)"
      and "fairGasPrice env (Suc (length s)) = Inr price"
  shows "newSubmissions s (snd (addNFTTemplate env factory account template s))
          = [Sent factory ''add721TokenTemplate''
               [addrArg template]
               account (GASLIMIT_DEFAULT + 1) price]"
  using assms
  by (auto simp add: addNFTTemplate_def estGasAddNFTTemplate_def factory_reads io_defs
      split: sum.splits option.splits list.splits)

lemma sub_disableNFTTemplate:
  assumes "call_address env factory ''owner'' [] = Inr account"
      and "call_uint env factory ''getCurrentNFTTemplateCount'' [] = Inr nftCount"
      and "i \<le> nftCount"
      and "i \<noteq> 0"
      and "isl (web3_estimateGas env factory ''disable721TokenTemplate''
          [AInt (int i)] account)"
      and "fairGasPrice env (Suc (length s)) = Inr price"
  shows "newSubmissions s (snd (disableNFTTemplate env factory account i s))
          = [Sent factory ''disable721TokenTemplate''
               [AInt (int i)]
               account (GASLIMIT_DEFAULT + 1) price]"
  using assms
  by (auto simp add: disableNFTTemplate_def estGasDisableNFTTemplate_def factory_reads io_defs
      split: sum.splits option.splits list.splits)

lemma sub_reactivateNFTTemplate:
  assumes "call_address env factory ''owner'' [] = Inr account"
      and "call_uint env factory ''getCurrentNFTTemplateCount'' [] = Inr nftCount"
      and "j \<le> nftCount"
      and "j \<noteq> 0"
      and "isl (web3_estimateGas env factory ''reactivate721TokenTemplate''
          [AInt (int j)] account)"
      and "fairGasPrice env (Suc (length s)) = Inr price"
  shows "newSubmissions s (snd (reactivateNFTTemplate env factory account j s))
          = [Sent factory ''reactivate721TokenTemplate''
               [AInt (int j)]
               account (GASLIMIT_DEFAULT + 1) price]"
  using assms
  by (auto simp add: reactivateNFTTemplate_def estGasReactivateNFTTemplate_def factory_reads io_defs
      split: sum.splits option.splits list.splits)

lemma sub_addTokenTemplate:
  assumes "call_address env factory ''owner'' [] = Inr account"
      and "template' \<noteq> ZERO_ADDRESS"
      and "isl (web3_estimateGas env factory ''addTokenTemplate''
          [addrArg template'] account)"
      and "fairGasPrice env (Suc (length s)) = Inr price"
  shows "newSubmissions s (snd (addTokenTemplate env factory account template' s))
          = [Sent factory ''addTokenTemplate''
               [addrArg template']
               account (GASLIMIT_DEFAULT + 1) price]"
  using assms
  by (auto simp add: addTokenTemplate_def estGasAddTokenTemplate_def factory_reads io_defs
      split: sum.splits option.splits list.splits)

lemma sub_disableTokenTemplate:
  assumes "call_address env factory ''owner'' [] = Inr account"
      and "call_uint env factory ''getCurrentTemplateCount'' [] = Inr tokenCount"
      and "k \<le> tokenCount"
      and "k \<noteq> 0"
      and "call_template env factory ''getTokenTemplate'' [AInt (int k)] = Inr activeTemplate"
      and "isActive activeTemplate"
      and "isl (web3_estimateGas env factory ''disableTokenTemplate''
          [AInt (int k)] account)"
      and "fairGasPrice env (Suc (length s)) = Inr price"
  shows "newSubmissions s (snd (disableTokenTemplate env factory account k s))
          = [Sent factory ''disableTokenTemplate''
               [AInt (int k)]
               account (GASLIMIT_DEFAULT + 1) price]"
  using assms
  by (auto simp add: disableTokenTemplate_def estGasDisableTokenTemplate_def factory_reads io_defs
      split: sum.splits option.splits list.splits)

lemma sub_reactivateTokenTemplate:
  assumes "call_address env factory ''owner'' [] = Inr account"
      and "call_uint env factory ''getCurrentTemplateCount'' [] = Inr tokenCount"
      and "l \<le> tokenCount"
      and "l \<noteq> 0"
      and "call_template env factory ''getTokenTemplate'' [AInt (int l)] = Inr disabledTemplate"
      and "\<not> isActive disabledTemplate"
      and "isl (web3_estimateGas env factory ''reactivateTokenTemplate''
          [AInt (int l)] account)"
      and "fairGasPrice env (Suc (length s)) = Inr price"
  shows "newSubmissions s (snd (reactivateTokenTemplate env factory account l s))
          = [Sent factory ''reactivateTokenTemplate''
               [AInt (int l)]
               account (GASLIMIT_DEFAULT + 1) price]"
  using assms
  by (auto simp add: reactivateTokenTemplate_def estGasReactivateTokenTemplate_def factory_reads io_defs
      split: sum.splits option.splits list.splits)

lemma sub_startMultipleTokenOrder:
  assumes "length orders \<le> 50"
      and "isl (web3_estimateGas env factory ''startMultipleTokenOrder''
          [AList orders] account)"
      and "fairGasPrice env (Suc (length s)) = Inr price"
  shows "newSubmissions s (snd (startMultipleTokenOrder env factory account orders s))
          = [Sent factory ''startMultipleTokenOrder''
               [AList orders]
               account (GASLIMIT_DEFAULT + 1) price]"
  using assms
  by (auto simp add: startMultipleTokenOrder_def estGasStartMultipleTokenOrder_def io_defs
      split: sum.splits option.splits list.splits)

lemma sub_createNftWithErc20:
  assumes "utils_getErcCreationParams env ercParams = Inr ercData"
      and "isl (web3_estimateGas env factory ''createNftWithErc20''
          [nftStruct nftData, ercData] account)"
      and "fairGasPrice env (Suc (length s)) = Inr price"
  shows "newSubmissions s (snd (createNftWithErc20 env factory account nftData ercParams s))
          = [Sent factory ''createNftWithErc20''
               [nftStruct nftData, ercData]
               account (GASLIMIT_DEFAULT + 1) price]"
  using assms
  by (auto simp add: createNftWithErc20_def estGasCreateNftWithErc20_def io_defs
      split: sum.splits option.splits list.splits)

lemma sub_createNftErc20WithPool:
  assumes "utils_getErcCreationParams env ercParams = Inr ercData"
      and "utils_getPoolCreationParams env poolParams = Inr poolData"
      and "isl (web3_estimateGas env factory ''createNftWithErc20WithPool''
          [nftStruct nftData, ercData, poolData] account)"
      and "fairGasPrice env (Suc (length s)) = Inr price"
  shows "newSubmissions s (snd (createNftErc20WithPool env factory account nftData ercParams poolParams s))
          = [Sent factory ''createNftWithErc20WithPool''
               [nftStruct nftData, ercData, poolData]
               account (GASLIMIT_DEFAULT + 1) price]"
  using assms
  by (auto simp add: createNftErc20WithPool_def estGasCreateNftErc20WithPool_def io_defs
      split: sum.splits option.splits list.splits)

lemma sub_createNftErc20WithFixedRate:
  assumes "utils_getErcCreationParams env ercParams = Inr ercData"
      and "utils_getFreCreationParams env freParams = Inr fixedData"
      and "isl (web3_estimateGas env factory ''createNftWithErc20WithFixedRate''
          [nftStruct nftData, ercData, fixedData] account)"
      and "fairGasPrice env (Suc (length s)) = Inr price"
  shows "newSubmissions s (snd (createNftErc20WithFixedRate env factory account nftData ercParams freParams s))
          = [Sent factory ''createNftWithErc20WithFixedRate''
               [nftStruct nftData, ercData, fixedData]
               account (GASLIMIT_DEFAULT + 1) price]"
  using assms
  by (auto simp add: createNftErc20WithFixedRate_def estGasCreateNftErc20WithFixedRate_def io_defs
      split: sum.splits option.splits list.splits)

lemma sub_createNftErc20WithDispenser:
  assumes "utils_getErcCreationParams env ercParams = Inr ercData"
      and "web3_toWei env (disp_maxBalance dispenser) = Inr maxBalance"
      and "web3_toWei env (disp_maxTokens dispenser) = Inr maxTokens"
      and "isl (web3_estimateGas env factory ''createNftWithErc20WithDispenser''
          [nftStruct nftData, ercData,
           AList [AInt maxBalance, AInt maxTokens, disp_others dispenser]] account)"
      and "fairGasPrice env (Suc (Suc (length s))) = Inr laterPrice"
  shows "newSubmissions s (snd (createNftErc20WithDispenser env factory account nftData ercParams dispenser s))
          = [Sent factory ''createNftWithErc20WithDispenser''
               [nftStruct nftData, ercData,
           AList [AInt maxBalance, AInt maxTokens, disp_others dispenser]]
               account (GASLIMIT_DEFAULT + 1) laterPrice]"
  using assms
  by (auto simp add: createNftErc20WithDispenser_def estGasCreateNftErc20WithDispenser_def io_defs
      split: sum.splits option.splits list.splits)

text \<open>
  C5: when the gas estimation of a mutating factory method throws, the method does not
  abort: the \<open>estGas\<close> function catches the failure and returns \<open>GASLIMIT_DEFAULT\<close>
  (1000000), and the method goes on: it asks the fair gas price and submits the estimated
  call once, with the gas limit \<open>GASLIMIT_DEFAULT + 1\<close>. The first thirteen conjuncts
  cover every run: a method that estimated either submitted so, or threw the error of a
  failed gas-price query and sent nothing; a method that did not estimate threw in its
  own checks and sent nothing. The last twelve say that each method does submit: when its
  own checks pass, the estimation throws and the gas-price query answers \<open>price\<close>, the one
  submission of the run has the gas limit \<open>GASLIMIT_DEFAULT + 1\<close> and the gas price
  \<open>price\<close>. (\<open>createNftErc20WithDispenser\<close> logs the failed estimation first, so its
  query is one step later in the trace and answers \<open>laterPrice\<close>.)
\<close>

theorem factory_estimation_failure_falls_back_to_default:
  "(isl (web3_estimateGas env factory ''deployERC721Contract'' (nftArgs nftData) account)
      \<longrightarrow> estGasCreateNFT env factory account nftData s
          = (Inr GASLIMIT_DEFAULT,
             s @ [Estimated factory ''deployERC721Contract'' (nftArgs nftData) account]))
   \<and> (isl (web3_estimateGas env factory ''deployERC721Contract''
             (nftArgs (completeNftData env nftData)) account)
      \<longrightarrow> submitsWithDefault factory ''deployERC721Contract''
            (nftArgs (completeNftData env nftData)) account s
            (createNFT env factory account nftData s))
   \<and> (isl (web3_estimateGas env factory ''add721TokenTemplate'' [addrArg template] account)
      \<longrightarrow> submitsWithDefault factory ''add721TokenTemplate'' [addrArg template] account s
            (addNFTTemplate env factory account template s))
   \<and> (isl (web3_estimateGas env factory ''disable721TokenTemplate'' [AInt (int i)] account)
      \<longrightarrow> submitsWithDefault factory ''disable721TokenTemplate'' [AInt (int i)] account s
            (disableNFTTemplate env factory account i s))
   \<and> (isl (web3_estimateGas env factory ''reactivate721TokenTemplate'' [AInt (int j)] account)
      \<longrightarrow> submitsWithDefault factory ''reactivate721TokenTemplate'' [AInt (int j)] account s
            (reactivateNFTTemplate env factory account j s))
   \<and> (isl (web3_estimateGas env factory ''addTokenTemplate'' [addrArg template'] account)
      \<longrightarrow> submitsWithDefault factory ''addTokenTemplate'' [addrArg template'] account s
            (addTokenTemplate env factory account template' s))
   \<and> (isl (web3_estimateGas env factory ''disableTokenTemplate'' [AInt (int k)] account)
      \<longrightarrow> submitsWithDefault factory ''disableTokenTemplate'' [AInt (int k)] account s
            (disableTokenTemplate env factory account k s))
   \<and> (isl (web3_estimateGas env factory ''reactivateTokenTemplate'' [AInt (int l)] account)
      \<longrightarrow> submitsWithDefault factory ''reactivateTokenTemplate'' [AInt (int l)] account s
            (reactivateTokenTemplate env factory account l s))
   \<and> (isl (web3_estimateGas env factory ''startMultipleTokenOrder'' [AList orders] account)
      \<longrightarrow> submitsWithDefault factory ''startMultipleTokenOrder'' [AList orders] account s
            (startMultipleTokenOrder env factory account orders s))
   \<and> (utils_getErcCreationParams env ercParams = Inr ercData
      \<and> isl (web3_estimateGas env factory ''createNftWithErc20''
               [nftStruct nftData, ercData] account)
      \<longrightarrow> submitsWithDefault factory ''createNftWithErc20'' [nftStruct nftData, ercData]
            account s (createNftWithErc20 env factory account nftData ercParams s))
   \<and> (utils_getErcCreationParams env ercParams = Inr ercData
      \<and> utils_getPoolCreationParams env poolParams = Inr poolData
      \<and> isl (web3_estimateGas env factory ''createNftWithErc20WithPool''
               [nftStruct nftData, ercData, poolData] account)
      \<longrightarrow> submitsWithDefault factory ''createNftWithErc20WithPool''
            [nftStruct nftData, ercData, poolData] account s
            (createNftErc20WithPool env factory account nftData ercParams poolParams s))
   \<and> (utils_getErcCreationParams env ercParams = Inr ercData
      \<and> utils_getFreCreationParams env freParams = Inr fixedData
      \<and> isl (web3_estimateGas env factory ''createNftWithErc20WithFixedRate''
               [nftStruct nftData, ercData, fixedData] account)
      \<longrightarrow> submitsWithDefault factory ''createNftWithErc20WithFixedRate''
            [nftStruct nftData, ercData, fixedData] account s
            (createNftErc20WithFixedRate env factory account nftData ercParams freParams s))
   \<and> (utils_getErcCreationParams env ercParams = Inr ercData
      \<and> web3_toWei env (disp_maxBalance dispenser) = Inr maxBalance
      \<and> web3_toWei env (disp_maxTokens dispenser) = Inr maxTokens
      \<and> isl (web3_estimateGas env factory ''createNftWithErc20WithDispenser''
               [nftStruct nftData, ercData,
                AList [AInt maxBalance, AInt maxTokens, disp_others dispenser]] account)
      \<longrightarrow> submitsWithDefault factory ''createNftWithErc20WithDispenser''
            [nftStruct nftData, ercData,
             AList [AInt maxBalance, AInt maxTokens, disp_others dispenser]] account s
            (createNftErc20WithDispenser env factory account nftData ercParams dispenser s))
   \<and> (call_uint env factory ''getCurrentNFTTemplateCount'' [] = Inr nftCount
      \<and> nft_templateIndex (completeNftData env nftData) \<le> nftCount
      \<and> call_template env factory ''getNFTTemplate''
          [AInt (int (nft_templateIndex (completeNftData env nftData)))] = Inr nftTemplate
      \<and> isActive nftTemplate
      \<and> isl (web3_estimateGas env factory ''deployERC721Contract''
          (nftArgs (completeNftData env nftData)) account)
      \<and> fairGasPrice env (Suc (length s)) = Inr price
      \<longrightarrow> newSubmissions s (snd (createNFT env factory account nftData s))
          = [Sent factory ''deployERC721Contract''
               (nftArgs (completeNftData env nftData))
               account (GASLIMIT_DEFAULT + 1) price])
   \<and> (call_address env factory ''owner'' [] = Inr account
      \<and> template \<noteq> ZERO_ADDRESS
      \<and> isl (web3_estimateGas env factory ''add721TokenTemplate''
          [addrArg template] account)
      \<and> fairGasPrice env (Suc (length s)) = Inr price
      \<longrightarrow> newSubmissions s (snd (addNFTTemplate env factory account template s))
          = [Sent factory ''add721TokenTemplate''
               [addrArg template]
               account (GASLIMIT_DEFAULT + 1) price])
   \<and> (call_address env factory ''owner'' [] = Inr account
      \<and> call_uint env factory ''getCurrentNFTTemplateCount'' [] = Inr nftCount
      \<and> i \<le> nftCount
      \<and> i \<noteq> 0
      \<and> isl (web3_estimateGas env factory ''disable721TokenTemplate''
          [AInt (int i)] account)
      \<and> fairGasPrice env (Suc (length s)) = Inr price
      \<longrightarrow> newSubmissions s (snd (disableNFTTemplate env factory account i s))
          = [Sent factory ''disable721TokenTemplate''
               [AInt (int i)]
               account (GASLIMIT_DEFAULT + 1) price])
   \<and> (call_address env factory ''owner'' [] = Inr account
      \<and> call_uint env factory ''getCurrentNFTTemplateCount'' [] = Inr nftCount
      \<and> j \<le> nftCount
      \<and> j \<noteq> 0
      \<and> isl (web3_estimateGas env factory ''reactivate721TokenTemplate''
          [AInt (int j)] account)
      \<and> fairGasPrice env (Suc (length s)) = Inr price
      \<longrightarrow> newSubmissions s (snd (reactivateNFTTemplate env factory account j s))
          = [Sent factory ''reactivate721TokenTemplate''
               [AInt (int j)]
               account (GASLIMIT_DEFAULT + 1) price])
   \<and> (call_address env factory ''owner'' [] = Inr account
      \<and> template' \<noteq> ZERO_ADDRESS
      \<and> isl (web3_estimateGas env factory ''addTokenTemplate''
          [addrArg template'] account)
      \<and> fairGasPrice env (Suc (length s)) = Inr price
      \<longrightarrow> newSubmissions s (snd (addTokenTemplate env factory account template' s))
          = [Sent factory ''addTokenTemplate''
               [addrArg template']
               account (GASLIMIT_DEFAULT + 1) price])
   \<and> (call_address env factory ''owner'' [] = Inr account
      \<and> call_uint env factory ''getCurrentTemplateCount'' [] = Inr tokenCount
      \<and> k \<le> tokenCount
      \<and> k \<noteq> 0
      \<and> call_template env factory ''getTokenTemplate'' [AInt (int k)] = Inr activeTemplate
      \<and> isActive activeTemplate
      \<and> isl (web3_estimateGas env factory ''disableTokenTemplate''
          [AInt (int k)] account)
      \<and> fairGasPrice env (Suc (length s)) = Inr price
      \<longrightarrow> newSubmissions s (snd (disableTokenTemplate env factory account k s))
          = [Sent factory ''disableTokenTemplate''
               [AInt (int k)]
               account (GASLIMIT_DEFAULT + 1) price])
   \<and> (call_address env factory ''owner'' [] = Inr account
      \<and> call_uint env factory ''getCurrentTemplateCount'' [] = Inr tokenCount
      \<and> l \<le> tokenCount
      \<and> l \<noteq> 0
      \<and> call_template env factory ''getTokenTemplate'' [AInt (int l)] = Inr disabledTemplate
      \<and> \<not> isActive disabledTemplate
      \<and> isl (web3_estimateGas env factory ''reactivateTokenTemplate''
          [AInt (int l)] account)
      \<and> fairGasPrice env (Suc (length s)) = Inr price
      \<longrightarrow> newSubmissions s (snd (reactivateTokenTemplate env factory account l s))
          = [Sent factory ''reactivateTokenTemplate''
               [AInt (int l)]
               account (GASLIMIT_DEFAULT + 1) price])
   \<and> (length orders \<le> 50
      \<and> isl (web3_estimateGas env factory ''startMultipleTokenOrder''
          [AList orders] account)
      \<and> fairGasPrice env (Suc (length s)) = Inr price
      \<longrightarrow> newSubmissions s (snd (startMultipleTokenOrder env factory account orders s))
          = [Sent factory ''startMultipleTokenOrder''
               [AList orders]
               account (GASLIMIT_DEFAULT + 1) price])
   \<and> (utils_getErcCreationParams env ercParams = Inr ercData
      \<and> isl (web3_estimateGas env factory ''createNftWithErc20''
          [nftStruct nftData, ercData] account)
      \<and> fairGasPrice env (Suc (length s)) = Inr price
      \<longrightarrow> newSubmissions s (snd (createNftWithErc20 env factory account nftData ercParams s))
          = [Sent factory ''createNftWithErc20''
               [nftStruct nftData, ercData]
               account (GASLIMIT_DEFAULT + 1) price])
   \<and> (utils_getErcCreationParams env ercParams = Inr ercData
      \<and> utils_getPoolCreationParams env poolParams = Inr poolData
      \<and> isl (web3_estimateGas env factory ''createNftWithErc20WithPool''
          [nftStruct nftData, ercData, poolData] account)
      \<and> fairGasPrice env (Suc (length s)) = Inr price
      \<longrightarrow> newSubmissions s (snd (createNftErc20WithPool env factory account nftData ercParams poolParams s))
          = [Sent factory ''createNftWithErc20WithPool''
               [nftStruct nftData, ercData, poolData]
               account (GASLIMIT_DEFAULT + 1) price])
   \<and> (utils_getErcCreationParams env ercParams = Inr ercData
      \<and> utils_getFreCreationParams env freParams = Inr fixedData
      \<and> isl (web3_estimateGas env factory ''createNftWithErc20WithFixedRate''
          [nftStruct nftData, ercData, fixedData] account)
      \<and> fairGasPrice env (Suc (length s)) = Inr price
      \<longrightarrow> newSubmissions s (snd (createNftErc20WithFixedRate env factory account nftData ercParams freParams s))
          = [Sent factory ''createNftWithErc20WithFixedRate''
               [nftStruct nftData, ercData, fixedData]
               account (GASLIMIT_DEFAULT + 1) price])
   \<and> (utils_getErcCreationParams env ercParams = Inr ercData
      \<and> web3_toWei env (disp_maxBalance dispenser) = Inr maxBalance
      \<and> web3_toWei env (disp_maxTokens dispenser) = Inr maxTokens
      \<and> isl (web3_estimateGas env factory ''createNftWithErc20WithDispenser''
          [nftStruct nftData, ercData,
           AList [AInt maxBalance, AInt maxTokens, disp_others dispenser]] account)
      \<and> fairGasPrice env (Suc (Suc (length s))) = Inr laterPrice
      \<longrightarrow> newSubmissions s (snd (createNftErc20WithDispenser env factory account nftData ercParams dispenser s))
          = [Sent factory ''createNftWithErc20WithDispenser''
               [nftStruct nftData, ercData,
           AList [AInt maxBalance, AInt maxTokens, disp_others dispenser]]
               account (GASLIMIT_DEFAULT + 1) laterPrice])"
  by (intro conjI impI; (elim conjE)?;
      ((rule fb_estGasCreateNFT fb_createNFT fb_addNFTTemplate fb_disableNFTTemplate
          fb_reactivateNFTTemplate fb_addTokenTemplate fb_disableTokenTemplate
          fb_reactivateTokenTemplate fb_startMultipleTokenOrder fb_createNftWithErc20
          fb_createNftErc20WithPool fb_createNftErc20WithFixedRate
          fb_createNftErc20WithDispenser; assumption)
       | (rule sub_createNFT sub_addNFTTemplate sub_disableNFTTemplate
            sub_reactivateNFTTemplate sub_addTokenTemplate sub_disableTokenTemplate
            sub_reactivateTokenTemplate sub_startMultipleTokenOrder sub_createNftWithErc20
            sub_createNftErc20WithPool sub_createNftErc20WithFixedRate sub_createNftErc20WithDispenser; assumption)))

theorem factory_estimation_failure_falls_back_to_default_witness:
  "isl (web3_estimateGas noEstimateEnv (Some ''factory'') ''deployERC721Contract''
          (nftArgs someNft) (Some ''alice''))
   \<and> estGasCreateNFT noEstimateEnv (Some ''factory'') (Some ''alice'') someNft []
       = (Inr 1000000,
          [Estimated (Some ''factory'') ''deployERC721Contract'' (nftArgs someNft) (Some ''alice'')])
   \<and> createNFT noEstimateEnv (Some ''factory'') (Some ''alice'') someNft []
       = (Inr (Some ''nft1''),
          [Estimated (Some ''factory'') ''deployERC721Contract'' (nftArgs someNft) (Some ''alice''),
           PriceQueried 101,
           Sent (Some ''factory'') ''deployERC721Contract'' (nftArgs someNft) (Some ''alice'')
             1000001 101])
   \<and> newSubmissions []
        (snd (addNFTTemplate noEstimateEnv (Some ''factory'') (Some ''alice'') (Some ''t1'') []))
       = [Sent (Some ''factory'') ''add721TokenTemplate'' [AAddr ''t1''] (Some ''alice'')
            1000001 101]
   \<and> newSubmissions []
        (snd (disableNFTTemplate noEstimateEnv (Some ''factory'') (Some ''alice'') 1 []))
       = [Sent (Some ''factory'') ''disable721TokenTemplate'' [AInt 1] (Some ''alice'')
            1000001 101]
   \<and> newSubmissions []
        (snd (reactivateNFTTemplate noEstimateEnv (Some ''factory'') (Some ''alice'') 1 []))
       = [Sent (Some ''factory'') ''reactivate721TokenTemplate'' [AInt 1] (Some ''alice'')
            1000001 101]
   \<and> newSubmissions []
        (snd (addTokenTemplate noEstimateEnv (Some ''factory'') (Some ''alice'') (Some ''t2'') []))
       = [Sent (Some ''factory'') ''addTokenTemplate'' [AAddr ''t2''] (Some ''alice'')
            1000001 101]
   \<and> newSubmissions []
        (snd (disableTokenTemplate noEstimateEnv (Some ''factory'') (Some ''alice'') 1 []))
       = [Sent (Some ''factory'') ''disableTokenTemplate'' [AInt 1] (Some ''alice'')
            1000001 101]
   \<and> newSubmissions []
        (snd (reactivateTokenTemplate noEstimateEnv (Some ''factory'') (Some ''alice'') 2 []))
       = [Sent (Some ''factory'') ''reactivateTokenTemplate'' [AInt 2] (Some ''alice'')
            1000001 101]
   \<and> newSubmissions []
        (snd (startMultipleTokenOrder noEstimateEnv (Some ''factory'') (Some ''alice'')
                [AText ''order''] []))
       = [Sent (Some ''factory'') ''startMultipleTokenOrder'' [AList [AText ''order'']]
            (Some ''alice'') 1000001 101]
   \<and> newSubmissions []
        (snd (createNftWithErc20 noEstimateEnv (Some ''factory'') (Some ''alice'') someNft
                (AText ''erc'') []))
       = [Sent (Some ''factory'') ''createNftWithErc20'' [nftStruct someNft, AText ''erc'']
            (Some ''alice'') 1000001 101]
   \<and> newSubmissions []
        (snd (createNftErc20WithPool noEstimateEnv (Some ''factory'') (Some ''alice'') someNft
                (AText ''erc'') (AText ''poolParams'') []))
       = [Sent (Some ''factory'') ''createNftWithErc20WithPool''
            [nftStruct someNft, AText ''erc'', AText ''poolParams''] (Some ''alice'') 1000001 101]
   \<and> newSubmissions []
        (snd (createNftErc20WithFixedRate noEstimateEnv (Some ''factory'') (Some ''alice'')
                someNft (AText ''erc'') (AText ''fre'') []))
       = [Sent (Some ''factory'') ''createNftWithErc20WithFixedRate''
            [nftStruct someNft, AText ''erc'', AText ''fre''] (Some ''alice'') 1000001 101]
   \<and> newSubmissions []
        (snd (createNftErc20WithDispenser noEstimateEnv (Some ''factory'') (Some ''alice'')
                someNft (AText ''erc'') someDispenser []))
       = [Sent (Some ''factory'') ''createNftWithErc20WithDispenser''
            [nftStruct someNft, AText ''erc'',
             AList [AInt 1000000000000000000, AInt 1000000000000000000, AAddr ''dispenser'']]
            (Some ''alice'') 1000001 102]
   \<and> call_address noEstimateEnv (Some ''factory'') ''owner'' [] = Inr (Some ''alice'')
   \<and> call_uint noEstimateEnv (Some ''factory'') ''getCurrentNFTTemplateCount'' [] = Inr 1
   \<and> call_uint noEstimateEnv (Some ''factory'') ''getCurrentTemplateCount'' [] = Inr 2
   \<and> call_template noEstimateEnv (Some ''factory'') ''getNFTTemplate'' [AInt 1]
       = Inr \<lparr> templateAddress = Some ''template'', isActive = True \<rparr>
   \<and> call_template noEstimateEnv (Some ''factory'') ''getTokenTemplate'' [AInt 1]
       = Inr \<lparr> templateAddress = Some ''template'', isActive = True \<rparr>
   \<and> call_template noEstimateEnv (Some ''factory'') ''getTokenTemplate'' [AInt 2]
       = Inr \<lparr> templateAddress = Some ''template2'', isActive = False \<rparr>
   \<and> utils_getErcCreationParams noEstimateEnv (AText ''erc'') = Inr (AText ''erc'')
   \<and> utils_getPoolCreationParams noEstimateEnv (AText ''poolParams'') = Inr (AText ''poolParams'')
   \<and> utils_getFreCreationParams noEstimateEnv (AText ''fre'') = Inr (AText ''fre'')
   \<and> web3_toWei noEstimateEnv 1 = Inr 1000000000000000000
   \<and> isl (web3_estimateGas noEstimateEnv (Some ''factory'') ''add721TokenTemplate''
            [AAddr ''t1''] (Some ''alice''))
   \<and> fairGasPrice noEstimateEnv (Suc (length ([] :: trace))) = Inr 101
   \<and> fairGasPrice noEstimateEnv (Suc (Suc (length ([] :: trace)))) = Inr 102
   \<and> isl (web3_estimateGas unpricedEnv (Some ''factory'') ''add721TokenTemplate''
            [AAddr ''t1''] (Some ''alice''))
   \<and> fairGasPrice unpricedEnv (Suc (length ([] :: trace))) = Inl (Rejected ''no gas price'')
   \<and> addNFTTemplate unpricedEnv (Some ''factory'') (Some ''alice'') (Some ''t1'') []
       = (Inl (Rejected ''no gas price''),
          [Estimated (Some ''factory'') ''add721TokenTemplate'' [AAddr ''t1''] (Some ''alice''),
           PriceQueryFailed (Rejected ''no gas price'')])
   \<and> createNftErc20WithDispenser unpricedEnv (Some ''factory'') (Some ''alice'') someNft
        (AText ''erc'') someDispenser []
       = (Inl (Rejected ''no gas price''),
          [Estimated (Some ''factory'') ''createNftWithErc20WithDispenser''
             [nftStruct someNft, AText ''erc'',
              AList [AInt 1000000000000000000, AInt 1000000000000000000, AAddr ''dispenser'']]
             (Some ''alice''),
           Logged ''Failed to estimate gas for createNftErc20WithDispenser''
             (Rejected ''out of gas''),
           PriceQueryFailed (Rejected ''no gas price'')])"
  using factory_estimation_failure_falls_back_to_default
      [where env = "noEstimateEnv" and factory = "Some ''factory''" and nftData = "someNft"
         and account = "Some ''alice''" and s = "[]" and template = "Some ''t1''"
         and i = 1 and j = 1 and template' = "Some ''t2''" and k = 1 and l = 2
         and orders = "[AText ''order'']" and ercParams = "AText ''erc''"
         and ercData = "AText ''erc''" and poolParams = "AText ''poolParams''"
         and poolData = "AText ''poolParams''" and freParams = "AText ''fre''"
         and fixedData = "AText ''fre''" and dispenser = "someDispenser"
         and maxBalance = 1000000000000000000 and maxTokens = 1000000000000000000
         and nftCount = 1 and tokenCount = 2
         and nftTemplate = "\<lparr> templateAddress = Some ''template'', isActive = True \<rparr>"
         and activeTemplate = "\<lparr> templateAddress = Some ''template'', isActive = True \<rparr>"
         and disabledTemplate = "\<lparr> templateAddress = Some ''template2'', isActive = False \<rparr>"
         and price = 101 and laterPrice = 102]
    factory_estimation_failure_falls_back_to_default
      [where env = "unpricedEnv" and factory = "Some ''factory''" and nftData = "someNft"
         and account = "Some ''alice''" and s = "[]" and template = "Some ''t1''"
         and i = 1 and j = 1 and template' = "Some ''t2''" and k = 1 and l = 2
         and orders = "[AText ''order'']" and ercParams = "AText ''erc''"
         and ercData = "AText ''erc''" and poolParams = "AText ''poolParams''"
         and poolData = "AText ''poolParams''" and freParams = "AText ''fre''"
         and fixedData = "AText ''fre''" and dispenser = "someDispenser"
         and maxBalance = 1000000000000000000 and maxTokens = 1000000000000000000
         and nftCount = 1 and tokenCount = 2
         and nftTemplate = "\<lparr> templateAddress = Some ''template'', isActive = True \<rparr>"
         and activeTemplate = "\<lparr> templateAddress = Some ''template'', isActive = True \<rparr>"
         and disabledTemplate = "\<lparr> templateAddress = Some ''template2'', isActive = False \<rparr>"
         and price = 101 and laterPrice = 102]
  by (simp add: createNFT_def estGasCreateNFT_def completeNftData_def nftArgs_def nftStruct_def
      addNFTTemplate_def estGasAddNFTTemplate_def disableNFTTemplate_def
      estGasDisableNFTTemplate_def reactivateNFTTemplate_def estGasReactivateNFTTemplate_def
      addTokenTemplate_def estGasAddTokenTemplate_def disableTokenTemplate_def
      estGasDisableTokenTemplate_def reactivateTokenTemplate_def
      estGasReactivateTokenTemplate_def startMultipleTokenOrder_def
      estGasStartMultipleTokenOrder_def createNftWithErc20_def estGasCreateNftWithErc20_def
      createNftErc20WithPool_def estGasCreateNftErc20WithPool_def
      createNftErc20WithFixedRate_def estGasCreateNftErc20WithFixedRate_def
      createNftErc20WithDispenser_def estGasCreateNftErc20WithDispenser_def
      factory_reads io_defs env_defs GASLIMIT_DEFAULT_def ZERO_ADDRESS_def Let_def
      submitsWithDefault_def newSubmissions_def newEstimations_def newPriceFailures_def)

section \<open>Client-side role checks\<close>

text \<open>
  C8 as stated fails: the client does reject a caller on its own role query. \<open>alice\<close> is
  not the publish-market fee collector of the pool (\<open>bob\<close> is), and \<open>collectMarketFee\<close>
  throws \<open>Caller is not MarketFeeCollector\<close> before any estimation or submission.
\<close>

theorem role_is_checked_by_client_counterexample:
  "collectMarketFee testEnv (Some ''alice'') (Some ''pool'') False []
     = (Inl CallerIsNotMarketFeeCollector, [])"
  by (simp add: collectMarketFee_def getMarketFeeCollector_def io_defs env_defs)

text \<open>
  C8, amended: \<open>collectMarketFee\<close> and \<open>updatePublishMarketFee\<close> first query the pool's
  publish-market fee collector, and the template-management methods of the factory first
  query the factory's owner; when the answer differs from the caller the client throws
  (\<open>Caller is not MarketFeeCollector\<close>, \<open>Caller is not Factory Owner\<close>) itself, before
  any gas estimation or submission.
\<close>

theorem client_rejects_caller_without_role:
  "(getMarketFeeCollector env poolAddress s = (Inr collector, s') \<and> collector \<noteq> account
      \<longrightarrow> collectMarketFee env account poolAddress estimateGas s
            = (Inl CallerIsNotMarketFeeCollector, s')
        \<and> updatePublishMarketFee env account poolAddress newAddress newFee estimateGas s
            = (Inl CallerIsNotMarketFeeCollector, s')
        \<and> estimations s' = estimations s \<and> submissions s' = submissions s)
   \<and> (getOwner env factory s = (Inr owner, s'') \<and> owner \<noteq> account
      \<longrightarrow> addNFTTemplate env factory account template s = (Inl CallerIsNotFactoryOwner, s'')
        \<and> disableNFTTemplate env factory account i s = (Inl CallerIsNotFactoryOwner, s'')
        \<and> reactivateNFTTemplate env factory account i s = (Inl CallerIsNotFactoryOwner, s'')
        \<and> addTokenTemplate env factory account template s = (Inl CallerIsNotFactoryOwner, s'')
        \<and> disableTokenTemplate env factory account i s = (Inl CallerIsNotFactoryOwner, s'')
        \<and> reactivateTokenTemplate env factory account i s
            = (Inl CallerIsNotFactoryOwner, s'')
        \<and> estimations s'' = estimations s \<and> submissions s'' = submissions s)"
  by (auto simp add: collectMarketFee_def updatePublishMarketFee_def getMarketFeeCollector_def
      addNFTTemplate_def disableNFTTemplate_def reactivateNFTTemplate_def addTokenTemplate_def
      disableTokenTemplate_def reactivateTokenTemplate_def getOwner_def io_defs
      split: sum.splits)

text \<open>On the reference chain \<open>bob\<close> collects the fees and \<open>alice\<close> owns the factory.\<close>

theorem client_rejects_caller_without_role_witness:
  "getMarketFeeCollector testEnv (Some ''pool'') [] = (Inr (Some ''bob''), [])
   \<and> Some ''bob'' \<noteq> Some ''alice''
   \<and> collectMarketFee testEnv (Some ''alice'') (Some ''pool'') False []
       = (Inl CallerIsNotMarketFeeCollector, [])
   \<and> updatePublishMarketFee testEnv (Some ''alice'') (Some ''pool'') (Some ''carol'') (1 / 100)
         False []
       = (Inl CallerIsNotMarketFeeCollector, [])
   \<and> getOwner testEnv (Some ''factory'') [] = (Inr (Some ''alice''), [])
   \<and> Some ''alice'' \<noteq> Some ''bob''
   \<and> addNFTTemplate testEnv (Some ''factory'') (Some ''bob'') (Some ''t1'') []
       = (Inl CallerIsNotFactoryOwner, [])
   \<and> disableTokenTemplate testEnv (Some ''factory'') (Some ''bob'') 1 []
       = (Inl CallerIsNotFactoryOwner, [])"
proof -
  have a: "getMarketFeeCollector testEnv (Some ''pool'') [] = (Inr (Some ''bob''), [])"
    by (simp add: getMarketFeeCollector_def io_defs env_defs)
  have b: "Some ''bob'' \<noteq> Some ''alice''"
    by simp
  have c: "getOwner testEnv (Some ''factory'') [] = (Inr (Some ''alice''), [])"
    by (simp add: getOwner_def io_defs env_defs)
  have d: "Some ''alice'' \<noteq> Some ''bob''"
    by simp
  have pool: "collectMarketFee testEnv (Some ''alice'') (Some ''pool'') False []
       = (Inl CallerIsNotMarketFeeCollector, [])
     \<and> updatePublishMarketFee testEnv (Some ''alice'') (Some ''pool'') (Some ''carol'') (1 / 100)
         False []
       = (Inl CallerIsNotMarketFeeCollector, [])"
    using a b
      client_rejects_caller_without_role [of testEnv "Some ''pool''" "[]" "Some ''bob''" "[]"
        "Some ''alice''" False "Some ''carol''" "1 / 100"]
    by simp
  have fac: "addNFTTemplate testEnv (Some ''factory'') (Some ''bob'') (Some ''t1'') []
       = (Inl CallerIsNotFactoryOwner, [])
     \<and> disableTokenTemplate testEnv (Some ''factory'') (Some ''bob'') 1 []
       = (Inl CallerIsNotFactoryOwner, [])"
    using c d
      client_rejects_caller_without_role [of testEnv _ "[]" _ _ "Some ''bob''" _ _ _
        "Some ''factory''" "Some ''alice''" "[]" "Some ''t1''" 1]
    by simp
  show ?thesis
    using a b c d pool fac by simp
qed

section \<open>Failed reads\<close>

text \<open>
  C7 as stated fails: when the contract read fails, \<open>getNumTokens\<close> does not throw. It
  logs the error and returns \<open>null\<close>.
\<close>

theorem failed_read_returns_null_counterexample:
  "getNumTokens unreadableEnv (Some ''pool'') []
     = (Inr None, [Logged ''ERROR: Failed to get number of tokens: '' (Rejected ''connection lost'')])"
  by (simp add: getNumTokens_def io_defs env_defs)

lemma null_sharesBalance:
  "sharesBalance env account poolAddress s =
     (case call_uint env poolAddress ''balanceOf'' [addrArg account] of
        Inl e \<Rightarrow> (Inr None, s @ [Logged ''ERROR: Failed to get shares of pool : '' e])
      | Inr v \<Rightarrow> (Inr (Some (web3_fromWei env v)), s))"
  by (simp add: sharesBalance_def io_defs split: sum.splits)

lemma null_getNumTokens:
  "getNumTokens env poolAddress s =
     (case call_uint env poolAddress ''getNumTokens'' [] of
        Inl e \<Rightarrow> (Inr None, s @ [Logged ''ERROR: Failed to get number of tokens: '' e])
      | Inr v \<Rightarrow> (Inr (Some v), s))"
  by (simp add: getNumTokens_def io_defs split: sum.splits)

lemma null_getPoolSharesTotalSupply:
  "getPoolSharesTotalSupply env poolAddress s =
     (case call_uint env poolAddress ''totalSupply'' [] of
        Inl e \<Rightarrow>
          (Inr None, s @ [Logged ''ERROR: Failed to get total supply of pool shares: '' e])
      | Inr v \<Rightarrow> (Inr (Some (web3_fromWei env v)), s))"
  by (simp add: getPoolSharesTotalSupply_def io_defs split: sum.splits)

lemma null_getCurrentTokens:
  "getCurrentTokens env poolAddress s =
     (case call_addresses env poolAddress ''getCurrentTokens'' [] of
        Inl e \<Rightarrow>
          (Inr None, s @ [Logged ''ERROR: Failed to get tokens composing this pool: '' e])
      | Inr v \<Rightarrow> (Inr (Some v), s))"
  by (simp add: getCurrentTokens_def io_defs split: sum.splits)

lemma null_getFinalTokens:
  "getFinalTokens env poolAddress s =
     (case call_addresses env poolAddress ''getFinalTokens'' [] of
        Inl e \<Rightarrow>
          (Inr None,
           s @ [Logged ''ERROR: Failed to get the final tokens composing this pool '' e])
      | Inr v \<Rightarrow> (Inr (Some v), s))"
  by (simp add: getFinalTokens_def io_defs split: sum.splits)

lemma null_getController:
  "getController env poolAddress s =
     (case call_address env poolAddress ''getController'' [] of
        Inl e \<Rightarrow>
          (Inr None, s @ [Logged ''ERROR: Failed to get pool controller address: '' e])
      | Inr v \<Rightarrow> (Inr v, s))"
  by (simp add: getController_def io_defs split: sum.splits)

lemma null_getBasetoken:
  "getBasetoken env poolAddress s =
     (case call_address env poolAddress ''getBaseTokenAddress'' [] of
        Inl e \<Rightarrow> (Inr None, s @ [Logged ''ERROR: Failed to get baseToken address: '' e])
      | Inr v \<Rightarrow> (Inr v, s))"
  by (simp add: getBasetoken_def io_defs split: sum.splits)

lemma null_getDatatoken:
  "getDatatoken env poolAddress s =
     (case call_address env poolAddress ''getDatatokenAddress'' [] of
        Inl e \<Rightarrow> (Inr None, s @ [Logged ''ERROR: Failed to get datatoken address: '' e])
      | Inr v \<Rightarrow> (Inr v, s))"
  by (simp add: getDatatoken_def io_defs split: sum.splits)

lemma null_getMarketFeeCollector:
  "getMarketFeeCollector env poolAddress s =
     (case call_address env poolAddress ''_publishMarketCollector'' [] of
        Inl e \<Rightarrow>
          (Inr None, s @ [Logged ''ERROR: Failed to get marketFeeCollector address: '' e])
      | Inr v \<Rightarrow> (Inr v, s))"
  by (simp add: getMarketFeeCollector_def io_defs split: sum.splits)

lemma null_isBound:
  "isBound env poolAddress token s =
     (case call_bool env poolAddress ''isBound'' [addrArg token] of
        Inl e \<Rightarrow>
          (Inr None,
           s @ [Logged ''ERROR: Failed to check whether a token       bounded to a pool. '' e])
      | Inr v \<Rightarrow> (Inr (Some v), s))"
  by (simp add: isBound_def io_defs split: sum.splits)

lemma null_isFinalized:
  "isFinalized env poolAddress s =
     (case call_bool env poolAddress ''isFinalized'' [] of
        Inl e \<Rightarrow>
          (Inr None, s @ [Logged ''ERROR: Failed to check whether pool is finalized: '' e])
      | Inr v \<Rightarrow> (Inr (Some v), s))"
  by (simp add: isFinalized_def io_defs split: sum.splits)

lemma null_getSwapFee:
  "getSwapFee env poolAddress s =
     (case call_uint env poolAddress ''getSwapFee'' [] of
        Inl e \<Rightarrow> (Inr None, s @ [Logged ''ERROR: Failed to get pool fee: '' e])
      | Inr v \<Rightarrow> (Inr (Some (web3_fromWei env v)), s))"
  by (simp add: getSwapFee_def io_defs split: sum.splits)

lemma null_getNormalizedWeight:
  "getNormalizedWeight env poolAddress token s =
     (case call_uint env poolAddress ''getNormalizedWeight'' [addrArg token] of
        Inl e \<Rightarrow>
          (Inr None, s @ [Logged ''ERROR: Failed to get normalized weight of a token: '' e])
      | Inr v \<Rightarrow> (Inr (Some (web3_fromWei env v)), s))"
  by (simp add: getNormalizedWeight_def io_defs split: sum.splits)

lemma null_getDenormalizedWeight:
  "getDenormalizedWeight env poolAddress token s =
     (case call_uint env poolAddress ''getDenormalizedWeight'' [addrArg token] of
        Inl e \<Rightarrow>
          (Inr None,
           s @ [Logged ''ERROR: Failed to get denormalized weight of a token in pool '' e])
      | Inr v \<Rightarrow> (Inr (Some (web3_fromWei env v)), s))"
  by (simp add: getDenormalizedWeight_def io_defs split: sum.splits)

lemma null_getTotalDenormalizedWeight:
  "getTotalDenormalizedWeight env poolAddress s =
     (case call_uint env poolAddress ''getTotalDenormalizedWeight'' [] of
        Inl e \<Rightarrow>
          (Inr None, s @ [Logged ''ERROR: Failed to get total denormalized weight in pool '' e])
      | Inr v \<Rightarrow> (Inr (Some (web3_fromWei env v)), s))"
  by (simp add: getTotalDenormalizedWeight_def io_defs split: sum.splits)

lemma null_getMarketFees:
  "getMarketFees env poolAddress token tokenDecimals s =
     (case call_uint env poolAddress ''publishMarketFees'' [addrArg token] of
        Inl e \<Rightarrow>
          (Inr None, s @ [Logged ''ERROR: Failed to get market fees for a token: '' e])
      | Inr v \<Rightarrow>
          (case utils_unitsToAmount env token v tokenDecimals of
             Inl e \<Rightarrow>
               (Inr None, s @ [Logged ''ERROR: Failed to get market fees for a token: '' e])
           | Inr a \<Rightarrow> (Inr (Some a), s)))"
  by (simp add: getMarketFees_def io_defs split: sum.splits)

lemma null_getCurrentMarketFees:
  "getCurrentMarketFees env poolAddress s =
     (case call_fees env poolAddress ''getCurrentOPCFees'' [] of
        Inl e \<Rightarrow>
          (Inr None, s @ [Logged ''ERROR: Failed to get community fees for a token: '' e])
      | Inr v \<Rightarrow> (Inr (Some v), s))"
  by (simp add: getCurrentMarketFees_def io_defs split: sum.splits)

lemma null_getCurrentOPCFees:
  "getCurrentOPCFees env poolAddress s =
     (case call_fees env poolAddress ''getCurrentOPCFees'' [] of
        Inl e \<Rightarrow>
          (Inr None, s @ [Logged ''ERROR: Failed to get community fees for a token: '' e])
      | Inr v \<Rightarrow> (Inr (Some v), s))"
  by (simp add: getCurrentOPCFees_def io_defs split: sum.splits)

lemma null_getCommunityFees:
  "getCommunityFees env poolAddress token tokenDecimals s =
     (case call_uint env poolAddress ''communityFees'' [addrArg token] of
        Inl e \<Rightarrow>
          (Inr None, s @ [Logged ''ERROR: Failed to get community fees for a token: '' e])
      | Inr v \<Rightarrow>
          (case utils_unitsToAmount env token v tokenDecimals of
             Inl e \<Rightarrow>
               (Inr None, s @ [Logged ''ERROR: Failed to get community fees for a token: '' e])
           | Inr a \<Rightarrow> (Inr (Some a), s)))"
  by (simp add: getCommunityFees_def io_defs split: sum.splits)

text \<open>
  C7, amended: each accessor of the pool that reads inside \<open>try\<close> and returns its result
  variable catches a failed contract read, writes the error with its cause to the error
  log and returns \<open>null\<close> (\<open>undefined\<close> for the two fee-struct accessors); when the read
  succeeds it returns the contract's answer, converted where the accessor converts, zero
  included. For \<open>getMarketFees\<close> and \<open>getCommunityFees\<close> a failed unit conversion is
  swallowed in the same way.
\<close>

theorem failed_read_is_logged_and_null_is_returned:
  "sharesBalance env account poolAddress s =
     (case call_uint env poolAddress ''balanceOf'' [addrArg account] of
        Inl e \<Rightarrow> (Inr None, s @ [Logged ''ERROR: Failed to get shares of pool : '' e])
      | Inr v \<Rightarrow> (Inr (Some (web3_fromWei env v)), s))
   \<and> getNumTokens env poolAddress s =
     (case call_uint env poolAddress ''getNumTokens'' [] of
        Inl e \<Rightarrow> (Inr None, s @ [Logged ''ERROR: Failed to get number of tokens: '' e])
      | Inr v \<Rightarrow> (Inr (Some v), s))
   \<and> getPoolSharesTotalSupply env poolAddress s =
     (case call_uint env poolAddress ''totalSupply'' [] of
        Inl e \<Rightarrow>
          (Inr None, s @ [Logged ''ERROR: Failed to get total supply of pool shares: '' e])
      | Inr v \<Rightarrow> (Inr (Some (web3_fromWei env v)), s))
   \<and> getCurrentTokens env poolAddress s =
     (case call_addresses env poolAddress ''getCurrentTokens'' [] of
        Inl e \<Rightarrow>
          (Inr None, s @ [Logged ''ERROR: Failed to get tokens composing this pool: '' e])
      | Inr v \<Rightarrow> (Inr (Some v), s))
   \<and> getFinalTokens env poolAddress s =
     (case call_addresses env poolAddress ''getFinalTokens'' [] of
        Inl e \<Rightarrow>
          (Inr None,
           s @ [Logged ''ERROR: Failed to get the final tokens composing this pool '' e])
      | Inr v \<Rightarrow> (Inr (Some v), s))
   \<and> getController env poolAddress s =
     (case call_address env poolAddress ''getController'' [] of
        Inl e \<Rightarrow>
          (Inr None, s @ [Logged ''ERROR: Failed to get pool controller address: '' e])
      | Inr v \<Rightarrow> (Inr v, s))
   \<and> getBasetoken env poolAddress s =
     (case call_address env poolAddress ''getBaseTokenAddress'' [] of
        Inl e \<Rightarrow> (Inr None, s @ [Logged ''ERROR: Failed to get baseToken address: '' e])
      | Inr v \<Rightarrow> (Inr v, s))
   \<and> getDatatoken env poolAddress s =
     (case call_address env poolAddress ''getDatatokenAddress'' [] of
        Inl e \<Rightarrow> (Inr None, s @ [Logged ''ERROR: Failed to get datatoken address: '' e])
      | Inr v \<Rightarrow> (Inr v, s))
   \<and> getMarketFeeCollector env poolAddress s =
     (case call_address env poolAddress ''_publishMarketCollector'' [] of
        Inl e \<Rightarrow>
          (Inr None, s @ [Logged ''ERROR: Failed to get marketFeeCollector address: '' e])
      | Inr v \<Rightarrow> (Inr v, s))
   \<and> isBound env poolAddress token s =
     (case call_bool env poolAddress ''isBound'' [addrArg token] of
        Inl e \<Rightarrow>
          (Inr None,
           s @ [Logged ''ERROR: Failed to check whether a token       bounded to a pool. '' e])
      | Inr v \<Rightarrow> (Inr (Some v), s))
   \<and> isFinalized env poolAddress s =
     (case call_bool env poolAddress ''isFinalized'' [] of
        Inl e \<Rightarrow>
          (Inr None, s @ [Logged ''ERROR: Failed to check whether pool is finalized: '' e])
      | Inr v \<Rightarrow> (Inr (Some v), s))
   \<and> getSwapFee env poolAddress s =
     (case call_uint env poolAddress ''getSwapFee'' [] of
        Inl e \<Rightarrow> (Inr None, s @ [Logged ''ERROR: Failed to get pool fee: '' e])
      | Inr v \<Rightarrow> (Inr (Some (web3_fromWei env v)), s))
   \<and> getNormalizedWeight env poolAddress token s =
     (case call_uint env poolAddress ''getNormalizedWeight'' [addrArg token] of
        Inl e \<Rightarrow>
          (Inr None, s @ [Logged ''ERROR: Failed to get normalized weight of a token: '' e])
      | Inr v \<Rightarrow> (Inr (Some (web3_fromWei env v)), s))
   \<and> getDenormalizedWeight env poolAddress token s =
     (case call_uint env poolAddress ''getDenormalizedWeight'' [addrArg token] of
        Inl e \<Rightarrow>
          (Inr None,
           s @ [Logged ''ERROR: Failed to get denormalized weight of a token in pool '' e])
      | Inr v \<Rightarrow> (Inr (Some (web3_fromWei env v)), s))
   \<and> getTotalDenormalizedWeight env poolAddress s =
     (case call_uint env poolAddress ''getTotalDenormalizedWeight'' [] of
        Inl e \<Rightarrow>
          (Inr None, s @ [Logged ''ERROR: Failed to get total denormalized weight in pool '' e])
      | Inr v \<Rightarrow> (Inr (Some (web3_fromWei env v)), s))
   \<and> getMarketFees env poolAddress token tokenDecimals s =
     (case call_uint env poolAddress ''publishMarketFees'' [addrArg token] of
        Inl e \<Rightarrow>
          (Inr None, s @ [Logged ''ERROR: Failed to get market fees for a token: '' e])
      | Inr v \<Rightarrow>
          (case utils_unitsToAmount env token v tokenDecimals of
             Inl e \<Rightarrow>
               (Inr None, s @ [Logged ''ERROR: Failed to get market fees for a token: '' e])
           | Inr a \<Rightarrow> (Inr (Some a), s)))
   \<and> getCurrentMarketFees env poolAddress s =
     (case call_fees env poolAddress ''getCurrentOPCFees'' [] of
        Inl e \<Rightarrow>
          (Inr None, s @ [Logged ''ERROR: Failed to get community fees for a token: '' e])
      | Inr v \<Rightarrow> (Inr (Some v), s))
   \<and> getCurrentOPCFees env poolAddress s =
     (case call_fees env poolAddress ''getCurrentOPCFees'' [] of
        Inl e \<Rightarrow>
          (Inr None, s @ [Logged ''ERROR: Failed to get community fees for a token: '' e])
      | Inr v \<Rightarrow> (Inr (Some v), s))
   \<and> getCommunityFees env poolAddress token tokenDecimals s =
     (case call_uint env poolAddress ''communityFees'' [addrArg token] of
        Inl e \<Rightarrow>
          (Inr None, s @ [Logged ''ERROR: Failed to get community fees for a token: '' e])
      | Inr v \<Rightarrow>
          (case utils_unitsToAmount env token v tokenDecimals of
             Inl e \<Rightarrow>
               (Inr None, s @ [Logged ''ERROR: Failed to get community fees for a token: '' e])
           | Inr a \<Rightarrow> (Inr (Some a), s)))"
  by (intro conjI null_sharesBalance null_getNumTokens null_getPoolSharesTotalSupply null_getCurrentTokens
      null_getFinalTokens null_getController null_getBasetoken null_getDatatoken
      null_getMarketFeeCollector null_isBound null_isFinalized null_getSwapFee
      null_getNormalizedWeight null_getDenormalizedWeight null_getTotalDenormalizedWeight null_getMarketFees
      null_getCurrentMarketFees null_getCurrentOPCFees null_getCommunityFees)

text \<open>On the chain whose numeric reads fail, \<open>sharesBalance\<close> and \<open>getSwapFee\<close> return
  \<open>null\<close>; on the reference chain \<open>getNumTokens\<close> returns the contract's answer.\<close>

theorem failed_read_is_logged_and_null_is_returned_witness:
  "sharesBalance unreadableEnv (Some ''alice'') (Some ''pool'') []
     = (Inr None,
        [Logged ''ERROR: Failed to get shares of pool : '' (Rejected ''connection lost'')])
   \<and> getSwapFee unreadableEnv (Some ''pool'') []
     = (Inr None, [Logged ''ERROR: Failed to get pool fee: '' (Rejected ''connection lost'')])
   \<and> getNumTokens testEnv (Some ''pool'') [] = (Inr (Some 2), [])
   \<and> getBasetoken testEnv (Some ''pool'') [] = (Inr (Some ''usdc''), [])"
proof -
  note ch = failed_read_is_logged_and_null_is_returned
  have a: "call_uint unreadableEnv (Some ''pool'') ''balanceOf'' [addrArg (Some ''alice'')]
      = Inl (Rejected ''connection lost'')"
    by (simp add: env_defs)
  have b: "call_uint unreadableEnv (Some ''pool'') ''getSwapFee'' []
      = Inl (Rejected ''connection lost'')"
    by (simp add: env_defs)
  have c: "call_uint testEnv (Some ''pool'') ''getNumTokens'' [] = Inr 2"
    by (simp add: env_defs)
  have d: "call_address testEnv (Some ''pool'') ''getBaseTokenAddress'' [] = Inr (Some ''usdc'')"
    by (simp add: env_defs)
  have e: "sharesBalance unreadableEnv (Some ''alice'') (Some ''pool'') [] =
     (case call_uint unreadableEnv (Some ''pool'') ''balanceOf'' [addrArg (Some ''alice'')] of
        Inl e \<Rightarrow> (Inr None, [] @ [Logged ''ERROR: Failed to get shares of pool : '' e])
      | Inr v \<Rightarrow> (Inr (Some (web3_fromWei unreadableEnv v)), []))"
    using ch [of unreadableEnv "Some ''alice''" "Some ''pool''" "[]"] by blast
  have f: "getSwapFee unreadableEnv (Some ''pool'') [] =
     (case call_uint unreadableEnv (Some ''pool'') ''getSwapFee'' [] of
        Inl e \<Rightarrow> (Inr None, [] @ [Logged ''ERROR: Failed to get pool fee: '' e])
      | Inr v \<Rightarrow> (Inr (Some (web3_fromWei unreadableEnv v)), []))"
    using ch [of unreadableEnv "Some ''alice''" "Some ''pool''" "[]"] by blast
  have g: "getNumTokens testEnv (Some ''pool'') [] =
     (case call_uint testEnv (Some ''pool'') ''getNumTokens'' [] of
        Inl e \<Rightarrow> (Inr None, [] @ [Logged ''ERROR: Failed to get number of tokens: '' e])
      | Inr v \<Rightarrow> (Inr (Some v), []))"
    using ch [of testEnv "Some ''alice''" "Some ''pool''" "[]"] by blast
  have h: "getBasetoken testEnv (Some ''pool'') [] =
     (case call_address testEnv (Some ''pool'') ''getBaseTokenAddress'' [] of
        Inl e \<Rightarrow> (Inr None, [] @ [Logged ''ERROR: Failed to get baseToken address: '' e])
      | Inr v \<Rightarrow> (Inr v, []))"
    using ch [of testEnv "Some ''alice''" "Some ''pool''" "[]"] by blast
  show ?thesis
    by (simp add: a b c d e f g h)
qed

section \<open>Decimals of a quote\<close>

text \<open>
  C2: the code converts the gross amount of a quote with the output token's decimals in
  both quotes. For the exact-out quote the gross amount is \<open>tokenAmountIn\<close>, an amount of
  the input token: on the reference chain (\<open>usdc\<close> with 6 decimals in, \<open>dt\<close> with 18
  decimals out) the pool answers 2000000 units, which is 2 \<open>usdc\<close>, and
  \<open>getAmountInExactOut\<close> returns \<open>2000000 / 10 ^ 18\<close>; the fees are converted with the
  input token's decimals, and the exact-in quote converts its gross amount, an amount of
  \<open>dt\<close>, with the decimals of \<open>dt\<close>.
\<close>

theorem exact_out_quote_converts_input_amount_with_output_decimals:
  "getAmountInExactOut testEnv (Some ''pool'') (Some ''usdc'') (Some ''dt'') 1 (1 / 1000)
       None None []
     = (Inr (Some \<lparr> tokenAmount = 2000000 / 10 ^ 18,
                     liquidityProviderSwapFeeAmount = 2000 / 10 ^ 6,
                     oceanFeeAmount = 200 / 10 ^ 6,
                     publishMarketSwapFeeAmount = 20 / 10 ^ 6,
                     consumeMarketSwapFeeAmount = 2 / 10 ^ 6 \<rparr>), [])
   \<and> getAmountOutExactIn testEnv (Some ''pool'') (Some ''usdc'') (Some ''dt'') 2 (1 / 1000)
       None None []
     = (Inr (Some \<lparr> tokenAmount = 1000000000000000000 / 10 ^ 18,
                     liquidityProviderSwapFeeAmount = 2000 / 10 ^ 6,
                     oceanFeeAmount = 200 / 10 ^ 6,
                     publishMarketSwapFeeAmount = 20 / 10 ^ 6,
                     consumeMarketSwapFeeAmount = 2 / 10 ^ 6 \<rparr>), [])"
  by (simp add: getAmountInExactOut_def getAmountOutExactIn_def getMaxSwapExactOut_def
      getMaxSwapExactIn_def getReserve_def io_defs env_defs)

section \<open>Gas limit of a submission\<close>

text \<open>
  C3: \<open>setSwapFee\<close> with the fee \<open>1\<close> submits with the bare estimate as gas limit
  (21000 on the reference chain), where \<open>collectOPC\<close> and every other mutating method
  submit with the estimate plus one (21001); both ask the fair gas price right before the
  submission. (The estimation of \<open>setSwapFee\<close> is made with the fee as given, the
  submission with the fee in wei.)
\<close>

theorem setSwapFee_submits_with_bare_estimate:
  "setSwapFee testEnv (Some ''alice'') (Some ''pool'') 1 False []
     = (Inr (Receipt (Some [])),
        [Estimated (Some ''pool'') ''setSwapFee'' [ADec 1] (Some ''alice''),
         PriceQueried 101,
         Sent (Some ''pool'') ''setSwapFee'' [AInt 1000000000000000000] (Some ''alice'') 21000 101])
   \<and> collectOPC testEnv (Some ''alice'') (Some ''pool'') False []
     = (Inr (Receipt (Some [])),
        [Estimated (Some ''pool'') ''collectOPC'' [] (Some ''alice''),
         PriceQueried 101,
         Sent (Some ''pool'') ''collectOPC'' [] (Some ''alice'') 21001 101])"
  by (simp add: setSwapFee_def collectOPC_def io_defs env_defs)

section \<open>Units of a returned balance\<close>

text \<open>
  C9: \<open>getBasetokenBalance\<close> returns the contract's integer answer as it is: on the
  reference chain 2500000 units of \<open>usdc\<close> (2.5 \<open>usdc\<close>) come back as 2500000, where
  \<open>getDatatokenBalance\<close> converts 2500000000000000000 units of \<open>dt\<close> to 2.5.
\<close>

theorem getBasetokenBalance_returns_integer_units:
  "getBasetokenBalance testEnv (Some ''ss'') (Some ''dt'') [] = (Inr 2500000, [])
   \<and> getDatatokenBalance testEnv (Some ''ss'') (Some ''dt'') None [] = (Inr (5 / 2), [])"
  by (simp add: getBasetokenBalance_def getDatatokenBalance_def io_defs env_defs)

end
